theory Spec2Isabelle
  imports Main "HOL-Library.Word" "HOL-Library.Multiset"
begin

section \<open>The Elastigroup task of package spotinsttasks\<close>

text \<open>
  A shallow embedding of \<^verbatim>\<open>upup/pkg/fi/cloudup/spotinsttasks/elastigroup.go\<close>.
  Pointers that may be nil are options, slices that may be nil are optional lists,
  Go maps are optional partial functions, and every error return and every nil
  dereference of the source is a value of type \<open>error\<close>.  The cloud (Spotinst and AWS
  clients), the Terraform target and the library functions the file calls are
  parameters of the model.
\<close>

subsection \<open>Go values\<close>

text \<open>\<^verbatim>\<open>int64\<close>, and \<^verbatim>\<open>int\<close> on the 64-bit platforms kops is built for; the
  conversions \<^verbatim>\<open>int(x)\<close> and \<^verbatim>\<open>int64(x)\<close> between them keep the bits.\<close>

type_synonym int64 = "64 word"
type_synonym go_int = "64 word"

text \<open>Floating point numbers are only handed through, never computed with.\<close>

typedecl float64

text \<open>Modelled from the spec: the helpers \<^verbatim>\<open>fi.StringValue\<close>, \<^verbatim>\<open>fi.IntValue\<close>,
  \<^verbatim>\<open>fi.Int64Value\<close> and \<^verbatim>\<open>fi.BoolValue\<close> of package \<^verbatim>\<open>fi\<close> (not part of the
  file): the value behind the pointer, the zero value for nil.\<close>

definition StringValue :: "string option \<Rightarrow> string" where
  "StringValue s = (case s of None \<Rightarrow> [] | Some v \<Rightarrow> v)"

definition IntValue :: "go_int option \<Rightarrow> go_int" where
  "IntValue i = (case i of None \<Rightarrow> 0 | Some v \<Rightarrow> v)"

definition Int64Value :: "int64 option \<Rightarrow> int64" where
  "Int64Value i = (case i of None \<Rightarrow> 0 | Some v \<Rightarrow> v)"

definition BoolValue :: "bool option \<Rightarrow> bool" where
  "BoolValue b = (case b of None \<Rightarrow> False | Some v \<Rightarrow> v)"

text \<open>\<^verbatim>\<open>range\<close> over a slice and \<^verbatim>\<open>len\<close>: a nil slice has no elements.\<close>

definition elems :: "'a list option \<Rightarrow> 'a list" where
  "elems xs = (case xs of None \<Rightarrow> [] | Some ys \<Rightarrow> ys)"

text \<open>\<^verbatim>\<open>strings.HasPrefix\<close>, \<^verbatim>\<open>strings.TrimPrefix\<close> and \<^verbatim>\<open>strings.Contains\<close>.\<close>

fun HasPrefix :: "string \<Rightarrow> string \<Rightarrow> bool" where
  "HasPrefix s [] = True"
| "HasPrefix [] (p # ps) = False"
| "HasPrefix (c # cs) (p # ps) = (c = p \<and> HasPrefix cs ps)"

definition TrimPrefix :: "string \<Rightarrow> string \<Rightarrow> string" where
  "TrimPrefix s p = (if HasPrefix s p then drop (length p) s else s)"

fun Contains :: "string \<Rightarrow> string \<Rightarrow> bool" where
  "Contains [] sub = (sub = [])"
| "Contains (c # cs) sub = (HasPrefix (c # cs) sub \<or> Contains cs sub)"

subsection \<open>Errors\<close>

text \<open>An element of the Spotinst client's \<^verbatim>\<open>client.Errors\<close>, and a Go \<^verbatim>\<open>error\<close>
  as a collaborator returns it: either such a collection or any other error value.\<close>

record client_Error =
  err_Code :: string
  err_Message :: string

datatype go_error = ClientErrors "client_Error list" | OtherError string

text \<open>What the functions of the file return as their error: one constructor for each
  \<^verbatim>\<open>fmt.Errorf\<close> of the file, \<open>Upstream\<close> for an error handed on as it came, and
  \<open>NilDereference\<close> for the panic of reading through a nil pointer (the argument names
  the expression).\<close>

datatype error =
    RequiredField string
  | FindListFailed string go_error
  | FindNotFound string
  | ResolveImageFailed string go_error
  | ResolveImageNotFound string
  | FoundBothFind string string
  | FoundBothCreate
  | IAMNotReady client_Error
  | CreateFailed go_error
  | LookupELBFailed go_error
  | LookupNLBFailed go_error
  | UpdateFailed go_error
  | MultipleRoleTags string string
  | Upstream go_error
  | NilDereference string

subsection \<open>The task and its option groups\<close>

text \<open>The tasks of package \<^verbatim>\<open>awstasks\<close> an Elastigroup refers to, with the fields
  the file reads or writes.\<close>

record IAMInstanceProfile =
  iam_Name :: "string option"

record ClassicLoadBalancer =
  clb_Name :: "string option"

record SSHKey =
  key_Name :: "string option"

record Subnet =
  subnet_Name :: "string option"
  subnet_ID :: "string option"

record SecurityGroup =
  sg_Name :: "string option"
  sg_ID :: "string option"

datatype Taint = Taint string string string

text \<open>A \<^verbatim>\<open>fi.Resource\<close> is what reading it gives: its content or an error.\<close>

type_synonym Resource = "go_error + string"

definition ResourceAsString :: "Resource \<Rightarrow> go_error + string" where
  "ResourceAsString r = r"

definition NewStringResource :: "string \<Rightarrow> Resource" where
  "NewStringResource s = Inr s"

record RootVolumeOpts =
  rv_Type :: "string option"
  rv_Size :: "int64 option"
  rv_IOPS :: "int64 option"
  rv_Throughput :: "int64 option"
  rv_Optimization :: "bool option"

record AutoScalerHeadroomOpts =
  hr_CPUPerUnit :: "go_int option"
  hr_GPUPerUnit :: "go_int option"
  hr_MemPerUnit :: "go_int option"
  hr_NumOfUnits :: "go_int option"

record AutoScalerDownOpts =
  dn_MaxPercentage :: "float64 option"
  dn_EvaluationPeriods :: "go_int option"

record AutoScalerResourceLimitsOpts =
  rl_MaxVCPU :: "go_int option"
  rl_MaxMemory :: "go_int option"

record AutoScalerOpts =
  as_Enabled :: "bool option"
  as_AutoConfig :: "bool option"
  as_AutoHeadroomPercentage :: "go_int option"
  as_ClusterID :: "string option"
  as_Cooldown :: "go_int option"
  as_Labels :: "(string \<rightharpoonup> string) option"
  as_Taints :: "Taint list option"
  as_Headroom :: "AutoScalerHeadroomOpts option"
  as_Down :: "AutoScalerDownOpts option"
  as_ResourceLimits :: "AutoScalerResourceLimitsOpts option"

record Elastigroup =
  Name :: "string option"
  Lifecycle :: "string option"
  ID :: "string option"
  Region :: "string option"
  MinSize :: "int64 option"
  MaxSize :: "int64 option"
  SpotPercentage :: "float64 option"
  UtilizeReservedInstances :: "bool option"
  FallbackToOnDemand :: "bool option"
  DrainingTimeout :: "int64 option"
  HealthCheckType :: "string option"
  Product :: "string option"
  Orientation :: "string option"
  Tags :: "(string \<rightharpoonup> string) option"
  UserData :: "Resource option"
  ImageID :: "string option"
  OnDemandInstanceType :: "string option"
  SpotInstanceTypes :: "string list option"
  IAMInstanceProfile :: "IAMInstanceProfile option"
  LoadBalancer :: "ClassicLoadBalancer option"
  SSHKey :: "SSHKey option"
  Subnets :: "Subnet list option"
  SecurityGroups :: "SecurityGroup list option"
  Monitoring :: "bool option"
  AssociatePublicIP :: "bool option"
  Tenancy :: "string option"
  RootVolumeOpts :: "RootVolumeOpts option"
  AutoScalerOpts :: "AutoScalerOpts option"

text \<open>\<^verbatim>\<open>&Elastigroup{}\<close>: every field nil.\<close>

definition empty_Elastigroup :: Elastigroup where
  "empty_Elastigroup = \<lparr> Name = None, Lifecycle = None, ID = None, Region = None,
     MinSize = None, MaxSize = None, SpotPercentage = None,
     UtilizeReservedInstances = None, FallbackToOnDemand = None, DrainingTimeout = None,
     HealthCheckType = None, Product = None, Orientation = None, Tags = None,
     UserData = None, ImageID = None, OnDemandInstanceType = None,
     SpotInstanceTypes = None, IAMInstanceProfile = None, LoadBalancer = None,
     SSHKey = None, Subnets = None, SecurityGroups = None, Monitoring = None,
     AssociatePublicIP = None, Tenancy = None, RootVolumeOpts = None,
     AutoScalerOpts = None \<rparr>"

subsection \<open>The provider's group\<close>

text \<open>\<^verbatim>\<open>aws.Group\<close> of the Spotinst SDK and the structures under it, with the fields
  the file touches.  A setter \<^verbatim>\<open>SetX(v)\<close> is the assignment of \<open>v\<close> to the field.\<close>

record Capacity =
  cap_Minimum :: "go_int option"
  cap_Maximum :: "go_int option"
  cap_Target :: "go_int option"

record Strategy =
  st_Risk :: "float64 option"
  st_AvailabilityVsCost :: "string option"
  st_FallbackToOnDemand :: "bool option"
  st_UtilizeReservedInstances :: "bool option"
  st_DrainingTimeout :: "go_int option"

record InstanceTypes =
  it_OnDemand :: "string option"
  it_Spot :: "string list option"

record EBS =
  ebs_DeleteOnTermination :: "bool option"
  ebs_SnapshotID :: "string option"
  ebs_VolumeType :: "string option"
  ebs_VolumeSize :: "go_int option"
  ebs_IOPS :: "go_int option"
  ebs_Throughput :: "go_int option"

record aws_BlockDeviceMapping =
  abd_DeviceName :: "string option"
  abd_VirtualName :: "string option"
  abd_EBS :: "EBS option"

record NetworkInterface =
  ni_Description :: "string option"
  ni_DeviceIndex :: "go_int option"
  ni_DeleteOnTermination :: "bool option"
  ni_AssociatePublicIPAddress :: "bool option"

record aws_LoadBalancer =
  alb_Name :: "string option"
  alb_Type :: "string option"

record LoadBalancersConfig =
  lbc_LoadBalancers :: "aws_LoadBalancer list option"

record aws_Tag =
  tag_Key :: "string option"
  tag_Value :: "string option"

record aws_IAMInstanceProfile =
  aip_Name :: "string option"

record LaunchSpecification =
  ls_LoadBalancersConfig :: "LoadBalancersConfig option"
  ls_SecurityGroupIDs :: "string list option"
  ls_HealthCheckType :: "string option"
  ls_ImageID :: "string option"
  ls_KeyPair :: "string option"
  ls_UserData :: "string option"
  ls_Tenancy :: "string option"
  ls_Monitoring :: "bool option"
  ls_EBSOptimized :: "bool option"
  ls_IAMInstanceProfile :: "aws_IAMInstanceProfile option"
  ls_BlockDeviceMappings :: "aws_BlockDeviceMapping list option"
  ls_NetworkInterfaces :: "NetworkInterface list option"
  ls_Tags :: "aws_Tag list option"

record Compute =
  cmp_Product :: "string option"
  cmp_InstanceTypes :: "InstanceTypes option"
  cmp_LaunchSpecification :: "LaunchSpecification option"
  cmp_SubnetIDs :: "string list option"

record AutoScaleHeadroom =
  ah_CPUPerUnit :: "go_int option"
  ah_GPUPerUnit :: "go_int option"
  ah_MemoryPerUnit :: "go_int option"
  ah_NumOfUnits :: "go_int option"

record AutoScaleDown =
  ad_EvaluationPeriods :: "go_int option"
  ad_MaxScaleDownPercentage :: "float64 option"

record AutoScaleLabel =
  al_Key :: "string option"
  al_Value :: "string option"

record AutoScaleKubernetes =
  ak_IsEnabled :: "bool option"
  ak_IsAutoConfig :: "bool option"
  ak_Cooldown :: "go_int option"
  ak_Headroom :: "AutoScaleHeadroom option"
  ak_Down :: "AutoScaleDown option"
  ak_Labels :: "AutoScaleLabel list option"

record KubernetesIntegration =
  ki_IntegrationMode :: "string option"
  ki_ClusterIdentifier :: "string option"
  ki_AutoScale :: "AutoScaleKubernetes option"

record Integration =
  in_Kubernetes :: "KubernetesIntegration option"

record Group =
  grp_ID :: "string option"
  grp_Name :: "string option"
  grp_Description :: "string option"
  grp_Region :: "string option"
  grp_Capacity :: "Capacity option"
  grp_Strategy :: "Strategy option"
  grp_Compute :: "Compute option"
  grp_Integration :: "Integration option"

text \<open>\<^verbatim>\<open>new(T)\<close> for the structures the file allocates: every field nil.\<close>

definition new_Capacity :: Capacity where
  "new_Capacity = \<lparr> cap_Minimum = None, cap_Maximum = None, cap_Target = None \<rparr>"

definition new_Strategy :: Strategy where
  "new_Strategy = \<lparr> st_Risk = None, st_AvailabilityVsCost = None,
     st_FallbackToOnDemand = None, st_UtilizeReservedInstances = None,
     st_DrainingTimeout = None \<rparr>"

definition new_InstanceTypes :: InstanceTypes where
  "new_InstanceTypes = \<lparr> it_OnDemand = None, it_Spot = None \<rparr>"

definition new_LaunchSpecification :: LaunchSpecification where
  "new_LaunchSpecification = \<lparr> ls_LoadBalancersConfig = None, ls_SecurityGroupIDs = None,
     ls_HealthCheckType = None, ls_ImageID = None, ls_KeyPair = None, ls_UserData = None,
     ls_Tenancy = None, ls_Monitoring = None, ls_EBSOptimized = None,
     ls_IAMInstanceProfile = None, ls_BlockDeviceMappings = None,
     ls_NetworkInterfaces = None, ls_Tags = None \<rparr>"

definition new_Compute :: Compute where
  "new_Compute = \<lparr> cmp_Product = None, cmp_InstanceTypes = None,
     cmp_LaunchSpecification = None, cmp_SubnetIDs = None \<rparr>"

definition new_AutoScaleKubernetes :: AutoScaleKubernetes where
  "new_AutoScaleKubernetes = \<lparr> ak_IsEnabled = None, ak_IsAutoConfig = None,
     ak_Cooldown = None, ak_Headroom = None, ak_Down = None, ak_Labels = None \<rparr>"

definition new_KubernetesIntegration :: KubernetesIntegration where
  "new_KubernetesIntegration = \<lparr> ki_IntegrationMode = None, ki_ClusterIdentifier = None,
     ki_AutoScale = None \<rparr>"

definition new_Group :: Group where
  "new_Group = \<lparr> grp_ID = None, grp_Name = None, grp_Description = None,
     grp_Region = None, grp_Capacity = None, grp_Strategy = None, grp_Compute = None,
     grp_Integration = None \<rparr>"

definition new_RootVolumeOpts :: RootVolumeOpts where
  "new_RootVolumeOpts = \<lparr> rv_Type = None, rv_Size = None, rv_IOPS = None,
     rv_Throughput = None, rv_Optimization = None \<rparr>"

definition new_AutoScalerHeadroomOpts :: AutoScalerHeadroomOpts where
  "new_AutoScalerHeadroomOpts = \<lparr> hr_CPUPerUnit = None, hr_GPUPerUnit = None,
     hr_MemPerUnit = None, hr_NumOfUnits = None \<rparr>"

definition new_AutoScalerOpts :: AutoScalerOpts where
  "new_AutoScalerOpts = \<lparr> as_Enabled = None, as_AutoConfig = None,
     as_AutoHeadroomPercentage = None, as_ClusterID = None, as_Cooldown = None,
     as_Labels = None, as_Taints = None, as_Headroom = None, as_Down = None,
     as_ResourceLimits = None \<rparr>"

subsection \<open>The cloud\<close>

text \<open>The block device mapping of package \<^verbatim>\<open>awstasks\<close>, the image the AWS client
  resolves, the two kinds of load balancer it finds by name tag, and the ephemeral
  devices of a machine type.\<close>

record BlockDeviceMapping =
  bd_DeviceName :: "string option"
  bd_VirtualName :: "string option"
  bd_EbsDeleteOnTermination :: "bool option"
  bd_EbsVolumeSize :: "int64 option"
  bd_EbsVolumeType :: "string option"
  bd_EbsVolumeIops :: "int64 option"
  bd_EbsVolumeThroughput :: "int64 option"

record Image =
  img_ImageId :: "string option"
  img_RootDeviceName :: "string option"

record LoadBalancerDescription =
  elb_LoadBalancerName :: "string option"

record LoadBalancerV2 =
  nlb_LoadBalancerName :: "string option"

record EphemeralDevice =
  ed_DeviceName :: string
  ed_VirtualName :: string

text \<open>What the file asks of its collaborators.  \<open>List\<close> is the listing of the
  provider's groups; \<open>Create\<close> answers the \<open>n\<close>-th call of one \<^verbatim>\<open>create\<close> (the
  provider may answer each attempt differently); \<open>NewElastigroup\<close> is the error of
  wrapping the raw group, if any.  The library functions of \<^verbatim>\<open>encoding/base64\<close>
  and \<^verbatim>\<open>strings.ToLower\<close>, and \<^verbatim>\<open>utils.StringSlicesEqualIgnoreOrder\<close>, are taken
  as given.\<close>

record cloud =
  List :: "go_error + Group list"
  Create :: "nat \<Rightarrow> Group \<Rightarrow> go_error + string"
  Update :: "Group \<Rightarrow> go_error option"
  NewElastigroup :: "Group \<Rightarrow> go_error option"
  ResolveImage :: "string \<Rightarrow> go_error + Image option"
  FindELBByNameTag :: "string \<Rightarrow> go_error + LoadBalancerDescription option"
  FindELBV2ByNameTag :: "string \<Rightarrow> go_error + LoadBalancerV2 option"
  GetMachineTypeInfo :: "string \<Rightarrow> go_error + EphemeralDevice list"
  EncodeToString :: "string \<Rightarrow> string"
  DecodeString :: "string \<Rightarrow> go_error + string"
  ToLower :: "string \<Rightarrow> string"
  StringSlicesEqualIgnoreOrder :: "string list \<Rightarrow> string list \<Rightarrow> bool"

subsection \<open>Small functions of the file\<close>

text \<open>\<^verbatim>\<open>type Orientation string\<close> and its four constants.\<close>

type_synonym Orientation = string

definition OrientationBalanced :: Orientation where
  "OrientationBalanced = ''balanced''"

definition OrientationCost :: Orientation where
  "OrientationCost = ''costOriented''"

definition OrientationAvailability :: Orientation where
  "OrientationAvailability = ''availabilityOriented''"

definition OrientationEqualZoneDistribution :: Orientation where
  "OrientationEqualZoneDistribution = ''equalAzDistribution''"

definition normalizeOrientation :: "string option \<Rightarrow> Orientation" where
  "normalizeOrientation orientation =
     (case orientation of
        None \<Rightarrow> OrientationBalanced
      | Some s \<Rightarrow>
          if s = ''cost'' then OrientationCost
          else if s = ''availability'' then OrientationAvailability
          else if s = ''equal-distribution'' then OrientationEqualZoneDistribution
          else OrientationBalanced)"

text \<open>\<^verbatim>\<open>CheckChanges(a, e, changes)\<close>: \<open>None\<close> is the nil error.\<close>

definition CheckChanges :: "Elastigroup option \<Rightarrow> Elastigroup \<Rightarrow> Elastigroup \<Rightarrow> error option" where
  "CheckChanges a e changes =
     (if Name e = None then Some (RequiredField ''Name'') else None)"

definition applyDefaults :: "Elastigroup \<Rightarrow> Elastigroup" where
  "applyDefaults e =
     (let e1 = (if FallbackToOnDemand e = None then e\<lparr>FallbackToOnDemand := Some True\<rparr> else e);
          e2 = (if UtilizeReservedInstances e1 = None
                then e1\<lparr>UtilizeReservedInstances := Some True\<rparr> else e1);
          e3 = (if Product e2 = None \<or> (Product e2 \<noteq> None \<and> StringValue (Product e2) = [])
                then e2\<lparr>Product := Some ''Linux/UNIX''\<rparr> else e2);
          e4 = (if Orientation e3 = None
                     \<or> (Orientation e3 \<noteq> None \<and> StringValue (Orientation e3) = [])
                then e3\<lparr>Orientation := Some ''balanced''\<rparr> else e3);
          e5 = (if Monitoring e4 = None then e4\<lparr>Monitoring := Some False\<rparr> else e4)
      in if HealthCheckType e5 = None then e5\<lparr>HealthCheckType := Some ''K8S_NODE''\<rparr> else e5)"

definition resolveImage :: "cloud \<Rightarrow> string \<Rightarrow> error + Image" where
  "resolveImage c name =
     (case ResolveImage c name of
        Inl err \<Rightarrow> Inl (ResolveImageFailed name err)
      | Inr None \<Rightarrow> Inl (ResolveImageNotFound name)
      | Inr (Some img) \<Rightarrow> Inr img)"

text \<open>\<^verbatim>\<open>buildRootDevice\<close> reads through \<^verbatim>\<open>volumeOpts\<close>, which \<^verbatim>\<open>create\<close> and
  \<^verbatim>\<open>RenderTerraform\<close> pass unchecked: nil panics, after the image was resolved.\<close>

definition buildRootDevice ::
  "cloud \<Rightarrow> RootVolumeOpts option \<Rightarrow> string option \<Rightarrow> error + BlockDeviceMapping" where
  "buildRootDevice c volumeOpts imageID =
     (case resolveImage c (StringValue imageID) of
        Inl err \<Rightarrow> Inl err
      | Inr img \<Rightarrow>
          (case volumeOpts of
             None \<Rightarrow> Inl (NilDereference ''volumeOpts'')
           | Some opts \<Rightarrow>
               (let bdm = \<lparr> bd_DeviceName = img_RootDeviceName img,
                            bd_VirtualName = None,
                            bd_EbsDeleteOnTermination = Some True,
                            bd_EbsVolumeSize = rv_Size opts,
                            bd_EbsVolumeType = rv_Type opts,
                            bd_EbsVolumeIops = None,
                            bd_EbsVolumeThroughput = None \<rparr>;
                    bdm1 = (if rv_IOPS opts \<noteq> None \<and> StringValue (rv_Type opts) \<noteq> ''gp2''
                            then bdm\<lparr>bd_EbsVolumeIops := rv_IOPS opts\<rparr> else bdm);
                    bdm2 = (if rv_Throughput opts \<noteq> None \<and> StringValue (rv_Type opts) = ''gp3''
                            then bdm1\<lparr>bd_EbsVolumeThroughput := rv_Throughput opts\<rparr> else bdm1)
                in Inr bdm2)))"

definition buildEphemeralDevices ::
  "cloud \<Rightarrow> string option \<Rightarrow> error + BlockDeviceMapping list" where
  "buildEphemeralDevices c machineType =
     (case GetMachineTypeInfo c (StringValue machineType) of
        Inl err \<Rightarrow> Inl (Upstream err)
      | Inr devices \<Rightarrow>
          Inr (map (\<lambda>ed. \<lparr> bd_DeviceName = Some (ed_DeviceName ed),
                            bd_VirtualName = Some (ed_VirtualName ed),
                            bd_EbsDeleteOnTermination = None,
                            bd_EbsVolumeSize = None,
                            bd_EbsVolumeType = None,
                            bd_EbsVolumeIops = None,
                            bd_EbsVolumeThroughput = None \<rparr>) devices))"

definition convertBlockDeviceMapping :: "BlockDeviceMapping \<Rightarrow> aws_BlockDeviceMapping" where
  "convertBlockDeviceMapping i =
     (let out = \<lparr> abd_DeviceName = bd_DeviceName i, abd_VirtualName = bd_VirtualName i,
                  abd_EBS = None \<rparr>
      in if bd_EbsDeleteOnTermination i \<noteq> None \<or> bd_EbsVolumeSize i \<noteq> None
            \<or> bd_EbsVolumeType i \<noteq> None
         then
           (let ebs = \<lparr> ebs_DeleteOnTermination = bd_EbsDeleteOnTermination i,
                        ebs_SnapshotID = None,
                        ebs_VolumeType = bd_EbsVolumeType i,
                        ebs_VolumeSize = Some (Int64Value (bd_EbsVolumeSize i)),
                        ebs_IOPS = None,
                        ebs_Throughput = None \<rparr>;
                ebs1 = (if bd_EbsVolumeIops i \<noteq> None \<and> StringValue (bd_EbsVolumeType i) \<noteq> ''gp2''
                        then ebs\<lparr>ebs_IOPS := Some (Int64Value (bd_EbsVolumeIops i))\<rparr> else ebs);
                ebs2 = (if bd_EbsVolumeThroughput i \<noteq> None
                           \<and> StringValue (bd_EbsVolumeType i) = ''gp3''
                        then ebs1\<lparr>ebs_Throughput := Some (Int64Value (bd_EbsVolumeThroughput i))\<rparr>
                        else ebs1)
            in out\<lparr>abd_EBS := Some ebs2\<rparr>)
         else out)"

text \<open>\<^verbatim>\<open>range\<close> over a Go map visits every entry once, in an order the runtime chooses
  anew for each loop.  A loop over a map therefore takes the sequence of entries it is
  given; \<open>range_of m kvs\<close> says that \<open>kvs\<close> is such a sequence for the map \<open>m\<close> (nil
  has none to visit).\<close>

definition range_of :: "(string \<rightharpoonup> string) option \<Rightarrow> (string \<times> string) list \<Rightarrow> bool" where
  "range_of m kvs =
     (case m of None \<Rightarrow> kvs = []
      | Some f \<Rightarrow> distinct (map fst kvs) \<and> map_of kvs = f)"

definition buildTags :: "(string \<times> string) list \<Rightarrow> aws_Tag list" where
  "buildTags kvs = map (\<lambda>(key, v). \<lparr> tag_Key = Some key, tag_Value = Some v \<rparr>) kvs"

definition buildAutoScaleLabels :: "(string \<times> string) list \<Rightarrow> AutoScaleLabel list" where
  "buildAutoScaleLabels kvs = map (\<lambda>(key, v). \<lparr> al_Key = Some key, al_Value = Some v \<rparr>) kvs"

text \<open>\<^verbatim>\<open>find\<close>: the first listed group of that name.  \<^verbatim>\<open>group.Name()\<close> of the
  listing's wrapper is the group's name, empty for nil.\<close>

fun find_first :: "Group list \<Rightarrow> string \<Rightarrow> Group option" where
  "find_first [] name = None"
| "find_first (g # gs) name =
     (if StringValue (grp_Name g) = name then Some g else find_first gs name)"

definition find :: "cloud \<Rightarrow> string \<Rightarrow> error + Group" where
  "find c name =
     (case List c of
        Inl err \<Rightarrow> Inl (FindListFailed name err)
      | Inr groups \<Rightarrow>
          (case find_first groups name of
             None \<Rightarrow> Inl (FindNotFound name)
           | Some out \<Rightarrow> Inr out))"

text \<open>\<^verbatim>\<open>CheckExisting\<close> dereferences the name before it looks.\<close>

definition CheckExisting :: "cloud \<Rightarrow> Elastigroup \<Rightarrow> error + bool" where
  "CheckExisting c e =
     (case Name e of
        None \<Rightarrow> Inl (NilDereference ''e.Name'')
      | Some name \<Rightarrow> Inr (case find c name of Inl err \<Rightarrow> False | Inr g \<Rightarrow> True))"

subsection \<open>create\<close>

text \<open>Sequencing of steps that may fail: the first error ends the function.\<close>

definition and_then :: "error + 'a \<Rightarrow> ('a \<Rightarrow> error + 'b) \<Rightarrow> error + 'b" where
  "and_then m f = (case m of Inl err \<Rightarrow> Inl err | Inr x \<Rightarrow> f x)"

text \<open>The sequences the three loops over maps are given: the role loop of
  \<^verbatim>\<open>RenderTerraform\<close> over the tags, the loops over the auto scaler's labels, and
  \<^verbatim>\<open>buildTags\<close>.\<close>

record ranges =
  rng_role :: "(string \<times> string) list"
  rng_labels :: "(string \<times> string) list"
  rng_tags :: "(string \<times> string) list"

definition Labels_of :: "Elastigroup \<Rightarrow> (string \<rightharpoonup> string) option" where
  "Labels_of e = (case AutoScalerOpts e of None \<Rightarrow> None | Some opts \<Rightarrow> as_Labels opts)"

definition ranges_of :: "Elastigroup \<Rightarrow> ranges \<Rightarrow> bool" where
  "ranges_of e r =
     (range_of (Tags e) (rng_role r) \<and> range_of (Labels_of e) (rng_labels r)
      \<and> range_of (Tags e) (rng_tags r))"

text \<open>The blocks of \<^verbatim>\<open>create\<close> that fill the group, in the order of the source.
  Capacity reads through \<^verbatim>\<open>e.MinSize\<close> and \<^verbatim>\<open>e.MaxSize\<close>.\<close>

definition create_capacity :: "Elastigroup \<Rightarrow> error + Capacity" where
  "create_capacity e =
     (case MinSize e of
        None \<Rightarrow> Inl (NilDereference ''e.MinSize'')
      | Some mn \<Rightarrow>
          (case MaxSize e of
             None \<Rightarrow> Inl (NilDereference ''e.MaxSize'')
           | Some mx \<Rightarrow>
               Inr (new_Capacity\<lparr>cap_Target := Some mn, cap_Minimum := Some mn,
                      cap_Maximum := Some mx\<rparr>)))"

definition create_strategy :: "Elastigroup \<Rightarrow> Strategy" where
  "create_strategy e =
     (let s = new_Strategy\<lparr>st_Risk := SpotPercentage e,
                st_AvailabilityVsCost := Some (normalizeOrientation (Orientation e)),
                st_FallbackToOnDemand := FallbackToOnDemand e,
                st_UtilizeReservedInstances := UtilizeReservedInstances e\<rparr>
      in case DrainingTimeout e of None \<Rightarrow> s | Some d \<Rightarrow> s\<lparr>st_DrainingTimeout := Some d\<rparr>)"

definition subnetIDs :: "Elastigroup \<Rightarrow> string list" where
  "subnetIDs e = map (\<lambda>subnet. StringValue (subnet_ID subnet)) (elems (Subnets e))"

text \<open>The root device and the ephemeral devices, converted.\<close>

definition blockDeviceMappings ::
  "cloud \<Rightarrow> RootVolumeOpts option \<Rightarrow> Elastigroup \<Rightarrow> error + aws_BlockDeviceMapping list" where
  "blockDeviceMappings c opts e =
     and_then (buildRootDevice c opts (ImageID e)) (\<lambda>rootDevice.
     and_then (buildEphemeralDevices c (OnDemandInstanceType e)) (\<lambda>ephemeralDevices.
     Inr (convertBlockDeviceMapping rootDevice # map convertBlockDeviceMapping ephemeralDevices)))"

text \<open>\<^verbatim>\<open>securityGroupIDs[i] = *sg.ID\<close>.\<close>

fun securityGroupIDs :: "SecurityGroup list \<Rightarrow> error + string list" where
  "securityGroupIDs [] = Inr []"
| "securityGroupIDs (sg # sgs) =
     (case sg_ID sg of
        None \<Rightarrow> Inl (NilDereference ''sg.ID'')
      | Some i \<Rightarrow> and_then (securityGroupIDs sgs) (\<lambda>ids. Inr (i # ids)))"

definition eth0 :: "bool option \<Rightarrow> NetworkInterface" where
  "eth0 associate = \<lparr> ni_Description = Some ''eth0'', ni_DeviceIndex = Some 0,
     ni_DeleteOnTermination = Some True, ni_AssociatePublicIPAddress = associate \<rparr>"

definition loadBalancersConfig :: "string option \<Rightarrow> string \<Rightarrow> LoadBalancersConfig" where
  "loadBalancersConfig name typ =
     \<lparr> lbc_LoadBalancers = Some [\<lparr> alb_Name = name, alb_Type = Some typ \<rparr>] \<rparr>"

text \<open>The load balancer block of \<^verbatim>\<open>create\<close>: the classic load balancer is looked
  up, then the network one; finding both is an error.\<close>

definition create_loadBalancer ::
  "cloud \<Rightarrow> Elastigroup \<Rightarrow> LaunchSpecification \<Rightarrow> error + LaunchSpecification" where
  "create_loadBalancer c e ls =
     (case LoadBalancer e of
        None \<Rightarrow> Inr ls
      | Some lb \<Rightarrow>
          (case FindELBByNameTag c (StringValue (clb_Name lb)) of
             Inl err \<Rightarrow> Inl (Upstream err)
           | Inr elb \<Rightarrow>
               (let ls1 = (case elb of
                             None \<Rightarrow> ls
                           | Some d \<Rightarrow> ls\<lparr>ls_LoadBalancersConfig :=
                               Some (loadBalancersConfig (elb_LoadBalancerName d) ''CLASSIC'')\<rparr>)
                in case FindELBV2ByNameTag c (StringValue (clb_Name lb)) of
                     Inl err \<Rightarrow> Inl (Upstream err)
                   | Inr nlb \<Rightarrow>
                       if elb \<noteq> None \<and> nlb \<noteq> None then Inl FoundBothCreate
                       else (case nlb of
                               None \<Rightarrow> Inr ls1
                             | Some n \<Rightarrow> Inr (ls1\<lparr>ls_LoadBalancersConfig :=
                                 Some (loadBalancersConfig (nlb_LoadBalancerName n) ''NETWORK'')\<rparr>)))))"

definition create_userData ::
  "cloud \<Rightarrow> Elastigroup \<Rightarrow> LaunchSpecification \<Rightarrow> error + LaunchSpecification" where
  "create_userData c e ls =
     (case UserData e of
        None \<Rightarrow> Inr ls
      | Some r \<Rightarrow>
          (case ResourceAsString r of
             Inl err \<Rightarrow> Inl (Upstream err)
           | Inr userData \<Rightarrow>
               if length userData > 0
               then Inr (ls\<lparr>ls_UserData := Some (EncodeToString c userData)\<rparr>)
               else Inr ls))"

definition create_keyPair :: "Elastigroup \<Rightarrow> LaunchSpecification \<Rightarrow> error + LaunchSpecification" where
  "create_keyPair e ls =
     (let ls1 = ls\<lparr>ls_Monitoring := Monitoring e\<rparr>
      in case SSHKey e of
           None \<Rightarrow> Inl (NilDereference ''e.SSHKey'')
         | Some k \<Rightarrow>
             (let ls2 = ls1\<lparr>ls_KeyPair := key_Name k\<rparr>
              in Inr (if Tenancy e \<noteq> None then ls2\<lparr>ls_Tenancy := Tenancy e\<rparr> else ls2)))"

definition create_blockDeviceMappings ::
  "cloud \<Rightarrow> Elastigroup \<Rightarrow> LaunchSpecification \<Rightarrow> error + LaunchSpecification" where
  "create_blockDeviceMappings c e ls =
     and_then (blockDeviceMappings c (RootVolumeOpts e) e) (\<lambda>mappings.
     Inr (ls\<lparr>ls_BlockDeviceMappings := Some mappings\<rparr>))"

definition create_image ::
  "cloud \<Rightarrow> Elastigroup \<Rightarrow> LaunchSpecification \<Rightarrow> error + LaunchSpecification" where
  "create_image c e ls =
     and_then (resolveImage c (StringValue (ImageID e))) (\<lambda>img.
     Inr (ls\<lparr>ls_ImageID := img_ImageId img\<rparr>))"

definition create_iamInstanceProfile :: "Elastigroup \<Rightarrow> LaunchSpecification \<Rightarrow> LaunchSpecification" where
  "create_iamInstanceProfile e ls =
     (case IAMInstanceProfile e of
        None \<Rightarrow> ls
      | Some p \<Rightarrow> ls\<lparr>ls_IAMInstanceProfile := Some \<lparr> aip_Name = iam_Name p \<rparr>\<rparr>)"

definition create_securityGroups ::
  "Elastigroup \<Rightarrow> LaunchSpecification \<Rightarrow> error + LaunchSpecification" where
  "create_securityGroups e ls =
     (case SecurityGroups e of
        None \<Rightarrow> Inr ls
      | Some sgs \<Rightarrow>
          and_then (securityGroupIDs sgs) (\<lambda>ids. Inr (ls\<lparr>ls_SecurityGroupIDs := Some ids\<rparr>)))"

definition create_publicIP :: "Elastigroup \<Rightarrow> LaunchSpecification \<Rightarrow> LaunchSpecification" where
  "create_publicIP e ls =
     (if AssociatePublicIP e \<noteq> None
      then ls\<lparr>ls_NetworkInterfaces := Some [eth0 (AssociatePublicIP e)]\<rparr> else ls)"

definition create_tags :: "ranges \<Rightarrow> Elastigroup \<Rightarrow> LaunchSpecification \<Rightarrow> LaunchSpecification" where
  "create_tags r e ls =
     (let ls1 = (if Tags e \<noteq> None then ls\<lparr>ls_Tags := Some (buildTags (rng_tags r))\<rparr> else ls)
      in if HealthCheckType e \<noteq> None
         then ls1\<lparr>ls_HealthCheckType := HealthCheckType e\<rparr> else ls1)"

definition create_launchSpecification ::
  "cloud \<Rightarrow> ranges \<Rightarrow> Elastigroup \<Rightarrow> error + LaunchSpecification" where
  "create_launchSpecification c r e =
     and_then (create_keyPair e new_LaunchSpecification) (\<lambda>ls1.
     and_then (create_blockDeviceMappings c e ls1) (\<lambda>ls2.
     and_then (create_image c e ls2) (\<lambda>ls3.
     and_then (create_userData c e ls3) (\<lambda>ls4.
     and_then (create_securityGroups e (create_iamInstanceProfile e ls4)) (\<lambda>ls5.
     and_then (create_loadBalancer c e (create_publicIP e ls5)) (\<lambda>ls6.
     Inr (create_tags r e ls6)))))))"

text \<open>The auto scaler block of \<^verbatim>\<open>create\<close>.\<close>

definition create_autoScaler :: "ranges \<Rightarrow> AutoScalerOpts \<Rightarrow> AutoScaleKubernetes" where
  "create_autoScaler r opts =
     (let a0 = new_AutoScaleKubernetes\<lparr>ak_IsEnabled := as_Enabled opts,
                 ak_IsAutoConfig := Some True, ak_Cooldown := as_Cooldown opts\<rparr>;
          a1 = (case as_Headroom opts of
                  None \<Rightarrow> a0
                | Some headroom \<Rightarrow>
                    a0\<lparr>ak_IsAutoConfig := Some False,
                       ak_Headroom := Some \<lparr> ah_CPUPerUnit = hr_CPUPerUnit headroom,
                         ah_GPUPerUnit = hr_GPUPerUnit headroom,
                         ah_MemoryPerUnit = hr_MemPerUnit headroom,
                         ah_NumOfUnits = hr_NumOfUnits headroom \<rparr>\<rparr>);
          a2 = (case as_Down opts of
                  None \<Rightarrow> a1
                | Some down \<Rightarrow>
                    a1\<lparr>ak_Down := Some \<lparr> ad_EvaluationPeriods = dn_EvaluationPeriods down,
                         ad_MaxScaleDownPercentage = dn_MaxPercentage down \<rparr>\<rparr>)
      in if as_Labels opts \<noteq> None
         then a2\<lparr>ak_Labels := Some (buildAutoScaleLabels (rng_labels r))\<rparr> else a2)"

definition create_integration :: "ranges \<Rightarrow> Elastigroup \<Rightarrow> Integration option" where
  "create_integration r e =
     (case AutoScalerOpts e of
        None \<Rightarrow> None
      | Some opts \<Rightarrow>
          (let k8s = new_KubernetesIntegration\<lparr>ki_IntegrationMode := Some ''pod'',
                       ki_ClusterIdentifier := as_ClusterID opts\<rparr>
           in Some \<lparr> in_Kubernetes = Some
                (if as_Enabled opts \<noteq> None
                 then k8s\<lparr>ki_AutoScale := Some (create_autoScaler r opts)\<rparr> else k8s) \<rparr>))"

text \<open>The group \<^verbatim>\<open>create\<close> builds from the task, defaults applied.\<close>

definition create_group :: "cloud \<Rightarrow> ranges \<Rightarrow> Elastigroup \<Rightarrow> error + Group" where
  "create_group c r e =
     and_then (create_capacity e) (\<lambda>capacity.
     and_then (create_launchSpecification c r e) (\<lambda>ls.
     Inr (new_Group\<lparr>grp_Name := Name e, grp_Description := Name e, grp_Region := Region e,
            grp_Capacity := Some capacity,
            grp_Strategy := Some (create_strategy e),
            grp_Compute := Some (new_Compute\<lparr>cmp_Product := Product e,
              cmp_InstanceTypes := Some (new_InstanceTypes\<lparr>it_OnDemand := OnDemandInstanceType e,
                it_Spot := SpotInstanceTypes e\<rparr>),
              cmp_SubnetIDs := Some (subnetIDs e),
              cmp_LaunchSpecification := Some ls\<rparr>),
            grp_Integration := create_integration r e\<rparr>)))"

text \<open>The loop at the end of \<^verbatim>\<open>create\<close>.  It ends when the provider accepts the
  group, when wrapping the group fails, or on an error collection:  with a message
  of the collection that contains the phrase of an instance profile that is not ready,
  it starts over unless the attempt counter is above \<^verbatim>\<open>maxAttempts\<close>, and without
  one it fails.  An error that is no collection leaves the \<^verbatim>\<open>if\<close> and the loop goes
  round.  Each round sleeps ten seconds before it calls the provider.  As the loop may
  go on for ever, it runs on fuel: \<open>None\<close> is a loop that has not ended after that
  many rounds.  The provider is called once in every round that gets past the wrapping,
  so the number of the attempt is also the number of calls so far.\<close>

definition maxAttempts :: nat where
  "maxAttempts = 10"

fun first_not_ready :: "client_Error list \<Rightarrow> client_Error option" where
  "first_not_ready [] = None"
| "first_not_ready (err # errs) =
     (if Contains (err_Message err) ''Invalid IAM Instance Profile name'' then Some err
      else first_not_ready errs)"

record loop_end =
  le_result :: "error + string"
  le_calls :: nat
  le_slept :: nat

fun readyLoop :: "nat \<Rightarrow> cloud \<Rightarrow> Elastigroup \<Rightarrow> Group \<Rightarrow> nat \<Rightarrow> loop_end option" where
  "readyLoop 0 c e g attempt0 = None"
| "readyLoop (Suc fuel) c e g attempt0 =
     (let attempt = attempt0 + 1; slept = 10 * attempt
      in case NewElastigroup c g of
           Some err \<Rightarrow>
             Some \<lparr> le_result = Inl (Upstream err), le_calls = attempt0, le_slept = slept \<rparr>
         | None \<Rightarrow>
             (case Create c attempt g of
                Inr i \<Rightarrow> Some \<lparr> le_result = Inr i, le_calls = attempt, le_slept = slept \<rparr>
              | Inl (ClientErrors errs) \<Rightarrow>
                  (case first_not_ready errs of
                     Some err \<Rightarrow>
                       if attempt > maxAttempts
                       then Some \<lparr> le_result = Inl (IAMNotReady err), le_calls = attempt,
                                   le_slept = slept \<rparr>
                       else (case IAMInstanceProfile e of
                               None \<Rightarrow> Some \<lparr> le_result = Inl (NilDereference ''e.IAMInstanceProfile''),
                                              le_calls = attempt, le_slept = slept \<rparr>
                             | Some p \<Rightarrow> readyLoop fuel c e g attempt)
                   | None \<Rightarrow>
                       Some \<lparr> le_result = Inl (CreateFailed (ClientErrors errs)),
                              le_calls = attempt, le_slept = slept \<rparr>)
              | Inl (OtherError msg) \<Rightarrow> readyLoop fuel c e g attempt))"

text \<open>\<^verbatim>\<open>create\<close>: what it returns (\<open>None\<close> is nil), the task as it leaves it (defaults
  applied, the identifier set after a success), the group it sent, how often it called
  the provider's Create and how many seconds it slept.\<close>

record create_end =
  ce_error :: "error option"
  ce_e :: Elastigroup
  ce_group :: "Group option"
  ce_calls :: nat
  ce_slept :: nat

definition create ::
  "nat \<Rightarrow> cloud \<Rightarrow> ranges \<Rightarrow> Elastigroup option \<Rightarrow> Elastigroup \<Rightarrow> Elastigroup
     \<Rightarrow> create_end option" where
  "create fuel c r a e changes =
     (case Name e of
        None \<Rightarrow> Some \<lparr> ce_error = Some (NilDereference ''e.Name''), ce_e = e,
                       ce_group = None, ce_calls = 0, ce_slept = 0 \<rparr>
      | Some name \<Rightarrow>
          (let e1 = applyDefaults e
           in case create_group c r e1 of
                Inl err \<Rightarrow> Some \<lparr> ce_error = Some err, ce_e = e1, ce_group = None,
                                  ce_calls = 0, ce_slept = 0 \<rparr>
              | Inr g \<Rightarrow>
                  (case readyLoop fuel c e1 g 0 of
                     None \<Rightarrow> None
                   | Some l \<Rightarrow>
                       (case le_result l of
                          Inl err \<Rightarrow> Some \<lparr> ce_error = Some err, ce_e = e1,
                                            ce_group = Some g, ce_calls = le_calls l,
                                            ce_slept = le_slept l \<rparr>
                        | Inr i \<Rightarrow> Some \<lparr> ce_error = None, ce_e = e1\<lparr>ID := Some i\<rparr>,
                                          ce_group = Some g, ce_calls = le_calls l,
                                          ce_slept = le_slept l \<rparr>))))"

subsection \<open>Find\<close>

text \<open>\<^verbatim>\<open>Find\<close> reads the live group into a task, block by block.  The group's
  capacity, strategy, compute, instance types and launch specification are read
  through without a check.\<close>

definition Find_capacity :: "Group \<Rightarrow> Elastigroup \<Rightarrow> error + Elastigroup" where
  "Find_capacity g actual =
     (case grp_Capacity g of
        None \<Rightarrow> Inl (NilDereference ''group.Capacity'')
      | Some cap \<Rightarrow>
          Inr (actual\<lparr>MinSize := Some (IntValue (cap_Minimum cap)),
                 MaxSize := Some (IntValue (cap_Maximum cap))\<rparr>))"

definition Find_strategy :: "Group \<Rightarrow> Elastigroup \<Rightarrow> error + Elastigroup" where
  "Find_strategy g actual =
     (case grp_Strategy g of
        None \<Rightarrow> Inl (NilDereference ''group.Strategy'')
      | Some s \<Rightarrow>
          (let actual1 = actual\<lparr>SpotPercentage := st_Risk s,
                 Orientation := st_AvailabilityVsCost s,
                 FallbackToOnDemand := st_FallbackToOnDemand s,
                 UtilizeReservedInstances := st_UtilizeReservedInstances s\<rparr>
           in Inr (if st_DrainingTimeout s \<noteq> None
                   then actual1\<lparr>DrainingTimeout := Some (IntValue (st_DrainingTimeout s))\<rparr>
                   else actual1)))"

text \<open>\<^verbatim>\<open>subnetSlicesEqualIgnoreOrder\<close>; the identifiers on the left are read
  through, those on the right are checked.\<close>

fun deref_IDs :: "Subnet list \<Rightarrow> error + string list" where
  "deref_IDs [] = Inr []"
| "deref_IDs (s # ss) =
     (case subnet_ID s of
        None \<Rightarrow> Inl (NilDereference ''s.ID'')
      | Some i \<Rightarrow> and_then (deref_IDs ss) (\<lambda>ids. Inr (i # ids)))"

fun checked_IDs :: "Subnet list \<Rightarrow> string list option" where
  "checked_IDs [] = Some []"
| "checked_IDs (s # ss) =
     (case subnet_ID s of
        None \<Rightarrow> None
      | Some i \<Rightarrow> map_option (\<lambda>ids. i # ids) (checked_IDs ss))"

definition subnetSlicesEqualIgnoreOrder ::
  "cloud \<Rightarrow> Subnet list option \<Rightarrow> Subnet list option \<Rightarrow> error + bool" where
  "subnetSlicesEqualIgnoreOrder c l r =
     and_then (deref_IDs (elems l)) (\<lambda>lIDs.
       case checked_IDs (elems r) of
         None \<Rightarrow> Inr False
       | Some rIDs \<Rightarrow> Inr (StringSlicesEqualIgnoreOrder c lIDs rIDs))"

text \<open>\<^verbatim>\<open>append\<close> to a nil slice, once for each element of a list.\<close>

definition appended :: "'a list \<Rightarrow> 'a list option" where
  "appended xs = (if xs = [] then None else Some xs)"

definition Find_compute :: "cloud \<Rightarrow> Elastigroup \<Rightarrow> Group \<Rightarrow> Elastigroup \<Rightarrow> error + Elastigroup" where
  "Find_compute c e g actual =
     (case grp_Compute g of
        None \<Rightarrow> Inl (NilDereference ''group.Compute'')
      | Some compute \<Rightarrow>
          (case cmp_InstanceTypes compute of
             None \<Rightarrow> Inl (NilDereference ''compute.InstanceTypes'')
           | Some types \<Rightarrow>
               (let actual1 = actual\<lparr>Product := cmp_Product compute,
                      OnDemandInstanceType := it_OnDemand types,
                      SpotInstanceTypes := it_Spot types,
                      Subnets := appended (map (\<lambda>subnetID. \<lparr> subnet_Name = None,
                                   subnet_ID = Some subnetID \<rparr>) (elems (cmp_SubnetIDs compute)))\<rparr>
                in and_then (subnetSlicesEqualIgnoreOrder c (Subnets actual1) (Subnets e)) (\<lambda>eq.
                     Inr (if eq then actual1\<lparr>Subnets := Subnets e\<rparr> else actual1)))))"

definition Find_image ::
  "cloud \<Rightarrow> Elastigroup \<Rightarrow> LaunchSpecification \<Rightarrow> Elastigroup \<Rightarrow> error + Elastigroup" where
  "Find_image c e lc actual =
     (let actual1 = actual\<lparr>ImageID := ls_ImageID lc\<rparr>
      in if ImageID e \<noteq> None \<and> ImageID actual1 \<noteq> None
            \<and> StringValue (ImageID actual1) \<noteq> StringValue (ImageID e)
         then and_then (resolveImage c (StringValue (ImageID e))) (\<lambda>img.
                Inr (if StringValue (img_ImageId img) = StringValue (ls_ImageID lc)
                     then actual1\<lparr>ImageID := ImageID e\<rparr> else actual1))
         else Inr actual1)"

definition Find_tags :: "LaunchSpecification \<Rightarrow> Elastigroup \<Rightarrow> Elastigroup" where
  "Find_tags lc actual =
     (if ls_Tags lc \<noteq> None \<and> length (elems (ls_Tags lc)) > 0
      then actual\<lparr>Tags := Some (foldl (\<lambda>m tag. m(StringValue (tag_Key tag) \<mapsto>
                                      StringValue (tag_Value tag))) Map.empty (elems (ls_Tags lc)))\<rparr>
      else actual)"

definition Find_securityGroups :: "LaunchSpecification \<Rightarrow> Elastigroup \<Rightarrow> Elastigroup" where
  "Find_securityGroups lc actual =
     (if ls_SecurityGroupIDs lc \<noteq> None
      then actual\<lparr>SecurityGroups := appended (map (\<lambda>sgID. \<lparr> sg_Name = None, sg_ID = Some sgID \<rparr>)
                                        (elems (ls_SecurityGroupIDs lc)))\<rparr>
      else actual)"

text \<open>The root volume is read from the block devices that have an EBS volume without
  a snapshot; a later one overwrites what an earlier one has set.\<close>

definition Find_rootVolume_device ::
  "cloud \<Rightarrow> RootVolumeOpts option \<Rightarrow> aws_BlockDeviceMapping \<Rightarrow> RootVolumeOpts option" where
  "Find_rootVolume_device c opts b =
     (case abd_EBS b of
        None \<Rightarrow> opts
      | Some ebs \<Rightarrow>
          if ebs_SnapshotID ebs \<noteq> None then opts
          else
            (let o0 = (case opts of None \<Rightarrow> new_RootVolumeOpts | Some ro \<Rightarrow> ro);
                 o1 = (if ebs_VolumeType ebs \<noteq> None
                       then o0\<lparr>rv_Type := Some (ToLower c (StringValue (ebs_VolumeType ebs)))\<rparr>
                       else o0);
                 o2 = (if ebs_VolumeSize ebs \<noteq> None
                       then o1\<lparr>rv_Size := Some (IntValue (ebs_VolumeSize ebs))\<rparr> else o1);
                 o3 = (if ebs_IOPS ebs \<noteq> None
                       then o2\<lparr>rv_IOPS := Some (IntValue (ebs_IOPS ebs))\<rparr> else o2)
             in Some (if ebs_Throughput ebs \<noteq> None
                      then o3\<lparr>rv_Throughput := Some (IntValue (ebs_Throughput ebs))\<rparr> else o3)))"

definition Find_rootVolume :: "cloud \<Rightarrow> LaunchSpecification \<Rightarrow> Elastigroup \<Rightarrow> Elastigroup" where
  "Find_rootVolume c lc actual =
     (let actual1 = actual\<lparr>RootVolumeOpts :=
            foldl (Find_rootVolume_device c) (RootVolumeOpts actual)
              (elems (ls_BlockDeviceMappings lc))\<rparr>
      in if BoolValue (ls_EBSOptimized lc)
         then actual1\<lparr>RootVolumeOpts := Some
                ((case RootVolumeOpts actual1 of None \<Rightarrow> new_RootVolumeOpts | Some ro \<Rightarrow> ro)
                   \<lparr>rv_Optimization := ls_EBSOptimized lc\<rparr>)\<rparr>
         else actual1)"

definition Find_userData ::
  "cloud \<Rightarrow> LaunchSpecification \<Rightarrow> Elastigroup \<Rightarrow> error + Elastigroup" where
  "Find_userData c lc actual =
     (case ls_UserData lc of
        None \<Rightarrow> Inr (actual\<lparr>UserData := Some (NewStringResource [])\<rparr>)
      | Some encoded \<Rightarrow>
          (case DecodeString c (StringValue (ls_UserData lc)) of
             Inl err \<Rightarrow> Inl (Upstream err)
           | Inr userData \<Rightarrow> Inr (actual\<lparr>UserData := Some (NewStringResource userData)\<rparr>)))"

definition Find_networkInterfaces :: "LaunchSpecification \<Rightarrow> Elastigroup \<Rightarrow> Elastigroup" where
  "Find_networkInterfaces lc actual =
     actual\<lparr>AssociatePublicIP := Some
       (list_ex (\<lambda>iface. BoolValue (ni_AssociatePublicIPAddress iface))
          (elems (ls_NetworkInterfaces lc)))\<rparr>"

text \<open>The load balancer block of \<^verbatim>\<open>Find\<close>.  The load balancers are looked up only
  when the live group names a load balancer other than the task's; then the network
  one is looked up, then the classic one, and finding both is an error.\<close>

definition Find_loadBalancer_resolve ::
  "cloud \<Rightarrow> ClassicLoadBalancer \<Rightarrow> string option \<Rightarrow> Elastigroup \<Rightarrow> error + Elastigroup" where
  "Find_loadBalancer_resolve c elb_task name actual =
     (case FindELBV2ByNameTag c (StringValue (clb_Name elb_task)) of
        Inl err \<Rightarrow> Inl (Upstream err)
      | Inr nlb \<Rightarrow>
          (let actual1 = (case nlb of
                            None \<Rightarrow> actual
                          | Some n \<Rightarrow>
                              if StringValue (nlb_LoadBalancerName n) = StringValue name
                              then actual\<lparr>LoadBalancer := Some elb_task\<rparr> else actual)
           in case FindELBByNameTag c (StringValue (clb_Name elb_task)) of
                Inl err \<Rightarrow> Inl (Upstream err)
              | Inr elb \<Rightarrow>
                  (case elb of
                     None \<Rightarrow> Inr actual1
                   | Some d \<Rightarrow>
                       (case nlb of
                          Some n \<Rightarrow> Inl (FoundBothFind (StringValue (elb_LoadBalancerName d))
                                           (StringValue (nlb_LoadBalancerName n)))
                        | None \<Rightarrow>
                            Inr (if StringValue (elb_LoadBalancerName d) = StringValue name
                                 then actual1\<lparr>LoadBalancer := Some elb_task\<rparr> else actual1)))))"

definition Find_loadBalancer ::
  "cloud \<Rightarrow> Elastigroup \<Rightarrow> LaunchSpecification \<Rightarrow> Elastigroup \<Rightarrow> error + Elastigroup" where
  "Find_loadBalancer c e lc actual =
     (case ls_LoadBalancersConfig lc of
        None \<Rightarrow> Inr actual
      | Some cfg \<Rightarrow>
          (case elems (lbc_LoadBalancers cfg) of
             [] \<Rightarrow> Inr actual
           | lb0 # lbs \<Rightarrow>
               (let name = alb_Name lb0;
                    actual1 = actual\<lparr>LoadBalancer := Some \<lparr> clb_Name = name \<rparr>\<rparr>
                in case LoadBalancer e of
                     None \<Rightarrow> Inr actual1
                   | Some elb_task \<Rightarrow>
                       if StringValue name \<noteq> StringValue (clb_Name elb_task)
                       then Find_loadBalancer_resolve c elb_task name actual1
                       else Inr actual1)))"

definition Find_rest :: "LaunchSpecification \<Rightarrow> Elastigroup \<Rightarrow> Elastigroup" where
  "Find_rest lc actual =
     (let a1 = (case ls_IAMInstanceProfile lc of
                  None \<Rightarrow> actual
                | Some p \<Rightarrow> actual\<lparr>IAMInstanceProfile := Some \<lparr> iam_Name = aip_Name p \<rparr>\<rparr>);
          a2 = (if ls_KeyPair lc \<noteq> None
                then a1\<lparr>SSHKey := Some \<lparr> key_Name = ls_KeyPair lc \<rparr>\<rparr> else a1);
          a3 = (if ls_Tenancy lc \<noteq> None then a2\<lparr>Tenancy := ls_Tenancy lc\<rparr> else a2);
          a4 = (if ls_Monitoring lc \<noteq> None then a3\<lparr>Monitoring := ls_Monitoring lc\<rparr> else a3)
      in if ls_HealthCheckType lc \<noteq> None
         then a4\<lparr>HealthCheckType := ls_HealthCheckType lc\<rparr> else a4)"

definition Find_launchSpecification ::
  "cloud \<Rightarrow> Elastigroup \<Rightarrow> Group \<Rightarrow> Elastigroup \<Rightarrow> error + Elastigroup" where
  "Find_launchSpecification c e g actual =
     (case grp_Compute g of
        None \<Rightarrow> Inl (NilDereference ''group.Compute'')
      | Some compute \<Rightarrow>
          (case cmp_LaunchSpecification compute of
             None \<Rightarrow> Inl (NilDereference ''group.Compute.LaunchSpecification'')
           | Some lc \<Rightarrow>
               and_then (Find_image c e lc actual) (\<lambda>a1.
               and_then (Find_userData c lc
                           (Find_rootVolume c lc (Find_securityGroups lc (Find_tags lc a1)))) (\<lambda>a2.
               and_then (Find_loadBalancer c e lc (Find_networkInterfaces lc a2)) (\<lambda>a3.
               Inr (Find_rest lc a3))))))"

text \<open>The auto scaler: a headroom value is taken over only if it is positive.\<close>

definition positive :: "go_int option \<Rightarrow> go_int option" where
  "positive v = (if 0 < sint (IntValue v) then v else None)"

definition Find_autoScale :: "AutoScaleKubernetes \<Rightarrow> AutoScalerOpts \<Rightarrow> AutoScalerOpts" where
  "Find_autoScale autoScale opts =
     (let o1 = opts\<lparr>as_Enabled := ak_IsEnabled autoScale, as_Cooldown := ak_Cooldown autoScale\<rparr>;
          o2 = (case ak_Headroom autoScale of
                  None \<Rightarrow> o1
                | Some headroom \<Rightarrow>
                    o1\<lparr>as_Headroom := Some \<lparr> hr_CPUPerUnit = positive (ah_CPUPerUnit headroom),
                         hr_GPUPerUnit = positive (ah_GPUPerUnit headroom),
                         hr_MemPerUnit = positive (ah_MemoryPerUnit headroom),
                         hr_NumOfUnits = positive (ah_NumOfUnits headroom) \<rparr>\<rparr>);
          o3 = (case ak_Down autoScale of
                  None \<Rightarrow> o2
                | Some down \<Rightarrow>
                    o2\<lparr>as_Down := Some \<lparr> dn_MaxPercentage = ad_MaxScaleDownPercentage down,
                         dn_EvaluationPeriods = ad_EvaluationPeriods down \<rparr>\<rparr>)
      in case ak_Labels autoScale of
           None \<Rightarrow> o3
         | Some labels \<Rightarrow>
             o3\<lparr>as_Labels := Some (foldl (\<lambda>m label. m(StringValue (al_Key label) \<mapsto>
                                      StringValue (al_Value label))) Map.empty labels)\<rparr>)"

definition Find_autoScaler :: "Group \<Rightarrow> Elastigroup \<Rightarrow> Elastigroup" where
  "Find_autoScaler g actual =
     (case grp_Integration g of
        None \<Rightarrow> actual
      | Some integration \<Rightarrow>
          (case in_Kubernetes integration of
             None \<Rightarrow> actual
           | Some k8s \<Rightarrow>
               (let opts = new_AutoScalerOpts\<lparr>as_ClusterID := ki_ClusterIdentifier k8s\<rparr>
                in actual\<lparr>AutoScalerOpts := Some
                     (case ki_AutoScale k8s of
                        None \<Rightarrow> opts
                      | Some autoScale \<Rightarrow> Find_autoScale autoScale opts)\<rparr>)))"

definition Find :: "cloud \<Rightarrow> Elastigroup \<Rightarrow> error + Elastigroup" where
  "Find c e =
     (case Name e of
        None \<Rightarrow> Inl (NilDereference ''e.Name'')
      | Some name \<Rightarrow>
          and_then (find c name) (\<lambda>g.
          and_then (Find_capacity g (empty_Elastigroup\<lparr>ID := grp_ID g, Name := grp_Name g,
                      Region := grp_Region g\<rparr>)) (\<lambda>a1.
          and_then (Find_strategy g a1) (\<lambda>a2.
          and_then (Find_compute c e g a2) (\<lambda>a3.
          and_then (Find_launchSpecification c e g a3) (\<lambda>a4.
          Inr ((Find_autoScaler g a4)\<lparr>Lifecycle := Lifecycle e\<rparr>)))))))"


subsection \<open>update\<close>

text \<open>\<^verbatim>\<open>update\<close> fills a fresh group from the populated fields of \<^verbatim>\<open>changes\<close>,
  clears each field it has dealt with, and remembers whether anything is to be sent.
  The state of the function: the group, the changes (mutated in place in the source),
  the flag, the warnings logged and the groups sent to the provider's Update.\<close>

datatype warning = NotAllChangesApplied string Elastigroup

record upd =
  u_group :: Group
  u_changes :: Elastigroup
  u_changed :: bool
  u_warnings :: "warning list"
  u_updates :: "Group list"

text \<open>A step of a function returns an error or nil together with the state it
  leaves; an error ends the function.\<close>

type_synonym 's step = "'s \<Rightarrow> error option \<times> 's"

definition next_step :: "error option \<times> 's \<Rightarrow> 's step \<Rightarrow> error option \<times> 's" where
  "next_step r f = (case r of (Some err, u) \<Rightarrow> (Some err, u) | (None, u) \<Rightarrow> f u)"

fun steps :: "'s step list \<Rightarrow> 's step" where
  "steps [] u = (None, u)"
| "steps (s # ss) u = next_step (s u) (steps ss)"

definition pure_step :: "('s \<Rightarrow> 's) \<Rightarrow> 's step" where
  "pure_step f u = (None, f u)"

text \<open>The idiom of every block: write to the group, clear the field, set the flag.\<close>

definition applied :: "(Group \<Rightarrow> Group) \<Rightarrow> (Elastigroup \<Rightarrow> Elastigroup) \<Rightarrow> upd \<Rightarrow> upd" where
  "applied f clear u =
     u\<lparr>u_group := f (u_group u), u_changes := clear (u_changes u), u_changed := True\<rparr>"

text \<open>\<^verbatim>\<open>if group.X == nil { group.X = new(...) }\<close> followed by a write to \<^verbatim>\<open>group.X\<close>.\<close>

definition with_Strategy :: "(Strategy \<Rightarrow> Strategy) \<Rightarrow> Group \<Rightarrow> Group" where
  "with_Strategy f g =
     g\<lparr>grp_Strategy := Some (f (case grp_Strategy g of None \<Rightarrow> new_Strategy | Some s \<Rightarrow> s))\<rparr>"

definition with_Compute :: "(Compute \<Rightarrow> Compute) \<Rightarrow> Group \<Rightarrow> Group" where
  "with_Compute f g =
     g\<lparr>grp_Compute := Some (f (case grp_Compute g of None \<Rightarrow> new_Compute | Some c \<Rightarrow> c))\<rparr>"

definition with_InstanceTypes :: "(InstanceTypes \<Rightarrow> InstanceTypes) \<Rightarrow> Group \<Rightarrow> Group" where
  "with_InstanceTypes f =
     with_Compute (\<lambda>c. c\<lparr>cmp_InstanceTypes :=
       Some (f (case cmp_InstanceTypes c of None \<Rightarrow> new_InstanceTypes | Some t \<Rightarrow> t))\<rparr>)"

definition with_LaunchSpecification ::
  "(LaunchSpecification \<Rightarrow> LaunchSpecification) \<Rightarrow> Group \<Rightarrow> Group" where
  "with_LaunchSpecification f =
     with_Compute (\<lambda>c. c\<lparr>cmp_LaunchSpecification :=
       Some (f (case cmp_LaunchSpecification c of None \<Rightarrow> new_LaunchSpecification
                | Some l \<Rightarrow> l))\<rparr>)"

definition with_Capacity :: "(Capacity \<Rightarrow> Capacity) \<Rightarrow> Group \<Rightarrow> Group" where
  "with_Capacity f g =
     g\<lparr>grp_Capacity := Some (f (case grp_Capacity g of None \<Rightarrow> new_Capacity | Some c \<Rightarrow> c))\<rparr>"

text \<open>The blocks, in the order of the source.\<close>

definition update_Region :: "Elastigroup \<Rightarrow> upd \<Rightarrow> upd" where
  "update_Region e u =
     (if Region (u_changes u) \<noteq> None
      then applied (\<lambda>g. g\<lparr>grp_Region := Region e\<rparr>) (\<lambda>ch. ch\<lparr>Region := None\<rparr>) u
      else u)"

definition update_SpotPercentage :: "Elastigroup \<Rightarrow> upd \<Rightarrow> upd" where
  "update_SpotPercentage e u =
     (if SpotPercentage (u_changes u) \<noteq> None
      then applied (with_Strategy (\<lambda>s. s\<lparr>st_Risk := SpotPercentage e\<rparr>))
             (\<lambda>ch. ch\<lparr>SpotPercentage := None\<rparr>) u
      else u)"

definition update_Orientation :: "Elastigroup \<Rightarrow> upd \<Rightarrow> upd" where
  "update_Orientation e u =
     (if Orientation (u_changes u) \<noteq> None
      then applied (with_Strategy (\<lambda>s. s\<lparr>st_AvailabilityVsCost :=
                      Some (normalizeOrientation (Orientation e))\<rparr>))
             (\<lambda>ch. ch\<lparr>Orientation := None\<rparr>) u
      else u)"

definition update_FallbackToOnDemand :: "Elastigroup \<Rightarrow> upd \<Rightarrow> upd" where
  "update_FallbackToOnDemand e u =
     (if FallbackToOnDemand (u_changes u) \<noteq> None
      then applied (with_Strategy (\<lambda>s. s\<lparr>st_FallbackToOnDemand := FallbackToOnDemand e\<rparr>))
             (\<lambda>ch. ch\<lparr>FallbackToOnDemand := None\<rparr>) u
      else u)"

definition update_UtilizeReservedInstances :: "Elastigroup \<Rightarrow> upd \<Rightarrow> upd" where
  "update_UtilizeReservedInstances e u =
     (if UtilizeReservedInstances (u_changes u) \<noteq> None
      then applied (with_Strategy (\<lambda>s. s\<lparr>st_UtilizeReservedInstances :=
                      UtilizeReservedInstances e\<rparr>))
             (\<lambda>ch. ch\<lparr>UtilizeReservedInstances := None\<rparr>) u
      else u)"

definition update_DrainingTimeout :: "Elastigroup \<Rightarrow> upd step" where
  "update_DrainingTimeout e u =
     (if DrainingTimeout (u_changes u) \<noteq> None
      then (case DrainingTimeout e of
              None \<Rightarrow> (Some (NilDereference ''e.DrainingTimeout''),
                        u\<lparr>u_group := with_Strategy (\<lambda>s. s) (u_group u)\<rparr>)
            | Some d \<Rightarrow>
                (None, applied (with_Strategy (\<lambda>s. s\<lparr>st_DrainingTimeout := Some d\<rparr>))
                         (\<lambda>ch. ch\<lparr>DrainingTimeout := None\<rparr>) u))
      else (None, u))"

definition update_Product :: "Elastigroup \<Rightarrow> upd \<Rightarrow> upd" where
  "update_Product e u =
     (if Product (u_changes u) \<noteq> None
      then applied (with_Compute (\<lambda>c. c\<lparr>cmp_Product := Product e\<rparr>))
             (\<lambda>ch. ch\<lparr>Product := None\<rparr>) u
      else u)"

definition update_OnDemandInstanceType :: "Elastigroup \<Rightarrow> upd \<Rightarrow> upd" where
  "update_OnDemandInstanceType e u =
     (if OnDemandInstanceType (u_changes u) \<noteq> None
      then applied (with_InstanceTypes (\<lambda>t. t\<lparr>it_OnDemand := OnDemandInstanceType e\<rparr>))
             (\<lambda>ch. ch\<lparr>OnDemandInstanceType := None\<rparr>) u
      else u)"

definition update_SpotInstanceTypes :: "Elastigroup \<Rightarrow> upd \<Rightarrow> upd" where
  "update_SpotInstanceTypes e u =
     (if SpotInstanceTypes (u_changes u) \<noteq> None
      then applied (with_InstanceTypes (\<lambda>t. t\<lparr>it_Spot := Some (elems (SpotInstanceTypes e))\<rparr>))
             (\<lambda>ch. ch\<lparr>SpotInstanceTypes := None\<rparr>) u
      else u)"

definition update_Subnets :: "Elastigroup \<Rightarrow> upd \<Rightarrow> upd" where
  "update_Subnets e u =
     (if Subnets (u_changes u) \<noteq> None
      then applied (with_Compute (\<lambda>c. c\<lparr>cmp_SubnetIDs := Some (subnetIDs e)\<rparr>))
             (\<lambda>ch. ch\<lparr>Subnets := None\<rparr>) u
      else u)"

definition update_SecurityGroups :: "Elastigroup \<Rightarrow> upd step" where
  "update_SecurityGroups e u =
     (if SecurityGroups (u_changes u) \<noteq> None
      then (case securityGroupIDs (elems (SecurityGroups e)) of
              Inl err \<Rightarrow> (Some err, u\<lparr>u_group := with_LaunchSpecification (\<lambda>l. l) (u_group u)\<rparr>)
            | Inr ids \<Rightarrow>
                (None, applied (with_LaunchSpecification (\<lambda>l. l\<lparr>ls_SecurityGroupIDs := Some ids\<rparr>))
                         (\<lambda>ch. ch\<lparr>SecurityGroups := None\<rparr>) u))
      else (None, u))"

text \<open>User data are read through \<^verbatim>\<open>e.UserData\<close>; empty user data are not sent,
  and the field is cleared all the same.\<close>

definition update_UserData :: "cloud \<Rightarrow> Elastigroup \<Rightarrow> upd step" where
  "update_UserData c e u =
     (if UserData (u_changes u) \<noteq> None
      then (case UserData e of
              None \<Rightarrow> (Some (NilDereference ''e.UserData''), u)
            | Some r \<Rightarrow>
                (case ResourceAsString r of
                   Inl err \<Rightarrow> (Some (Upstream err), u)
                 | Inr userData \<Rightarrow>
                     (let u1 = (if length userData > 0
                                then u\<lparr>u_group := with_LaunchSpecification
                                         (\<lambda>l. l\<lparr>ls_UserData := Some (EncodeToString c userData)\<rparr>)
                                         (u_group u),
                                       u_changed := True\<rparr>
                                else u)
                      in (None, u1\<lparr>u_changes := (u_changes u1)\<lparr>UserData := None\<rparr>\<rparr>))))
      else (None, u))"

definition update_AssociatePublicIP :: "Elastigroup \<Rightarrow> upd \<Rightarrow> upd" where
  "update_AssociatePublicIP e u =
     (if AssociatePublicIP (u_changes u) \<noteq> None
      then applied (with_LaunchSpecification (\<lambda>l. l\<lparr>ls_NetworkInterfaces :=
                      Some [eth0 (AssociatePublicIP (u_changes u))]\<rparr>))
             (\<lambda>ch. ch\<lparr>AssociatePublicIP := None\<rparr>) u
      else u)"

text \<open>The root volume: the devices are built from the options of \<^verbatim>\<open>changes\<close>, the
  optimization flag is read through \<^verbatim>\<open>e.RootVolumeOpts\<close>.\<close>

definition update_rootDevices :: "cloud \<Rightarrow> Elastigroup \<Rightarrow> RootVolumeOpts \<Rightarrow> upd step" where
  "update_rootDevices c e opts u =
     (if rv_Type opts \<noteq> None \<or> rv_Size opts \<noteq> None \<or> rv_IOPS opts \<noteq> None
      then (case blockDeviceMappings c (Some opts) e of
              Inl err \<Rightarrow> (Some err, u)
            | Inr mappings \<Rightarrow>
                (None, u\<lparr>u_group := with_LaunchSpecification
                            (\<lambda>l. l\<lparr>ls_BlockDeviceMappings := Some mappings\<rparr>) (u_group u),
                          u_changed := True\<rparr>))
      else (None, u))"

definition update_ebsOptimized :: "Elastigroup \<Rightarrow> RootVolumeOpts \<Rightarrow> upd step" where
  "update_ebsOptimized e opts u =
     (if rv_Optimization opts \<noteq> None
      then (case RootVolumeOpts e of
              None \<Rightarrow> (Some (NilDereference ''e.RootVolumeOpts''),
                        u\<lparr>u_group := with_LaunchSpecification (\<lambda>l. l) (u_group u)\<rparr>)
            | Some eopts \<Rightarrow>
                (None, u\<lparr>u_group := with_LaunchSpecification
                            (\<lambda>l. l\<lparr>ls_EBSOptimized := rv_Optimization eopts\<rparr>) (u_group u),
                          u_changed := True\<rparr>))
      else (None, u))"

definition update_RootVolumeOpts :: "cloud \<Rightarrow> Elastigroup \<Rightarrow> upd step" where
  "update_RootVolumeOpts c e u =
     (case RootVolumeOpts (u_changes u) of
        None \<Rightarrow> (None, u)
      | Some opts \<Rightarrow>
          steps [update_rootDevices c e opts, update_ebsOptimized e opts,
                 pure_step (\<lambda>u1. u1\<lparr>u_changes := (u_changes u1)\<lparr>RootVolumeOpts := None\<rparr>\<rparr>)] u)"

text \<open>The image is sent only if the resolved image differs from the one of the live
  group, which is read through \<^verbatim>\<open>actual.Compute.LaunchSpecification.ImageID\<close>.\<close>

definition actual_ImageID :: "Group \<Rightarrow> error + string" where
  "actual_ImageID actual =
     (case grp_Compute actual of
        None \<Rightarrow> Inl (NilDereference ''actual.Compute'')
      | Some c \<Rightarrow>
          (case cmp_LaunchSpecification c of
             None \<Rightarrow> Inl (NilDereference ''actual.Compute.LaunchSpecification'')
           | Some l \<Rightarrow>
               (case ls_ImageID l of
                  None \<Rightarrow> Inl (NilDereference ''actual.Compute.LaunchSpecification.ImageID'')
                | Some i \<Rightarrow> Inr i)))"

definition update_ImageID :: "cloud \<Rightarrow> Group \<Rightarrow> Elastigroup \<Rightarrow> upd step" where
  "update_ImageID c actual e u =
     (if ImageID (u_changes u) \<noteq> None
      then (case resolveImage c (StringValue (ImageID e)) of
              Inl err \<Rightarrow> (Some err, u)
            | Inr img \<Rightarrow>
                (case actual_ImageID actual of
                   Inl err \<Rightarrow> (Some err, u)
                 | Inr actualID \<Rightarrow>
                     (case img_ImageId img of
                        None \<Rightarrow> (Some (NilDereference ''image.ImageId''), u)
                      | Some imageID \<Rightarrow>
                          (let u1 = (if actualID \<noteq> imageID
                                     then u\<lparr>u_group := with_LaunchSpecification
                                              (\<lambda>l. l\<lparr>ls_ImageID := img_ImageId img\<rparr>) (u_group u),
                                            u_changed := True\<rparr>
                                     else u)
                           in (None, u1\<lparr>u_changes := (u_changes u1)\<lparr>ImageID := None\<rparr>\<rparr>)))))
      else (None, u))"

definition update_Tags :: "ranges \<Rightarrow> Elastigroup \<Rightarrow> upd \<Rightarrow> upd" where
  "update_Tags r e u =
     (if Tags (u_changes u) \<noteq> None
      then applied (with_LaunchSpecification (\<lambda>l. l\<lparr>ls_Tags := Some (buildTags (rng_tags r))\<rparr>))
             (\<lambda>ch. ch\<lparr>Tags := None\<rparr>) u
      else u)"

definition update_IAMInstanceProfile :: "Elastigroup \<Rightarrow> upd step" where
  "update_IAMInstanceProfile e u =
     (if IAMInstanceProfile (u_changes u) \<noteq> None
      then (case IAMInstanceProfile e of
              None \<Rightarrow> (Some (NilDereference ''e.IAMInstanceProfile''),
                        u\<lparr>u_group := with_LaunchSpecification (\<lambda>l. l) (u_group u)\<rparr>)
            | Some p \<Rightarrow>
                (None, applied (with_LaunchSpecification (\<lambda>l. l\<lparr>ls_IAMInstanceProfile :=
                                  Some \<lparr> aip_Name = iam_Name p \<rparr>\<rparr>))
                         (\<lambda>ch. ch\<lparr>IAMInstanceProfile := None\<rparr>) u))
      else (None, u))"

definition update_Monitoring :: "Elastigroup \<Rightarrow> upd \<Rightarrow> upd" where
  "update_Monitoring e u =
     (if Monitoring (u_changes u) \<noteq> None
      then applied (with_LaunchSpecification (\<lambda>l. l\<lparr>ls_Monitoring := Monitoring e\<rparr>))
             (\<lambda>ch. ch\<lparr>Monitoring := None\<rparr>) u
      else u)"

definition update_SSHKey :: "Elastigroup \<Rightarrow> upd step" where
  "update_SSHKey e u =
     (if SSHKey (u_changes u) \<noteq> None
      then (case SSHKey e of
              None \<Rightarrow> (Some (NilDereference ''e.SSHKey''),
                        u\<lparr>u_group := with_LaunchSpecification (\<lambda>l. l) (u_group u)\<rparr>)
            | Some k \<Rightarrow>
                (None, applied (with_LaunchSpecification (\<lambda>l. l\<lparr>ls_KeyPair := key_Name k\<rparr>))
                         (\<lambda>ch. ch\<lparr>SSHKey := None\<rparr>) u))
      else (None, u))"

text \<open>The load balancer block of \<^verbatim>\<open>update\<close>: the classic load balancer is looked
  up first, and the network one only if there is no classic one.  The field is
  cleared only if one of them was found.\<close>

definition update_LoadBalancer :: "cloud \<Rightarrow> Elastigroup \<Rightarrow> upd step" where
  "update_LoadBalancer c e u =
     (if LoadBalancer (u_changes u) \<noteq> None
      then (case LoadBalancer e of
              None \<Rightarrow> (Some (NilDereference ''e.LoadBalancer''), u)
            | Some lb \<Rightarrow>
                (case FindELBByNameTag c (StringValue (clb_Name lb)) of
                   Inl err \<Rightarrow> (Some (LookupELBFailed err), u)
                 | Inr (Some d) \<Rightarrow>
                     (None, applied (with_LaunchSpecification (\<lambda>l. l\<lparr>ls_LoadBalancersConfig :=
                                       Some (loadBalancersConfig (elb_LoadBalancerName d) ''CLASSIC'')\<rparr>))
                              (\<lambda>ch. ch\<lparr>LoadBalancer := None\<rparr>) u)
                 | Inr None \<Rightarrow>
                     (case FindELBV2ByNameTag c (StringValue (clb_Name lb)) of
                        Inl err \<Rightarrow> (Some (LookupNLBFailed err), u)
                      | Inr (Some n) \<Rightarrow>
                          (None, applied (with_LaunchSpecification (\<lambda>l. l\<lparr>ls_LoadBalancersConfig :=
                                            Some (loadBalancersConfig (nlb_LoadBalancerName n) ''NETWORK'')\<rparr>))
                                   (\<lambda>ch. ch\<lparr>LoadBalancer := None\<rparr>) u)
                      | Inr None \<Rightarrow> (None, u))))
      else (None, u))"

definition update_Tenancy :: "Elastigroup \<Rightarrow> upd \<Rightarrow> upd" where
  "update_Tenancy e u =
     (if Tenancy (u_changes u) \<noteq> None
      then applied (with_LaunchSpecification (\<lambda>l. l\<lparr>ls_Tenancy := Tenancy e\<rparr>))
             (\<lambda>ch. ch\<lparr>Tenancy := None\<rparr>) u
      else u)"

definition update_HealthCheckType :: "Elastigroup \<Rightarrow> upd \<Rightarrow> upd" where
  "update_HealthCheckType e u =
     (if HealthCheckType (u_changes u) \<noteq> None
      then applied (with_LaunchSpecification (\<lambda>l. l\<lparr>ls_HealthCheckType := HealthCheckType e\<rparr>))
             (\<lambda>ch. ch\<lparr>HealthCheckType := None\<rparr>) u
      else u)"

text \<open>Capacity.  A changed minimum is sent, and the target with it when the live
  target, read through \<^verbatim>\<open>actual.Capacity.Target\<close>, is below the new minimum
  (a comparison of signed integers).\<close>

definition actual_Target :: "Group \<Rightarrow> error + go_int" where
  "actual_Target actual =
     (case grp_Capacity actual of
        None \<Rightarrow> Inl (NilDereference ''actual.Capacity'')
      | Some cap \<Rightarrow>
          (case cap_Target cap of
             None \<Rightarrow> Inl (NilDereference ''actual.Capacity.Target'')
           | Some t \<Rightarrow> Inr t))"

definition update_MinSize :: "Group \<Rightarrow> Elastigroup \<Rightarrow> upd step" where
  "update_MinSize actual e u =
     (if MinSize (u_changes u) \<noteq> None
      then (case MinSize e of
              None \<Rightarrow> (Some (NilDereference ''e.MinSize''),
                        u\<lparr>u_group := with_Capacity (\<lambda>cap. cap) (u_group u)\<rparr>)
            | Some mn \<Rightarrow>
                (let u1 = applied (with_Capacity (\<lambda>cap. cap\<lparr>cap_Minimum := Some mn\<rparr>))
                            (\<lambda>ch. ch\<lparr>MinSize := None\<rparr>) u
                 in case actual_Target actual of
                      Inl err \<Rightarrow> (Some err, u1)
                    | Inr target \<Rightarrow>
                        if sint target < sint mn
                        then (None, u1\<lparr>u_group := with_Capacity
                                        (\<lambda>cap. cap\<lparr>cap_Target := Some mn\<rparr>) (u_group u1)\<rparr>)
                        else (None, u1)))
      else (None, u))"

definition update_MaxSize :: "Elastigroup \<Rightarrow> upd step" where
  "update_MaxSize e u =
     (if MaxSize (u_changes u) \<noteq> None
      then (case MaxSize e of
              None \<Rightarrow> (Some (NilDereference ''e.MaxSize''),
                        u\<lparr>u_group := with_Capacity (\<lambda>cap. cap) (u_group u)\<rparr>)
            | Some mx \<Rightarrow>
                (None, applied (with_Capacity (\<lambda>cap. cap\<lparr>cap_Maximum := Some mx\<rparr>))
                         (\<lambda>ch. ch\<lparr>MaxSize := None\<rparr>) u))
      else (None, u))"

text \<open>The auto scaler block of \<^verbatim>\<open>update\<close>.  The values are read through
  \<^verbatim>\<open>e.AutoScalerOpts\<close> and \<^verbatim>\<open>e.AutoScalerOpts.Headroom\<close>; what the live group
  had is read through \<^verbatim>\<open>a.AutoScalerOpts\<close>, guarded for the headroom only.\<close>

definition update_autoScaler_Headroom ::
  "Elastigroup \<Rightarrow> AutoScalerOpts \<Rightarrow> AutoScalerOpts \<Rightarrow> AutoScaleKubernetes
     \<Rightarrow> error + AutoScaleKubernetes" where
  "update_autoScaler_Headroom a eopts opts autoScaler =
     (case as_Headroom opts of
        Some headroom \<Rightarrow>
          (case as_Headroom eopts of
             None \<Rightarrow> Inl (NilDereference ''e.AutoScalerOpts.Headroom'')
           | Some eh \<Rightarrow>
               Inr (autoScaler\<lparr>ak_IsAutoConfig := Some False,
                      ak_Headroom := Some \<lparr> ah_CPUPerUnit = hr_CPUPerUnit eh,
                        ah_GPUPerUnit = hr_GPUPerUnit eh,
                        ah_MemoryPerUnit = hr_MemPerUnit eh,
                        ah_NumOfUnits = hr_NumOfUnits eh \<rparr>\<rparr>))
      | None \<Rightarrow>
          (case AutoScalerOpts a of
             None \<Rightarrow> Inr autoScaler
           | Some aopts \<Rightarrow>
               if as_Headroom aopts \<noteq> None
               then Inr (autoScaler\<lparr>ak_IsAutoConfig := Some True, ak_Headroom := None\<rparr>)
               else Inr autoScaler))"

definition update_autoScaler_Down ::
  "Elastigroup \<Rightarrow> AutoScalerOpts \<Rightarrow> AutoScaleKubernetes \<Rightarrow> error + AutoScaleKubernetes" where
  "update_autoScaler_Down a opts autoScaler =
     (case as_Down opts of
        Some down \<Rightarrow>
          Inr (autoScaler\<lparr>ak_Down := Some \<lparr> ad_EvaluationPeriods = dn_EvaluationPeriods down,
                 ad_MaxScaleDownPercentage = dn_MaxPercentage down \<rparr>\<rparr>)
      | None \<Rightarrow>
          (case AutoScalerOpts a of
             None \<Rightarrow> Inl (NilDereference ''a.AutoScalerOpts'')
           | Some aopts \<Rightarrow>
               if as_Down aopts \<noteq> None then Inr (autoScaler\<lparr>ak_Down := None\<rparr>)
               else Inr autoScaler))"

definition update_autoScaler_Labels ::
  "ranges \<Rightarrow> Elastigroup \<Rightarrow> AutoScalerOpts \<Rightarrow> AutoScaleKubernetes
     \<Rightarrow> error + AutoScaleKubernetes" where
  "update_autoScaler_Labels r a opts autoScaler =
     (if as_Labels opts \<noteq> None
      then Inr (autoScaler\<lparr>ak_Labels := Some (buildAutoScaleLabels (rng_labels r))\<rparr>)
      else (case AutoScalerOpts a of
              None \<Rightarrow> Inl (NilDereference ''a.AutoScalerOpts'')
            | Some aopts \<Rightarrow>
                if as_Labels aopts \<noteq> None then Inr (autoScaler\<lparr>ak_Labels := None\<rparr>)
                else Inr autoScaler))"

definition update_autoScaler ::
  "ranges \<Rightarrow> Elastigroup \<Rightarrow> Elastigroup \<Rightarrow> AutoScalerOpts \<Rightarrow> error + AutoScaleKubernetes" where
  "update_autoScaler r a e opts =
     (case AutoScalerOpts e of
        None \<Rightarrow> Inl (NilDereference ''e.AutoScalerOpts'')
      | Some eopts \<Rightarrow>
          and_then (update_autoScaler_Headroom a eopts opts
                      (new_AutoScaleKubernetes\<lparr>ak_IsEnabled := as_Enabled eopts,
                         ak_Cooldown := as_Cooldown eopts\<rparr>)) (\<lambda>a1.
          and_then (update_autoScaler_Down a opts a1) (\<lambda>a2.
          update_autoScaler_Labels r a opts a2)))"

definition update_AutoScalerOpts :: "ranges \<Rightarrow> Elastigroup \<Rightarrow> Elastigroup \<Rightarrow> upd step" where
  "update_AutoScalerOpts r a e u =
     (case AutoScalerOpts (u_changes u) of
        None \<Rightarrow> (None, u)
      | Some opts \<Rightarrow>
          if as_Enabled opts \<noteq> None
          then (case update_autoScaler r a e opts of
                  Inl err \<Rightarrow> (Some err, u)
                | Inr autoScaler \<Rightarrow>
                    (None, applied (\<lambda>g. g\<lparr>grp_Integration := Some \<lparr> in_Kubernetes =
                                      Some (new_KubernetesIntegration\<lparr>ki_AutoScale :=
                                              Some autoScaler\<rparr>) \<rparr>\<rparr>)
                             (\<lambda>ch. ch\<lparr>AutoScalerOpts := None\<rparr>) u))
          else (None, u\<lparr>u_changes := (u_changes u)\<lparr>AutoScalerOpts := None\<rparr>\<rparr>))"

text \<open>What is left of the changes is compared with the empty task, and a difference is
  logged as a warning that carries the identifier of the group and the changes left.
  The log lines read through \<^verbatim>\<open>group.ID\<close>.\<close>

definition update_warn :: "upd step" where
  "update_warn u =
     (if u_changes u \<noteq> empty_Elastigroup
      then (case grp_ID (u_group u) of
              None \<Rightarrow> (Some (NilDereference ''group.ID''), u)
            | Some i \<Rightarrow>
                (None, u\<lparr>u_warnings := u_warnings u @ [NotAllChangesApplied i (u_changes u)]\<rparr>))
      else (None, u))"

text \<open>Without anything to send \<^verbatim>\<open>update\<close> returns nil; otherwise the group is
  wrapped and sent.\<close>

definition update_send :: "cloud \<Rightarrow> upd step" where
  "update_send c u =
     (case grp_ID (u_group u) of
        None \<Rightarrow> (Some (NilDereference ''group.ID''), u)
      | Some i \<Rightarrow>
          if \<not> u_changed u then (None, u)
          else (case NewElastigroup c (u_group u) of
                  Some err \<Rightarrow> (Some (Upstream err), u)
                | None \<Rightarrow>
                    (case Update c (u_group u) of
                       Some err \<Rightarrow> (Some (UpdateFailed err),
                                     u\<lparr>u_updates := u_updates u @ [u_group u]\<rparr>)
                     | None \<Rightarrow> (None, u\<lparr>u_updates := u_updates u @ [u_group u]\<rparr>))))"

definition update_blocks :: "cloud \<Rightarrow> ranges \<Rightarrow> Group \<Rightarrow> Elastigroup \<Rightarrow> Elastigroup \<Rightarrow> upd step list" where
  "update_blocks c r actual a e =
     [pure_step (update_Region e),
      pure_step (update_SpotPercentage e),
      pure_step (update_Orientation e),
      pure_step (update_FallbackToOnDemand e),
      pure_step (update_UtilizeReservedInstances e),
      update_DrainingTimeout e,
      pure_step (update_Product e),
      pure_step (update_OnDemandInstanceType e),
      pure_step (update_SpotInstanceTypes e),
      pure_step (update_Subnets e),
      update_SecurityGroups e,
      update_UserData c e,
      pure_step (update_AssociatePublicIP e),
      update_RootVolumeOpts c e,
      update_ImageID c actual e,
      pure_step (update_Tags r e),
      update_IAMInstanceProfile e,
      pure_step (update_Monitoring e),
      update_SSHKey e,
      update_LoadBalancer c e,
      pure_step (update_Tenancy e),
      pure_step (update_HealthCheckType e),
      update_MinSize actual e,
      update_MaxSize e,
      update_AutoScalerOpts r a e]"

definition update_start :: "Group \<Rightarrow> Elastigroup \<Rightarrow> upd" where
  "update_start actual changes =
     \<lparr> u_group = new_Group\<lparr>grp_ID := grp_ID actual\<rparr>, u_changes = changes,
       u_changed = False, u_warnings = [], u_updates = [] \<rparr>"

text \<open>The blocks run on the fresh group and the changes as they came.\<close>

definition update_render ::
  "cloud \<Rightarrow> ranges \<Rightarrow> Group \<Rightarrow> Elastigroup \<Rightarrow> Elastigroup \<Rightarrow> Elastigroup \<Rightarrow> error option \<times> upd" where
  "update_render c r actual a e changes =
     steps (update_blocks c r actual a e) (update_start actual changes)"

definition update ::
  "cloud \<Rightarrow> ranges \<Rightarrow> Elastigroup \<Rightarrow> Elastigroup \<Rightarrow> Elastigroup \<Rightarrow> error option \<times> upd" where
  "update c r a e changes =
     (case Name e of
        None \<Rightarrow> (Some (NilDereference ''e.Name''), update_start new_Group changes)
      | Some name \<Rightarrow>
          (case find c name of
             Inl err \<Rightarrow> (Some err, update_start new_Group changes)
           | Inr actual \<Rightarrow>
               next_step (update_render c r actual a e changes)
                 (steps [update_warn, update_send c])))"

text \<open>\<^verbatim>\<open>RenderAWS\<close> and \<^verbatim>\<open>createOrUpdate\<close>: without an actual state the task is
  created, with one it is updated.\<close>

datatype render_end = Created create_end | Updated "error option \<times> upd"

definition createOrUpdate ::
  "nat \<Rightarrow> cloud \<Rightarrow> ranges \<Rightarrow> Elastigroup option \<Rightarrow> Elastigroup \<Rightarrow> Elastigroup
     \<Rightarrow> render_end option" where
  "createOrUpdate fuel c r a e changes =
     (case a of
        None \<Rightarrow> map_option Created (create fuel c r a e changes)
      | Some actual \<Rightarrow> Some (Updated (update c r actual e changes)))"

definition RenderAWS ::
  "nat \<Rightarrow> cloud \<Rightarrow> ranges \<Rightarrow> Elastigroup option \<Rightarrow> Elastigroup \<Rightarrow> Elastigroup
     \<Rightarrow> render_end option" where
  "RenderAWS fuel c r a e changes = createOrUpdate fuel c r a e changes"


subsection \<open>RenderTerraform\<close>

text \<open>A \<^verbatim>\<open>terraformWriter.Literal\<close> is the deferred token it stands for.\<close>

datatype Literal = Literal string

record terraformElastigroupBlockDevice =
  tbd_DeviceName :: "string option"
  tbd_VirtualName :: "string option"
  tbd_VolumeType :: "string option"
  tbd_VolumeSize :: "int64 option"
  tbd_VolumeIOPS :: "int64 option"
  tbd_VolumeThroughput :: "int64 option"
  tbd_DeleteOnTermination :: "bool option"

record terraformElastigroupNetworkInterface =
  tni_Description :: "string option"
  tni_DeviceIndex :: "go_int option"
  tni_AssociatePublicIPAddress :: "bool option"
  tni_DeleteOnTermination :: "bool option"

record terraformAutoScalerHeadroom =
  th_CPUPerUnit :: "go_int option"
  th_GPUPerUnit :: "go_int option"
  th_MemPerUnit :: "go_int option"
  th_NumOfUnits :: "go_int option"

record terraformAutoScalerDown =
  td_MaxPercentage :: "float64 option"
  td_EvaluationPeriods :: "go_int option"

record terraformKV =
  kv_Key :: "string option"
  kv_Value :: "string option"

record terraformElastigroupIntegration =
  ti_IntegrationMode :: "string option"
  ti_ClusterIdentifier :: "string option"
  ti_Enabled :: "bool option"
  ti_AutoConfig :: "bool option"
  ti_Cooldown :: "go_int option"
  ti_Headroom :: "terraformAutoScalerHeadroom option"
  ti_Down :: "terraformAutoScalerDown option"
  ti_Labels :: "terraformKV list option"

record terraformElastigroup =
  tf_Name :: "string option"
  tf_Description :: "string option"
  tf_Product :: "string option"
  tf_Region :: "string option"
  tf_SubnetIDs :: "Literal list option"
  tf_LoadBalancers :: "Literal list option"
  tf_NetworkInterfaces :: "terraformElastigroupNetworkInterface list option"
  tf_RootBlockDevice :: "terraformElastigroupBlockDevice option"
  tf_EphemeralBlockDevice :: "terraformElastigroupBlockDevice list option"
  tf_Integration :: "terraformElastigroupIntegration option"
  tf_Tags :: "terraformKV list option"
  tf_MinSize :: "int64 option"
  tf_MaxSize :: "int64 option"
  tf_DesiredCapacity :: "int64 option"
  tf_CapacityUnit :: "string option"
  tf_SpotPercentage :: "float64 option"
  tf_Orientation :: "string option"
  tf_FallbackToOnDemand :: "bool option"
  tf_UtilizeReservedInstances :: "bool option"
  tf_DrainingTimeout :: "int64 option"
  tf_OnDemand :: "string option"
  tf_Spot :: "string list option"
  tf_Monitoring :: "bool option"
  tf_EBSOptimized :: "bool option"
  tf_ImageID :: "string option"
  tf_HealthCheckType :: "string option"
  tf_SecurityGroups :: "Literal list option"
  tf_UserData :: "Literal option"
  tf_IAMInstanceProfile :: "Literal option"
  tf_KeyName :: "Literal option"

text \<open>The Terraform target and what else \<^verbatim>\<open>RenderTerraform\<close> takes from outside the
  file: the three methods of the target it calls (the errors they return, and the
  literal of a file resource), the \<^verbatim>\<open>TerraformLink\<close> of the tasks referred to, and the
  constant \<^verbatim>\<open>awstasks.CloudTagInstanceGroupRolePrefix\<close>.\<close>

record target =
  AddOutputVariableArray :: "string \<Rightarrow> Literal \<Rightarrow> go_error option"
  AddFileResource :: "string \<Rightarrow> string \<Rightarrow> string \<Rightarrow> Resource \<Rightarrow> bool \<Rightarrow> go_error + Literal"
  RenderResource :: "string \<Rightarrow> string \<Rightarrow> terraformElastigroup \<Rightarrow> go_error option"
  SecurityGroup_TerraformLink :: "SecurityGroup \<Rightarrow> Literal"
  Subnet_TerraformLink :: "Subnet \<Rightarrow> Literal"
  IAMInstanceProfile_TerraformLink :: "IAMInstanceProfile \<Rightarrow> Literal"
  SSHKey_TerraformLink :: "SSHKey \<Rightarrow> Literal"
  LoadBalancer_TerraformLink :: "ClassicLoadBalancer \<Rightarrow> Literal"
  CloudTagInstanceGroupRolePrefix :: string

text \<open>What \<^verbatim>\<open>RenderTerraform\<close> emits is the sequence of its calls to the target: the
  output variables, the file resource of the user data, and at the end the resource
  block of the task.\<close>

datatype target_call =
    OutputVariableArray string Literal
  | FileResource string string string Resource bool
  | Resource string string terraformElastigroup

record tfs =
  t_tf :: terraformElastigroup
  t_role :: string
  t_calls :: "target_call list"

definition terraform_start :: "Elastigroup \<Rightarrow> tfs" where
  "terraform_start e =
     \<lparr> t_tf = \<lparr> tf_Name = Name e, tf_Description = Name e, tf_Product = Product e,
         tf_Region = Region e, tf_SubnetIDs = None, tf_LoadBalancers = None,
         tf_NetworkInterfaces = None, tf_RootBlockDevice = None,
         tf_EphemeralBlockDevice = None, tf_Integration = None, tf_Tags = None,
         tf_MinSize = MinSize e, tf_MaxSize = MaxSize e, tf_DesiredCapacity = MinSize e,
         tf_CapacityUnit = Some ''instance'', tf_SpotPercentage = SpotPercentage e,
         tf_Orientation = Some (normalizeOrientation (Orientation e)),
         tf_FallbackToOnDemand = FallbackToOnDemand e,
         tf_UtilizeReservedInstances = UtilizeReservedInstances e,
         tf_DrainingTimeout = DrainingTimeout e, tf_OnDemand = OnDemandInstanceType e,
         tf_Spot = SpotInstanceTypes e, tf_Monitoring = None, tf_EBSOptimized = None,
         tf_ImageID = None, tf_HealthCheckType = None, tf_SecurityGroups = None,
         tf_UserData = None, tf_IAMInstanceProfile = None, tf_KeyName = None \<rparr>,
       t_role = [], t_calls = [] \<rparr>"

definition terraform_image :: "cloud \<Rightarrow> Elastigroup \<Rightarrow> tfs step" where
  "terraform_image c e s =
     (if ImageID e \<noteq> None
      then (case resolveImage c (StringValue (ImageID e)) of
              Inl err \<Rightarrow> (Some err, s)
            | Inr img \<Rightarrow> (None, s\<lparr>t_tf := (t_tf s)\<lparr>tf_ImageID := img_ImageId img\<rparr>\<rparr>))
      else (None, s))"

text \<open>The role of the group is the rest of a tag key that begins with the role
  prefix; a second such key with another rest is an error, unless the role so far is
  empty.\<close>

fun role_loop :: "string \<Rightarrow> string \<Rightarrow> string list \<Rightarrow> error + string" where
  "role_loop pre role [] = Inr role"
| "role_loop pre role (key # keys) =
     (if HasPrefix key pre
      then (let suffix = TrimPrefix key pre
            in if role \<noteq> [] \<and> role \<noteq> suffix then Inl (MultipleRoleTags role suffix)
               else role_loop pre suffix keys)
      else role_loop pre role keys)"

definition terraform_role :: "target \<Rightarrow> ranges \<Rightarrow> tfs step" where
  "terraform_role t r s =
     (case role_loop (CloudTagInstanceGroupRolePrefix t) [] (map fst (rng_role r)) of
        Inl err \<Rightarrow> (Some err, s)
      | Inr role \<Rightarrow> (None, s\<lparr>t_role := role\<rparr>))"

text \<open>The loops over the security groups and over the subnets: each link is appended
  to the list of the resource, and with a role it is also added to an output variable
  of the role.\<close>

fun links_loop ::
  "target \<Rightarrow> string \<Rightarrow> string \<Rightarrow> Literal list \<Rightarrow> Literal list option \<times> target_call list
     \<Rightarrow> error option \<times> Literal list option \<times> target_call list" where
  "links_loop t role suffix [] acc = (None, acc)"
| "links_loop t role suffix (l # ls) (out, calls) =
     (let out1 = Some (elems out @ [l])
      in if role \<noteq> []
         then (case AddOutputVariableArray t (role @ suffix) l of
                 Some err \<Rightarrow>
                   (Some (Upstream err), out1, calls @ [OutputVariableArray (role @ suffix) l])
               | None \<Rightarrow>
                   links_loop t role suffix ls
                     (out1, calls @ [OutputVariableArray (role @ suffix) l]))
         else links_loop t role suffix ls (out1, calls))"

definition terraform_securityGroups :: "target \<Rightarrow> Elastigroup \<Rightarrow> tfs step" where
  "terraform_securityGroups t e s =
     (case SecurityGroups e of
        None \<Rightarrow> (None, s)
      | Some sgs \<Rightarrow>
          (case links_loop t (t_role s) ''_security_groups''
                  (map (SecurityGroup_TerraformLink t) sgs)
                  (tf_SecurityGroups (t_tf s), t_calls s) of
             (err, out, calls) \<Rightarrow>
               (err, s\<lparr>t_tf := (t_tf s)\<lparr>tf_SecurityGroups := out\<rparr>, t_calls := calls\<rparr>)))"

definition terraform_userData :: "target \<Rightarrow> Elastigroup \<Rightarrow> tfs step" where
  "terraform_userData t e s =
     (case UserData e of
        None \<Rightarrow> (None, s)
      | Some r \<Rightarrow>
          (case Name e of
             None \<Rightarrow> (Some (NilDereference ''e.Name''), s)
           | Some name \<Rightarrow>
               (let s1 = s\<lparr>t_calls := t_calls s @
                           [FileResource ''spotinst_elastigroup_aws'' name ''user_data'' r False]\<rparr>
                in case AddFileResource t ''spotinst_elastigroup_aws'' name ''user_data'' r False of
                     Inl err \<Rightarrow> (Some (Upstream err), s1\<lparr>t_tf := (t_tf s1)\<lparr>tf_UserData := None\<rparr>\<rparr>)
                   | Inr l \<Rightarrow> (None, s1\<lparr>t_tf := (t_tf s1)\<lparr>tf_UserData := Some l\<rparr>\<rparr>))))"

definition terraform_links :: "target \<Rightarrow> Elastigroup \<Rightarrow> tfs \<Rightarrow> tfs" where
  "terraform_links t e s =
     (let tf1 = (case IAMInstanceProfile e of
                   None \<Rightarrow> t_tf s
                 | Some p \<Rightarrow> (t_tf s)\<lparr>tf_IAMInstanceProfile :=
                                Some (IAMInstanceProfile_TerraformLink t p)\<rparr>);
          tf2 = (if Monitoring e \<noteq> None then tf1\<lparr>tf_Monitoring := Monitoring e\<rparr> else tf1);
          tf3 = (if HealthCheckType e \<noteq> None
                 then tf2\<lparr>tf_HealthCheckType := HealthCheckType e\<rparr> else tf2)
      in s\<lparr>t_tf := (case SSHKey e of
                       None \<Rightarrow> tf3
                     | Some k \<Rightarrow> tf3\<lparr>tf_KeyName := Some (SSHKey_TerraformLink t k)\<rparr>)\<rparr>)"

definition terraform_subnets :: "target \<Rightarrow> Elastigroup \<Rightarrow> tfs step" where
  "terraform_subnets t e s =
     (case Subnets e of
        None \<Rightarrow> (None, s)
      | Some subnets \<Rightarrow>
          (case links_loop t (t_role s) ''_subnet_ids''
                  (map (Subnet_TerraformLink t) subnets)
                  (tf_SubnetIDs (t_tf s), t_calls s) of
             (err, out, calls) \<Rightarrow>
               (err, s\<lparr>t_tf := (t_tf s)\<lparr>tf_SubnetIDs := out\<rparr>, t_calls := calls\<rparr>)))"

definition terraform_loadBalancer :: "target \<Rightarrow> Elastigroup \<Rightarrow> tfs \<Rightarrow> tfs" where
  "terraform_loadBalancer t e s =
     (let tf1 = (case LoadBalancer e of
                   None \<Rightarrow> t_tf s
                 | Some lb \<Rightarrow> (t_tf s)\<lparr>tf_LoadBalancers :=
                     Some (elems (tf_LoadBalancers (t_tf s)) @ [LoadBalancer_TerraformLink t lb])\<rparr>)
      in s\<lparr>t_tf := (if AssociatePublicIP e \<noteq> None
                     then tf1\<lparr>tf_NetworkInterfaces := Some (elems (tf_NetworkInterfaces tf1) @
                            [\<lparr> tni_Description = Some ''eth0'', tni_DeviceIndex = Some 0,
                               tni_AssociatePublicIPAddress = AssociatePublicIP e,
                               tni_DeleteOnTermination = Some True \<rparr>])\<rparr>
                     else tf1)\<rparr>)"

definition terraform_rootVolume :: "cloud \<Rightarrow> Elastigroup \<Rightarrow> tfs step" where
  "terraform_rootVolume c e s =
     (case RootVolumeOpts e of
        None \<Rightarrow> (None, s)
      | Some opts \<Rightarrow>
          (case buildRootDevice c (RootVolumeOpts e) (ImageID e) of
             Inl err \<Rightarrow> (Some err, s)
           | Inr rootDevice \<Rightarrow>
               (let tf1 = (t_tf s)\<lparr>tf_RootBlockDevice := Some
                            \<lparr> tbd_DeviceName = bd_DeviceName rootDevice,
                              tbd_VirtualName = None,
                              tbd_VolumeType = bd_EbsVolumeType rootDevice,
                              tbd_VolumeSize = bd_EbsVolumeSize rootDevice,
                              tbd_VolumeIOPS = bd_EbsVolumeIops rootDevice,
                              tbd_VolumeThroughput = bd_EbsVolumeThroughput rootDevice,
                              tbd_DeleteOnTermination = Some True \<rparr>\<rparr>
                in case buildEphemeralDevices c (OnDemandInstanceType e) of
                     Inl err \<Rightarrow> (Some err, s\<lparr>t_tf := tf1\<rparr>)
                   | Inr ephemeralDevices \<Rightarrow>
                       (let tf2 = (if length ephemeralDevices \<noteq> 0
                                   then tf1\<lparr>tf_EphemeralBlockDevice := Some
                                          (map (\<lambda>bdm. \<lparr> tbd_DeviceName = bd_DeviceName bdm,
                                                  tbd_VirtualName = bd_VirtualName bdm,
                                                  tbd_VolumeType = None, tbd_VolumeSize = None,
                                                  tbd_VolumeIOPS = None,
                                                  tbd_VolumeThroughput = None,
                                                  tbd_DeleteOnTermination = None \<rparr>)
                                             ephemeralDevices)\<rparr>
                                   else tf1)
                        in (None, s\<lparr>t_tf := (if rv_Optimization opts \<noteq> None
                                               then tf2\<lparr>tf_EBSOptimized := rv_Optimization opts\<rparr>
                                               else tf2)\<rparr>)))))"

definition terraform_integration :: "ranges \<Rightarrow> AutoScalerOpts \<Rightarrow> terraformElastigroupIntegration" where
  "terraform_integration r opts =
     (let i0 = \<lparr> ti_IntegrationMode = Some ''pod'', ti_ClusterIdentifier = as_ClusterID opts,
                 ti_Enabled = None, ti_AutoConfig = None, ti_Cooldown = None,
                 ti_Headroom = None, ti_Down = None, ti_Labels = None \<rparr>
      in if as_Enabled opts \<noteq> None
         then
           (let i1 = i0\<lparr>ti_Enabled := as_Enabled opts, ti_AutoConfig := Some True,
                        ti_Cooldown := as_Cooldown opts\<rparr>;
                i2 = (case as_Headroom opts of
                        None \<Rightarrow> i1
                      | Some headroom \<Rightarrow>
                          i1\<lparr>ti_AutoConfig := Some False,
                             ti_Headroom := Some \<lparr> th_CPUPerUnit = hr_CPUPerUnit headroom,
                               th_GPUPerUnit = hr_GPUPerUnit headroom,
                               th_MemPerUnit = hr_MemPerUnit headroom,
                               th_NumOfUnits = hr_NumOfUnits headroom \<rparr>\<rparr>);
                i3 = (case as_Down opts of
                        None \<Rightarrow> i2
                      | Some down \<Rightarrow>
                          i2\<lparr>ti_Down := Some \<lparr> td_MaxPercentage = dn_MaxPercentage down,
                               td_EvaluationPeriods = dn_EvaluationPeriods down \<rparr>\<rparr>)
            in if as_Labels opts \<noteq> None
               then i3\<lparr>ti_Labels := Some (map (\<lambda>(k, v). \<lparr> kv_Key = Some k, kv_Value = Some v \<rparr>)
                                          (rng_labels r))\<rparr>
               else i3)
         else i0)"

definition terraform_autoScaler :: "ranges \<Rightarrow> Elastigroup \<Rightarrow> tfs \<Rightarrow> tfs" where
  "terraform_autoScaler r e s =
     (case AutoScalerOpts e of
        None \<Rightarrow> s
      | Some opts \<Rightarrow> s\<lparr>t_tf := (t_tf s)\<lparr>tf_Integration := Some (terraform_integration r opts)\<rparr>\<rparr>)"

definition terraform_tags :: "ranges \<Rightarrow> Elastigroup \<Rightarrow> tfs \<Rightarrow> tfs" where
  "terraform_tags r e s =
     (if Tags e \<noteq> None
      then s\<lparr>t_tf := (t_tf s)\<lparr>tf_Tags := appended (elems (tf_Tags (t_tf s)) @
               map (\<lambda>tag. \<lparr> kv_Key = tag_Key tag, kv_Value = tag_Value tag \<rparr>)
                 (buildTags (rng_tags r)))\<rparr>\<rparr>
      else s)"

definition terraform_render :: "target \<Rightarrow> Elastigroup \<Rightarrow> tfs step" where
  "terraform_render t e s =
     (case Name e of
        None \<Rightarrow> (Some (NilDereference ''e.Name''), s)
      | Some name \<Rightarrow>
          (let s1 = s\<lparr>t_calls := t_calls s @ [Resource ''spotinst_elastigroup_aws'' name (t_tf s)]\<rparr>
           in case RenderResource t ''spotinst_elastigroup_aws'' name (t_tf s) of
                Some err \<Rightarrow> (Some (Upstream err), s1)
              | None \<Rightarrow> (None, s1)))"

text \<open>\<^verbatim>\<open>RenderTerraform\<close>: the error it returns and the calls it has made to the
  target.\<close>

definition RenderTerraform ::
  "cloud \<Rightarrow> target \<Rightarrow> ranges \<Rightarrow> Elastigroup option \<Rightarrow> Elastigroup \<Rightarrow> Elastigroup
     \<Rightarrow> error option \<times> target_call list" where
  "RenderTerraform c t r a e changes =
     (let e1 = applyDefaults e
      in case steps [terraform_image c e1,
                      terraform_role t r,
                      terraform_securityGroups t e1,
                      terraform_userData t e1,
                      pure_step (terraform_links t e1),
                      terraform_subnets t e1,
                      pure_step (terraform_loadBalancer t e1),
                      terraform_rootVolume c e1,
                      pure_step (terraform_autoScaler r e1),
                      pure_step (terraform_tags r e1),
                      terraform_render t e1] (terraform_start e1) of
           (err, s) \<Rightarrow> (err, t_calls s))"


subsection \<open>The Delta\<close>

text \<open>Modelled from the spec: the Delta that the executor computes from the actual state
  and the desired task (\<^verbatim>\<open>fi.BuildChanges\<close>, which is not part of the file).  The
  spec, 4.3: per field, the desired value is recorded in the Delta iff it differs from
  the actual one by that field's equality rule; the rule is value equality by default,
  set equality for collections, and a recursive diff per sub-field for the nested
  option groups.  A field whose desired value is nil is not populated.\<close>

definition differing :: "'a option \<Rightarrow> 'a option \<Rightarrow> 'a option" where
  "differing actual desired = (if desired \<noteq> actual then desired else None)"

definition differing_set :: "'a list option \<Rightarrow> 'a list option \<Rightarrow> 'a list option" where
  "differing_set actual desired =
     (if map_option set desired \<noteq> map_option set actual then desired else None)"

definition Delta_RootVolumeOpts ::
  "RootVolumeOpts option \<Rightarrow> RootVolumeOpts option \<Rightarrow> RootVolumeOpts option" where
  "Delta_RootVolumeOpts actual desired =
     (case desired of
        None \<Rightarrow> None
      | Some d \<Rightarrow>
          (let a = (case actual of None \<Rightarrow> new_RootVolumeOpts | Some opts \<Rightarrow> opts);
               ch = \<lparr> rv_Type = differing (rv_Type a) (rv_Type d),
                      rv_Size = differing (rv_Size a) (rv_Size d),
                      rv_IOPS = differing (rv_IOPS a) (rv_IOPS d),
                      rv_Throughput = differing (rv_Throughput a) (rv_Throughput d),
                      rv_Optimization = differing (rv_Optimization a) (rv_Optimization d) \<rparr>
           in if ch = new_RootVolumeOpts then None else Some ch))"

definition Delta_Headroom ::
  "AutoScalerHeadroomOpts option \<Rightarrow> AutoScalerHeadroomOpts option
     \<Rightarrow> AutoScalerHeadroomOpts option" where
  "Delta_Headroom actual desired =
     (case desired of
        None \<Rightarrow> None
      | Some d \<Rightarrow>
          (let a = (case actual of None \<Rightarrow> new_AutoScalerHeadroomOpts | Some opts \<Rightarrow> opts);
               ch = \<lparr> hr_CPUPerUnit = differing (hr_CPUPerUnit a) (hr_CPUPerUnit d),
                      hr_GPUPerUnit = differing (hr_GPUPerUnit a) (hr_GPUPerUnit d),
                      hr_MemPerUnit = differing (hr_MemPerUnit a) (hr_MemPerUnit d),
                      hr_NumOfUnits = differing (hr_NumOfUnits a) (hr_NumOfUnits d) \<rparr>
           in if ch = new_AutoScalerHeadroomOpts then None else Some ch))"

definition Delta_Down ::
  "AutoScalerDownOpts option \<Rightarrow> AutoScalerDownOpts option \<Rightarrow> AutoScalerDownOpts option" where
  "Delta_Down actual desired =
     (case desired of
        None \<Rightarrow> None
      | Some d \<Rightarrow>
          (let a = (case actual of
                      None \<Rightarrow> \<lparr> dn_MaxPercentage = None, dn_EvaluationPeriods = None \<rparr>
                    | Some opts \<Rightarrow> opts);
               ch = \<lparr> dn_MaxPercentage = differing (dn_MaxPercentage a) (dn_MaxPercentage d),
                      dn_EvaluationPeriods =
                        differing (dn_EvaluationPeriods a) (dn_EvaluationPeriods d) \<rparr>
           in if ch = \<lparr> dn_MaxPercentage = None, dn_EvaluationPeriods = None \<rparr>
              then None else Some ch))"

definition Delta_ResourceLimits ::
  "AutoScalerResourceLimitsOpts option \<Rightarrow> AutoScalerResourceLimitsOpts option
     \<Rightarrow> AutoScalerResourceLimitsOpts option" where
  "Delta_ResourceLimits actual desired =
     (case desired of
        None \<Rightarrow> None
      | Some d \<Rightarrow>
          (let a = (case actual of
                      None \<Rightarrow> \<lparr> rl_MaxVCPU = None, rl_MaxMemory = None \<rparr>
                    | Some opts \<Rightarrow> opts);
               ch = \<lparr> rl_MaxVCPU = differing (rl_MaxVCPU a) (rl_MaxVCPU d),
                      rl_MaxMemory = differing (rl_MaxMemory a) (rl_MaxMemory d) \<rparr>
           in if ch = \<lparr> rl_MaxVCPU = None, rl_MaxMemory = None \<rparr> then None else Some ch))"

definition Delta_AutoScalerOpts ::
  "AutoScalerOpts option \<Rightarrow> AutoScalerOpts option \<Rightarrow> AutoScalerOpts option" where
  "Delta_AutoScalerOpts actual desired =
     (case desired of
        None \<Rightarrow> None
      | Some d \<Rightarrow>
          (let a = (case actual of None \<Rightarrow> new_AutoScalerOpts | Some opts \<Rightarrow> opts);
               ch = \<lparr> as_Enabled = differing (as_Enabled a) (as_Enabled d),
                      as_AutoConfig = differing (as_AutoConfig a) (as_AutoConfig d),
                      as_AutoHeadroomPercentage =
                        differing (as_AutoHeadroomPercentage a) (as_AutoHeadroomPercentage d),
                      as_ClusterID = differing (as_ClusterID a) (as_ClusterID d),
                      as_Cooldown = differing (as_Cooldown a) (as_Cooldown d),
                      as_Labels = differing (as_Labels a) (as_Labels d),
                      as_Taints = differing_set (as_Taints a) (as_Taints d),
                      as_Headroom = Delta_Headroom (as_Headroom a) (as_Headroom d),
                      as_Down = Delta_Down (as_Down a) (as_Down d),
                      as_ResourceLimits =
                        Delta_ResourceLimits (as_ResourceLimits a) (as_ResourceLimits d) \<rparr>
           in if ch = new_AutoScalerOpts then None else Some ch))"

definition Delta :: "Elastigroup \<Rightarrow> Elastigroup \<Rightarrow> Elastigroup" where
  "Delta a e =
     \<lparr> Name = differing (Name a) (Name e),
       Lifecycle = differing (Lifecycle a) (Lifecycle e),
       ID = differing (ID a) (ID e),
       Region = differing (Region a) (Region e),
       MinSize = differing (MinSize a) (MinSize e),
       MaxSize = differing (MaxSize a) (MaxSize e),
       SpotPercentage = differing (SpotPercentage a) (SpotPercentage e),
       UtilizeReservedInstances =
         differing (UtilizeReservedInstances a) (UtilizeReservedInstances e),
       FallbackToOnDemand = differing (FallbackToOnDemand a) (FallbackToOnDemand e),
       DrainingTimeout = differing (DrainingTimeout a) (DrainingTimeout e),
       HealthCheckType = differing (HealthCheckType a) (HealthCheckType e),
       Product = differing (Product a) (Product e),
       Orientation = differing (Orientation a) (Orientation e),
       Tags = differing (Tags a) (Tags e),
       UserData = differing (UserData a) (UserData e),
       ImageID = differing (ImageID a) (ImageID e),
       OnDemandInstanceType = differing (OnDemandInstanceType a) (OnDemandInstanceType e),
       SpotInstanceTypes = differing_set (SpotInstanceTypes a) (SpotInstanceTypes e),
       IAMInstanceProfile = differing (IAMInstanceProfile a) (IAMInstanceProfile e),
       LoadBalancer = differing (LoadBalancer a) (LoadBalancer e),
       SSHKey = differing (SSHKey a) (SSHKey e),
       Subnets = differing_set (Subnets a) (Subnets e),
       SecurityGroups = differing_set (SecurityGroups a) (SecurityGroups e),
       Monitoring = differing (Monitoring a) (Monitoring e),
       AssociatePublicIP = differing (AssociatePublicIP a) (AssociatePublicIP e),
       Tenancy = differing (Tenancy a) (Tenancy e),
       RootVolumeOpts = Delta_RootVolumeOpts (RootVolumeOpts a) (RootVolumeOpts e),
       AutoScalerOpts = Delta_AutoScalerOpts (AutoScalerOpts a) (AutoScalerOpts e) \<rparr>"


subsection \<open>A small cloud and a small task\<close>

text \<open>Concrete inputs on which the properties below are exercised: a cloud without
  groups and load balancers that resolves every image name and accepts every call, and
  a task with a name, capacity bounds, a key, an instance profile and a root volume.\<close>

definition example_cloud :: cloud where
  "example_cloud =
     \<lparr> List = Inr [],
       Create = (\<lambda>n g. Inr ''sig-1''),
       Update = (\<lambda>g. None),
       NewElastigroup = (\<lambda>g. None),
       ResolveImage = (\<lambda>name. Inr (Some \<lparr> img_ImageId = Some ''ami-1'',
                                           img_RootDeviceName = Some ''/dev/xvda'' \<rparr>)),
       FindELBByNameTag = (\<lambda>name. Inr None),
       FindELBV2ByNameTag = (\<lambda>name. Inr None),
       GetMachineTypeInfo = (\<lambda>name. Inr []),
       EncodeToString = (\<lambda>s. s),
       DecodeString = (\<lambda>s. Inr s),
       ToLower = (\<lambda>s. s),
       StringSlicesEqualIgnoreOrder = (\<lambda>l r. length l = length r \<and> set l = set r) \<rparr>"

definition example_task :: Elastigroup where
  "example_task =
     empty_Elastigroup\<lparr>Name := Some ''nodes'', MinSize := Some 2, MaxSize := Some 5,
       SSHKey := Some \<lparr> key_Name = Some ''admin'' \<rparr>,
       IAMInstanceProfile := Some \<lparr> iam_Name = Some ''nodes-profile'' \<rparr>,
       RootVolumeOpts := Some (new_RootVolumeOpts\<lparr>rv_Type := Some ''gp2'',
         rv_Size := Some 64, rv_IOPS := Some 100, rv_Throughput := Some 125\<rparr>)\<rparr>"

definition no_ranges :: ranges where
  "no_ranges = \<lparr> rng_role = [], rng_labels = [], rng_tags = [] \<rparr>"

text \<open>A live group as the provider lists it, with the capacity of the scenarios.\<close>

definition example_group :: Group where
  "example_group =
     new_Group\<lparr>grp_ID := Some ''sig-1'', grp_Name := Some ''nodes'',
       grp_Capacity := Some \<lparr> cap_Minimum = Some 2, cap_Maximum = Some 4, cap_Target = Some 4 \<rparr>\<rparr>"


text \<open>A Terraform target that accepts every call, with the role prefix of kops.\<close>

definition example_target :: target where
  "example_target =
     \<lparr> AddOutputVariableArray = (\<lambda>key l. None),
       AddFileResource = (\<lambda>kind name key r base64. Inr (Literal ''file'')),
       RenderResource = (\<lambda>kind name tf. None),
       SecurityGroup_TerraformLink = (\<lambda>sg. Literal (StringValue (sg_Name sg))),
       Subnet_TerraformLink = (\<lambda>subnet. Literal (StringValue (subnet_Name subnet))),
       IAMInstanceProfile_TerraformLink = (\<lambda>p. Literal (StringValue (iam_Name p))),
       SSHKey_TerraformLink = (\<lambda>k. Literal (StringValue (key_Name k))),
       LoadBalancer_TerraformLink = (\<lambda>lb. Literal (StringValue (clb_Name lb))),
       CloudTagInstanceGroupRolePrefix = ''k8s.io/role/'' \<rparr>"

text \<open>A task that asks for the cost orientation, the group that \<^verbatim>\<open>create\<close> builds
  for it as the provider lists it afterwards, under the identifier it has given, and
  the cloud of the next pass.\<close>

definition cost_task :: Elastigroup where
  "cost_task =
     empty_Elastigroup\<lparr>Name := Some ''nodes'', MinSize := Some 2, MaxSize := Some 5,
       Orientation := Some ''cost'',
       SSHKey := Some \<lparr> key_Name = Some ''admin'' \<rparr>,
       IAMInstanceProfile := Some \<lparr> iam_Name = Some ''nodes-profile'' \<rparr>,
       RootVolumeOpts := Some (new_RootVolumeOpts\<lparr>rv_Type := Some ''gp2'',
         rv_Size := Some 64\<rparr>)\<rparr>"

definition created_group :: "Elastigroup \<Rightarrow> Group" where
  "created_group e =
     (case create_group example_cloud no_ranges (applyDefaults e) of
        Inl err \<Rightarrow> new_Group
      | Inr g \<Rightarrow> g\<lparr>grp_ID := Some ''sig-1''\<rparr>)"

definition second_cloud :: "Elastigroup \<Rightarrow> cloud" where
  "second_cloud e = example_cloud\<lparr>List := Inr [created_group e]\<rparr>"

section \<open>Properties\<close>

subsection \<open>Precondition validation\<close>

text \<open>C8, as stated: precondition validation confirms that Name, MinSize and MaxSize
  are set.  It does not: a task with a name and neither capacity bound passes
  \<^verbatim>\<open>CheckChanges\<close>.\<close>

theorem C8_capacity_not_validated:
  "CheckChanges None (empty_Elastigroup\<lparr>Name := Some ''nodes''\<rparr>) empty_Elastigroup = None
   \<and> MinSize (empty_Elastigroup\<lparr>Name := Some ''nodes''\<rparr>) = None
   \<and> MaxSize (empty_Elastigroup\<lparr>Name := Some ''nodes''\<rparr>) = None"
  by (simp add: CheckChanges_def empty_Elastigroup_def)

text \<open>C8, amended: precondition validation confirms that Name is set, whatever the
  actual state and the changes are; a missing Name is reported as the required-field
  error for Name, and this is the only error the validation reports.\<close>

theorem C8_CheckChanges_requires_Name:
  "CheckChanges a e changes = Some err \<longleftrightarrow> Name e = None \<and> err = RequiredField ''Name''"
  by (auto simp: CheckChanges_def)

theorem C8_CheckChanges_requires_Name_witness:
  "CheckChanges (Some empty_Elastigroup) empty_Elastigroup empty_Elastigroup
     = Some (RequiredField ''Name'')"
  using C8_CheckChanges_requires_Name [of "Some empty_Elastigroup" empty_Elastigroup
      empty_Elastigroup "RequiredField ''Name''"]
  by (simp add: empty_Elastigroup_def)

text \<open>What a missing capacity bound does instead: \<^verbatim>\<open>create\<close> reads through the nil
  pointer, which is a panic and no required-field error.\<close>

lemma create_without_MinSize:
  assumes "Name e = Some name" and "MinSize e = None"
  shows "create fuel c r a e changes =
           Some \<lparr> ce_error = Some (NilDereference ''e.MinSize''), ce_e = applyDefaults e,
                  ce_group = None, ce_calls = 0, ce_slept = 0 \<rparr>"
proof -
  have "MinSize (applyDefaults e) = None"
    using assms(2) by (simp add: applyDefaults_def Let_def)
  then have "create_group c r (applyDefaults e) = Inl (NilDereference ''e.MinSize'')"
    by (simp add: create_group_def create_capacity_def and_then_def)
  with assms(1) show ?thesis
    by (simp add: create_def Let_def)
qed

subsection \<open>Absence of the group\<close>

lemma find_first_None_iff:
  "find_first groups name = None \<longleftrightarrow> (\<forall>g \<in> set groups. StringValue (grp_Name g) \<noteq> name)"
  by (induction groups) auto

text \<open>C3, as stated: when no live group has the desired name, \<^verbatim>\<open>Find\<close> reports no
  error.  It does: with an empty listing \<^verbatim>\<open>Find\<close> returns the error of \<^verbatim>\<open>find\<close>.\<close>

theorem C3_Find_reports_absence_as_error:
  "List example_cloud = Inr [] \<and> Find example_cloud example_task = Inl (FindNotFound ''nodes'')"
  by (simp add: Find_def find_def and_then_def example_cloud_def example_task_def
      empty_Elastigroup_def)

text \<open>C3, amended: when the listing succeeds and holds no group of the desired name,
  \<^verbatim>\<open>find\<close> and \<^verbatim>\<open>Find\<close> return the error that the group was not found; the absence
  is signalled without an error by \<^verbatim>\<open>CheckExisting\<close>, which returns false, and
  without an actual state \<^verbatim>\<open>createOrUpdate\<close> takes the create path.\<close>

theorem C3_absence_is_signalled_by_CheckExisting:
  assumes "Name e = Some name" and "List c = Inr groups"
    and "\<forall>g \<in> set groups. StringValue (grp_Name g) \<noteq> name"
  shows "find c name = Inl (FindNotFound name)
       \<and> Find c e = Inl (FindNotFound name)
       \<and> CheckExisting c e = Inr False
       \<and> createOrUpdate fuel c r None e changes
            = map_option Created (create fuel c r None e changes)"
proof -
  from assms(3) have "find_first groups name = None"
    by (simp add: find_first_None_iff)
  with assms(2) have f: "find c name = Inl (FindNotFound name)"
    by (simp add: find_def)
  with assms(1) show ?thesis
    by (simp add: Find_def CheckExisting_def createOrUpdate_def and_then_def)
qed

theorem C3_absence_is_signalled_by_CheckExisting_witness:
  "find example_cloud ''nodes'' = Inl (FindNotFound ''nodes'')
   \<and> Find example_cloud example_task = Inl (FindNotFound ''nodes'')
   \<and> CheckExisting example_cloud example_task = Inr False
   \<and> createOrUpdate 1 example_cloud no_ranges None example_task empty_Elastigroup
        = map_option Created (create 1 example_cloud no_ranges None example_task empty_Elastigroup)"
proof -
  have n: "Name example_task = Some ''nodes''"
    by (simp add: example_task_def empty_Elastigroup_def)
  have l: "List example_cloud = Inr []"
    by (simp add: example_cloud_def)
  have a: "\<forall>g \<in> set ([] :: Group list). StringValue (grp_Name g) \<noteq> ''nodes''"
    by simp
  show ?thesis
    by (rule C3_absence_is_signalled_by_CheckExisting [OF n l a])
qed

subsection \<open>The root device\<close>

lemma buildRootDevice_fields:
  assumes "buildRootDevice c (Some opts) imageID = Inr bdm"
  shows "bd_EbsVolumeType bdm = rv_Type opts"
    and "bd_EbsVolumeIops bdm =
           (if StringValue (rv_Type opts) \<noteq> ''gp2'' then rv_IOPS opts else None)"
    and "bd_EbsVolumeThroughput bdm =
           (if StringValue (rv_Type opts) = ''gp3'' then rv_Throughput opts else None)"
    and "bd_EbsDeleteOnTermination bdm = Some True"
  using assms
  by (auto simp: buildRootDevice_def Let_def split: sum.splits)

lemma convertBlockDeviceMapping_EBS:
  assumes "abd_EBS (convertBlockDeviceMapping i) = Some ebs"
  shows "ebs_IOPS ebs \<noteq> None \<Longrightarrow> StringValue (bd_EbsVolumeType i) \<noteq> ''gp2''"
    and "ebs_Throughput ebs \<noteq> None \<Longrightarrow> StringValue (bd_EbsVolumeType i) = ''gp3''"
  using assms
  by (auto simp: convertBlockDeviceMapping_def Let_def split: if_splits)

lemma StringValue_eq_nonempty:
  "s \<noteq> [] \<Longrightarrow> StringValue x = s \<longleftrightarrow> x = Some s"
  by (cases x) (auto simp: StringValue_def)

lemma ephemeral_has_no_EBS:
  assumes "buildEphemeralDevices c machineType = Inr eph" and "d \<in> set eph"
  shows "abd_EBS (convertBlockDeviceMapping d) = None"
  using assms
  by (auto simp: buildEphemeralDevices_def convertBlockDeviceMapping_def Let_def
      split: sum.splits)

text \<open>C6: the root device built for a root-volume configuration has no IOPS when the
  volume type is gp2 and a throughput only when the volume type is gp3, and so has
  every block device mapping converted for the provider: the root device's, and the
  ephemeral ones, which carry no volume at all.\<close>

theorem C6_root_device_omits_illegal_fields:
  "(buildRootDevice c (Some opts) imageID = Inr bdm \<longrightarrow>
      (rv_Type opts = Some ''gp2'' \<longrightarrow> bd_EbsVolumeIops bdm = None)
      \<and> (bd_EbsVolumeThroughput bdm \<noteq> None \<longrightarrow> rv_Type opts = Some ''gp3''))
   \<and> (blockDeviceMappings c (Some opts) e = Inr mappings \<longrightarrow>
      (\<forall>m \<in> set mappings. \<forall>ebs. abd_EBS m = Some ebs \<longrightarrow>
         (rv_Type opts = Some ''gp2'' \<longrightarrow> ebs_IOPS ebs = None)
         \<and> (ebs_Throughput ebs \<noteq> None \<longrightarrow> rv_Type opts = Some ''gp3'')))"
proof (intro conjI impI)
  assume "buildRootDevice c (Some opts) imageID = Inr bdm" and "rv_Type opts = Some ''gp2''"
  then show "bd_EbsVolumeIops bdm = None"
    by (simp add: buildRootDevice_fields StringValue_def)
next
  assume "buildRootDevice c (Some opts) imageID = Inr bdm"
    and "bd_EbsVolumeThroughput bdm \<noteq> None"
  then show "rv_Type opts = Some ''gp3''"
    by (simp add: buildRootDevice_fields StringValue_eq_nonempty split: if_splits)
next
  assume b: "blockDeviceMappings c (Some opts) e = Inr mappings"
  then obtain root eph where
    r: "buildRootDevice c (Some opts) (ImageID e) = Inr root" and
    m: "mappings = convertBlockDeviceMapping root # map convertBlockDeviceMapping eph" and
    ep: "buildEphemeralDevices c (OnDemandInstanceType e) = Inr eph"
    by (auto simp: blockDeviceMappings_def and_then_def split: sum.splits)
  have root_ok: "(rv_Type opts = Some ''gp2'' \<longrightarrow> ebs_IOPS ebs = None)
      \<and> (ebs_Throughput ebs \<noteq> None \<longrightarrow> rv_Type opts = Some ''gp3'')"
    if "abd_EBS (convertBlockDeviceMapping root) = Some ebs" for ebs
  proof (intro conjI impI)
    assume "rv_Type opts = Some ''gp2''"
    with buildRootDevice_fields(1) [OF r]
    have "StringValue (bd_EbsVolumeType root) = ''gp2''"
      by (simp add: StringValue_def)
    with convertBlockDeviceMapping_EBS(1) [OF that] show "ebs_IOPS ebs = None"
      by blast
  next
    assume "ebs_Throughput ebs \<noteq> None"
    from convertBlockDeviceMapping_EBS(2) [OF that this] buildRootDevice_fields(1) [OF r]
    have "StringValue (rv_Type opts) = ''gp3''"
      by simp
    then show "rv_Type opts = Some ''gp3''"
      by (simp add: StringValue_eq_nonempty)
  qed
  show "\<forall>m \<in> set mappings. \<forall>ebs. abd_EBS m = Some ebs \<longrightarrow>
         (rv_Type opts = Some ''gp2'' \<longrightarrow> ebs_IOPS ebs = None)
         \<and> (ebs_Throughput ebs \<noteq> None \<longrightarrow> rv_Type opts = Some ''gp3'')"
    using root_ok ephemeral_has_no_EBS [OF ep] by (auto simp: m)
qed

theorem C6_root_device_omits_illegal_fields_witness:
  "buildRootDevice example_cloud (RootVolumeOpts example_task) None
     = Inr \<lparr> bd_DeviceName = Some ''/dev/xvda'', bd_VirtualName = None,
             bd_EbsDeleteOnTermination = Some True, bd_EbsVolumeSize = Some 64,
             bd_EbsVolumeType = Some ''gp2'', bd_EbsVolumeIops = None,
             bd_EbsVolumeThroughput = None \<rparr>
   \<and> blockDeviceMappings example_cloud (RootVolumeOpts example_task) example_task
     = Inr [\<lparr> abd_DeviceName = Some ''/dev/xvda'', abd_VirtualName = None,
              abd_EBS = Some \<lparr> ebs_DeleteOnTermination = Some True, ebs_SnapshotID = None,
                ebs_VolumeType = Some ''gp2'', ebs_VolumeSize = Some 64, ebs_IOPS = None,
                ebs_Throughput = None \<rparr> \<rparr>]"
  using C6_root_device_omits_illegal_fields [of example_cloud
      "new_RootVolumeOpts\<lparr>rv_Type := Some ''gp2'', rv_Size := Some 64, rv_IOPS := Some 100,
         rv_Throughput := Some 125\<rparr>" None _ example_task]
  by (simp add: buildRootDevice_def blockDeviceMappings_def buildEphemeralDevices_def
      convertBlockDeviceMapping_def resolveImage_def and_then_def example_cloud_def
      example_task_def empty_Elastigroup_def new_RootVolumeOpts_def StringValue_def
      Int64Value_def Let_def)


subsection \<open>The retry loop of create\<close>

lemma applyDefaults_keeps:
  "Name (applyDefaults e) = Name e"
  "IAMInstanceProfile (applyDefaults e) = IAMInstanceProfile e"
  "MinSize (applyDefaults e) = MinSize e"
  "MaxSize (applyDefaults e) = MaxSize e"
  "LoadBalancer (applyDefaults e) = LoadBalancer e"
  by (simp_all add: applyDefaults_def Let_def)

lemma readyLoop_other_error:
  assumes "NewElastigroup c g = None" and "\<And>n. Create c n g = Inl (OtherError msg)"
  shows "readyLoop fuel c e g attempt = None"
  using assms by (induction fuel arbitrary: attempt) (simp_all add: Let_def)

lemma readyLoop_not_ready:
  assumes "NewElastigroup c g = None" and "\<And>n. Create c n g = Inl (ClientErrors errs)"
    and "first_not_ready errs = Some err" and "IAMInstanceProfile e = Some p"
    and "attempt + k = maxAttempts"
  shows "readyLoop (Suc (k + fuel)) c e g attempt =
     Some \<lparr> le_result = Inl (IAMNotReady err), le_calls = maxAttempts + 1,
            le_slept = 10 * (maxAttempts + 1) \<rparr>"
  using assms
proof (induction k arbitrary: attempt)
  case 0
  then show ?case by (simp add: Let_def)
next
  case (Suc k)
  then show ?case by (simp add: Let_def)
qed

lemma readyLoop_not_ready_short:
  assumes "NewElastigroup c g = None" and "\<And>n. Create c n g = Inl (ClientErrors errs)"
    and "first_not_ready errs = Some err" and "IAMInstanceProfile e = Some p"
    and "attempt + fuel \<le> maxAttempts"
  shows "readyLoop fuel c e g attempt = None"
  using assms by (induction fuel arbitrary: attempt) (simp_all add: Let_def)

text \<open>A provider that answers every attempt with an error collection naming the
  instance profile as invalid is called eleven times, once and ten retries with ten
  seconds of sleep before each call; the eleventh failure ends \<^verbatim>\<open>create\<close> with
  the error that carries the matching sub-error.\<close>

theorem create_not_ready_every_attempt:
  assumes "Name e = Some name" and "create_group c r (applyDefaults e) = Inr g"
    and "NewElastigroup c g = None" and "\<And>n. Create c n g = Inl (ClientErrors errs)"
    and "first_not_ready errs = Some err" and "IAMInstanceProfile e = Some p"
  shows "create (11 + fuel) c r a e changes =
           Some \<lparr> ce_error = Some (IAMNotReady err), ce_e = applyDefaults e,
                  ce_group = Some g, ce_calls = 11, ce_slept = 110 \<rparr>"
    and "create 10 c r a e changes = None"
proof -
  have "readyLoop (Suc (maxAttempts + fuel)) c (applyDefaults e) g 0 =
     Some \<lparr> le_result = Inl (IAMNotReady err), le_calls = maxAttempts + 1,
            le_slept = 10 * (maxAttempts + 1) \<rparr>"
    using assms by (intro readyLoop_not_ready) (simp_all add: applyDefaults_keeps)
  moreover have "Suc (maxAttempts + fuel) = 11 + fuel"
    by (simp add: maxAttempts_def)
  ultimately show "create (11 + fuel) c r a e changes =
           Some \<lparr> ce_error = Some (IAMNotReady err), ce_e = applyDefaults e,
                  ce_group = Some g, ce_calls = 11, ce_slept = 110 \<rparr>"
    using assms(1,2) by (simp add: create_def Let_def maxAttempts_def)
  have "readyLoop 10 c (applyDefaults e) g 0 = None"
    using assms by (intro readyLoop_not_ready_short) (simp_all add: applyDefaults_keeps maxAttempts_def)
  then show "create 10 c r a e changes = None"
    using assms(1,2) by (simp add: create_def Let_def)
qed

text \<open>An error collection without such a message ends \<^verbatim>\<open>create\<close> at once.\<close>

theorem create_other_collection_is_fatal:
  assumes "Name e = Some name" and "create_group c r (applyDefaults e) = Inr g"
    and "NewElastigroup c g = None" and "Create c 1 g = Inl (ClientErrors errs)"
    and "first_not_ready errs = None"
  shows "create (Suc fuel) c r a e changes =
           Some \<lparr> ce_error = Some (CreateFailed (ClientErrors errs)), ce_e = applyDefaults e,
                  ce_group = Some g, ce_calls = 1, ce_slept = 10 \<rparr>"
  using assms by (simp add: create_def Let_def)

text \<open>C1, at an error of the provider that is no error collection: the claim has such
  an error, whose message does not match, end \<^verbatim>\<open>create\<close> at once.  In the source
  the \<^verbatim>\<open>return\<close> of the failure stands inside the branch of the type assertion, so
  the loop goes round: however many rounds are allowed, \<^verbatim>\<open>create\<close> has not returned.\<close>

theorem C1_create_retries_unstructured_error_for_ever:
  assumes "Name e = Some name" and "create_group c r (applyDefaults e) = Inr g"
    and "NewElastigroup c g = None" and "\<And>n. Create c n g = Inl (OtherError msg)"
  shows "create fuel c r a e changes = None"
proof -
  have "readyLoop fuel c (applyDefaults e) g 0 = None"
    using assms(3,4) by (rule readyLoop_other_error)
  with assms(1,2) show ?thesis
    by (simp add: create_def Let_def)
qed

lemmas create_defs = create_group_def create_capacity_def create_launchSpecification_def
  create_keyPair_def create_blockDeviceMappings_def blockDeviceMappings_def
  buildRootDevice_def buildEphemeralDevices_def convertBlockDeviceMapping_def
  resolveImage_def create_image_def
  create_userData_def create_securityGroups_def create_iamInstanceProfile_def
  create_publicIP_def create_loadBalancer_def create_tags_def create_integration_def
  create_strategy_def subnetIDs_def and_then_def applyDefaults_def

lemmas example_defs = example_cloud_def example_task_def example_group_def no_ranges_def
  empty_Elastigroup_def new_RootVolumeOpts_def new_Group_def new_Capacity_def
  new_Strategy_def new_Compute_def new_InstanceTypes_def new_LaunchSpecification_def
  StringValue_def Int64Value_def IntValue_def BoolValue_def elems_def Let_def

theorem C1_create_retries_unstructured_error_for_ever_witness:
  "create 1000 (example_cloud\<lparr>Create := \<lambda>n g. Inl (OtherError ''connection reset'')\<rparr>)
     no_ranges None example_task empty_Elastigroup = None"
proof -
  let ?c = "example_cloud\<lparr>Create := \<lambda>n g. Inl (OtherError ''connection reset'')\<rparr>"
  have n: "Name example_task = Some ''nodes''"
    by (simp add: example_defs)
  obtain g where g: "create_group ?c no_ranges (applyDefaults example_task) = Inr g"
    by (simp add: create_defs example_defs)
  have w: "NewElastigroup ?c g = None"
    by (simp add: example_defs)
  have o: "\<And>n. Create ?c n g = Inl (OtherError ''connection reset'')"
    by (simp add: example_defs)
  show ?thesis
    by (rule C1_create_retries_unstructured_error_for_ever [OF n g w o])
qed

subsection \<open>update on given changes\<close>

lemma next_step_simps [simp]:
  "next_step (None, u) f = f u"
  "next_step (Some err, u) f = (Some err, u)"
  by (simp_all add: next_step_def)

lemma empty_Elastigroup_fields [simp]:
  "Name empty_Elastigroup = None" "Lifecycle empty_Elastigroup = None"
  "ID empty_Elastigroup = None" "Region empty_Elastigroup = None"
  "MinSize empty_Elastigroup = None" "MaxSize empty_Elastigroup = None"
  "SpotPercentage empty_Elastigroup = None"
  "UtilizeReservedInstances empty_Elastigroup = None"
  "FallbackToOnDemand empty_Elastigroup = None" "DrainingTimeout empty_Elastigroup = None"
  "HealthCheckType empty_Elastigroup = None" "Product empty_Elastigroup = None"
  "Orientation empty_Elastigroup = None" "Tags empty_Elastigroup = None"
  "UserData empty_Elastigroup = None" "ImageID empty_Elastigroup = None"
  "OnDemandInstanceType empty_Elastigroup = None" "SpotInstanceTypes empty_Elastigroup = None"
  "IAMInstanceProfile empty_Elastigroup = None" "LoadBalancer empty_Elastigroup = None"
  "SSHKey empty_Elastigroup = None" "Subnets empty_Elastigroup = None"
  "SecurityGroups empty_Elastigroup = None" "Monitoring empty_Elastigroup = None"
  "AssociatePublicIP empty_Elastigroup = None" "Tenancy empty_Elastigroup = None"
  "RootVolumeOpts empty_Elastigroup = None" "AutoScalerOpts empty_Elastigroup = None"
  by (simp_all add: empty_Elastigroup_def)

lemma update_start_simps [simp]:
  "u_changes (update_start actual changes) = changes"
  "u_group (update_start actual changes) = new_Group\<lparr>grp_ID := grp_ID actual\<rparr>"
  "u_changed (update_start actual changes) = False"
  "u_warnings (update_start actual changes) = []"
  "u_updates (update_start actual changes) = []"
  by (simp_all add: update_start_def)

text \<open>A block whose field is not populated leaves the state as it is.\<close>

lemma update_skip:
  "Region (u_changes u) = None \<Longrightarrow> update_Region e u = u"
  "SpotPercentage (u_changes u) = None \<Longrightarrow> update_SpotPercentage e u = u"
  "Orientation (u_changes u) = None \<Longrightarrow> update_Orientation e u = u"
  "FallbackToOnDemand (u_changes u) = None \<Longrightarrow> update_FallbackToOnDemand e u = u"
  "UtilizeReservedInstances (u_changes u) = None \<Longrightarrow> update_UtilizeReservedInstances e u = u"
  "DrainingTimeout (u_changes u) = None \<Longrightarrow> update_DrainingTimeout e u = (None, u)"
  "Product (u_changes u) = None \<Longrightarrow> update_Product e u = u"
  "OnDemandInstanceType (u_changes u) = None \<Longrightarrow> update_OnDemandInstanceType e u = u"
  "SpotInstanceTypes (u_changes u) = None \<Longrightarrow> update_SpotInstanceTypes e u = u"
  "Subnets (u_changes u) = None \<Longrightarrow> update_Subnets e u = u"
  "SecurityGroups (u_changes u) = None \<Longrightarrow> update_SecurityGroups e u = (None, u)"
  "UserData (u_changes u) = None \<Longrightarrow> update_UserData c e u = (None, u)"
  "AssociatePublicIP (u_changes u) = None \<Longrightarrow> update_AssociatePublicIP e u = u"
  "RootVolumeOpts (u_changes u) = None \<Longrightarrow> update_RootVolumeOpts c e u = (None, u)"
  "ImageID (u_changes u) = None \<Longrightarrow> update_ImageID c actual e u = (None, u)"
  "Tags (u_changes u) = None \<Longrightarrow> update_Tags r e u = u"
  "IAMInstanceProfile (u_changes u) = None \<Longrightarrow> update_IAMInstanceProfile e u = (None, u)"
  "Monitoring (u_changes u) = None \<Longrightarrow> update_Monitoring e u = u"
  "SSHKey (u_changes u) = None \<Longrightarrow> update_SSHKey e u = (None, u)"
  "LoadBalancer (u_changes u) = None \<Longrightarrow> update_LoadBalancer c e u = (None, u)"
  "Tenancy (u_changes u) = None \<Longrightarrow> update_Tenancy e u = u"
  "HealthCheckType (u_changes u) = None \<Longrightarrow> update_HealthCheckType e u = u"
  "MinSize (u_changes u) = None \<Longrightarrow> update_MinSize actual e u = (None, u)"
  "MaxSize (u_changes u) = None \<Longrightarrow> update_MaxSize e u = (None, u)"
  "AutoScalerOpts (u_changes u) = None \<Longrightarrow> update_AutoScalerOpts r a e u = (None, u)"
  by (simp_all add: update_Region_def update_SpotPercentage_def update_Orientation_def
  update_FallbackToOnDemand_def update_UtilizeReservedInstances_def
  update_DrainingTimeout_def update_Product_def update_OnDemandInstanceType_def
  update_SpotInstanceTypes_def update_Subnets_def update_SecurityGroups_def
  update_UserData_def update_AssociatePublicIP_def update_RootVolumeOpts_def
  update_ImageID_def update_Tags_def update_IAMInstanceProfile_def update_Monitoring_def
  update_SSHKey_def update_LoadBalancer_def update_Tenancy_def update_HealthCheckType_def
  update_MinSize_def update_MaxSize_def update_AutoScalerOpts_def)

lemma update_render_empty:
  "update_render c r actual a e empty_Elastigroup = (None, update_start actual empty_Elastigroup)"
  by (simp add: update_render_def update_blocks_def pure_step_def update_skip)

lemma applied_simps [simp]:
  "u_changes (applied f clear u) = clear (u_changes u)"
  "u_group (applied f clear u) = f (u_group u)"
  "u_changed (applied f clear u) = True"
  "u_warnings (applied f clear u) = u_warnings u"
  "u_updates (applied f clear u) = u_updates u"
  by (simp_all add: applied_def)

text \<open>Rendering an empty Delta is a no-op.  On changes without a populated field
  \<^verbatim>\<open>update\<close> never sends an Update to the provider; and for a task with a name whose
  group the provider lists with its identifier it returns nil, logs no warning and
  leaves the flag unset.  So does \<^verbatim>\<open>createOrUpdate\<close> with an actual state, which
  calls neither Create nor Update.\<close>

theorem update_of_empty_changes_is_a_noop:
  "u_updates (snd (update c r a e empty_Elastigroup)) = []
   \<and> (Name e = Some name \<longrightarrow> find c name = Inr actual \<longrightarrow> grp_ID actual = Some gid \<longrightarrow>
        update c r a e empty_Elastigroup =
           (None, \<lparr> u_group = new_Group\<lparr>grp_ID := Some gid\<rparr>, u_changes = empty_Elastigroup,
                    u_changed = False, u_warnings = [], u_updates = [] \<rparr>)
        \<and> createOrUpdate fuel c r (Some a) e empty_Elastigroup =
           Some (Updated (None, \<lparr> u_group = new_Group\<lparr>grp_ID := Some gid\<rparr>,
                    u_changes = empty_Elastigroup,
                    u_changed = False, u_warnings = [], u_updates = [] \<rparr>)))"
proof (intro conjI impI)
  show "u_updates (snd (update c r a e empty_Elastigroup)) = []"
    by (simp add: update_def update_render_empty update_warn_def update_send_def
        split: option.split sum.split)
next
  assume "Name e = Some name" and "find c name = Inr actual" and "grp_ID actual = Some gid"
  then show u: "update c r a e empty_Elastigroup =
           (None, \<lparr> u_group = new_Group\<lparr>grp_ID := Some gid\<rparr>, u_changes = empty_Elastigroup,
                    u_changed = False, u_warnings = [], u_updates = [] \<rparr>)"
    by (simp add: update_def update_render_empty update_warn_def update_send_def)
  then show "createOrUpdate fuel c r (Some a) e empty_Elastigroup =
           Some (Updated (None, \<lparr> u_group = new_Group\<lparr>grp_ID := Some gid\<rparr>,
                    u_changes = empty_Elastigroup,
                    u_changed = False, u_warnings = [], u_updates = [] \<rparr>))"
    by (simp add: createOrUpdate_def)
qed

lemma find_example_group:
  "find (example_cloud\<lparr>List := Inr [example_group]\<rparr>) ''nodes'' = Inr example_group"
  by (simp add: find_def example_cloud_def example_group_def StringValue_def)

theorem update_of_empty_changes_at_example:
  "u_updates (snd (update (example_cloud\<lparr>List := Inr [example_group]\<rparr>) no_ranges
      empty_Elastigroup example_task empty_Elastigroup)) = []
   \<and> update (example_cloud\<lparr>List := Inr [example_group]\<rparr>) no_ranges empty_Elastigroup
      example_task empty_Elastigroup =
     (None, \<lparr> u_group = new_Group\<lparr>grp_ID := Some ''sig-1''\<rparr>, u_changes = empty_Elastigroup,
              u_changed = False, u_warnings = [], u_updates = [] \<rparr>)
   \<and> createOrUpdate 0 (example_cloud\<lparr>List := Inr [example_group]\<rparr>) no_ranges
      (Some empty_Elastigroup) example_task empty_Elastigroup =
     Some (Updated (None, \<lparr> u_group = new_Group\<lparr>grp_ID := Some ''sig-1''\<rparr>,
              u_changes = empty_Elastigroup,
              u_changed = False, u_warnings = [], u_updates = [] \<rparr>))"
proof -
  have n: "Name example_task = Some ''nodes''"
    by (simp add: example_task_def)
  have i: "grp_ID example_group = Some ''sig-1''"
    by (simp add: example_group_def)
  from update_of_empty_changes_is_a_noop [of "example_cloud\<lparr>List := Inr [example_group]\<rparr>"
      no_ranges empty_Elastigroup example_task "''nodes''" example_group "''sig-1''" 0]
    n find_example_group i
  show ?thesis
    by simp
qed

subsection \<open>Capacity\<close>



subsection \<open>Two load balancers of one name\<close>

text \<open>\<^verbatim>\<open>create\<close> looks both kinds up and fails when it finds both.\<close>

lemma create_loadBalancer_found_both:
  assumes "LoadBalancer e = Some lb"
    and "FindELBByNameTag c (StringValue (clb_Name lb)) = Inr (Some d)"
    and "FindELBV2ByNameTag c (StringValue (clb_Name lb)) = Inr (Some n)"
  shows "create_loadBalancer c e ls = Inl FoundBothCreate"
  using assms by (simp add: create_loadBalancer_def Let_def)

text \<open>\<^verbatim>\<open>Find\<close> looks them up only when the live group names another load balancer
  than the task, and then fails when it finds both.\<close>

lemma Find_loadBalancer_found_both:
  assumes "FindELBByNameTag c (StringValue (clb_Name lb)) = Inr (Some d)"
    and "FindELBV2ByNameTag c (StringValue (clb_Name lb)) = Inr (Some n)"
  shows "Find_loadBalancer_resolve c lb name actual =
           Inl (FoundBothFind (StringValue (elb_LoadBalancerName d))
                  (StringValue (nlb_LoadBalancerName n)))"
  using assms by (simp add: Find_loadBalancer_resolve_def Let_def)

lemma Find_loadBalancer_same_name:
  assumes "ls_LoadBalancersConfig lc = Some \<lparr> lbc_LoadBalancers = Some (lb0 # lbs) \<rparr>"
    and "LoadBalancer e = Some lb"
    and "StringValue (alb_Name lb0) = StringValue (clb_Name lb)"
  shows "Find_loadBalancer c e lc actual =
           Inr (actual\<lparr>LoadBalancer := Some \<lparr> clb_Name = alb_Name lb0 \<rparr>\<rparr>)"
  using assms by (simp add: Find_loadBalancer_def elems_def Let_def)

text \<open>C7, at a task whose load balancer name resolves to a classic and to a network
  load balancer: the claim has every rendering path fail.  \<^verbatim>\<open>update\<close> takes the
  classic one and does not look for the network one: it returns nil and sends the
  group with the classic load balancer.\<close>

theorem C7_update_takes_the_classic_load_balancer:
  assumes "Name e = Some name" and "find c name = Inr actual" and "grp_ID actual = Some gid"
    and "LoadBalancer e = Some lb"
    and "FindELBByNameTag c (StringValue (clb_Name lb)) = Inr (Some d)"
    and "FindELBV2ByNameTag c (StringValue (clb_Name lb)) = Inr (Some n)"
    and "\<And>g. NewElastigroup c g = None" and "\<And>g. Update c g = None"
  shows "\<exists>g. update c r a e (empty_Elastigroup\<lparr>LoadBalancer := Some lb\<rparr>) =
           (None, \<lparr> u_group = g, u_changes = empty_Elastigroup, u_changed = True,
                    u_warnings = [], u_updates = [g] \<rparr>)
         \<and> g = new_Group\<lparr>grp_ID := Some gid,
                 grp_Compute := Some (new_Compute\<lparr>cmp_LaunchSpecification :=
                   Some (new_LaunchSpecification\<lparr>ls_LoadBalancersConfig :=
                     Some (loadBalancersConfig (elb_LoadBalancerName d) ''CLASSIC'')\<rparr>)\<rparr>)\<rparr>"
proof -
  let ?g = "new_Group\<lparr>grp_ID := Some gid,
                 grp_Compute := Some (new_Compute\<lparr>cmp_LaunchSpecification :=
                   Some (new_LaunchSpecification\<lparr>ls_LoadBalancersConfig :=
                     Some (loadBalancersConfig (elb_LoadBalancerName d) ''CLASSIC'')\<rparr>)\<rparr>)\<rparr>"
  have r: "update_render c r actual a e (empty_Elastigroup\<lparr>LoadBalancer := Some lb\<rparr>) =
      (None, \<lparr> u_group = ?g, u_changes = empty_Elastigroup, u_changed = True,
               u_warnings = [], u_updates = [] \<rparr>)"
    using assms(3-6)
    by (simp add: update_render_def update_blocks_def pure_step_def update_skip
        update_LoadBalancer_def)
       (simp add: applied_def update_start_def with_LaunchSpecification_def with_Compute_def
         new_Group_def new_Compute_def empty_Elastigroup_def)
  show ?thesis
    using assms(1,2,7,8)
    by (simp add: update_def r update_warn_def update_send_def new_Group_def)
qed

theorem C7_update_takes_the_classic_load_balancer_witness:
  "update (example_cloud\<lparr>List := Inr [example_group],
       FindELBByNameTag := \<lambda>name. Inr (Some \<lparr> elb_LoadBalancerName = Some ''api-elb'' \<rparr>),
       FindELBV2ByNameTag := \<lambda>name. Inr (Some \<lparr> nlb_LoadBalancerName = Some ''api-nlb'' \<rparr>)\<rparr>)
     no_ranges empty_Elastigroup
     (example_task\<lparr>LoadBalancer := Some \<lparr> clb_Name = Some ''api'' \<rparr>\<rparr>)
     (empty_Elastigroup\<lparr>LoadBalancer := Some \<lparr> clb_Name = Some ''api'' \<rparr>\<rparr>)
   = (None, \<lparr> u_group = new_Group\<lparr>grp_ID := Some ''sig-1'',
                 grp_Compute := Some (new_Compute\<lparr>cmp_LaunchSpecification :=
                   Some (new_LaunchSpecification\<lparr>ls_LoadBalancersConfig :=
                     Some (loadBalancersConfig (Some ''api-elb'') ''CLASSIC'')\<rparr>)\<rparr>)\<rparr>,
              u_changes = empty_Elastigroup, u_changed = True, u_warnings = [],
              u_updates = [new_Group\<lparr>grp_ID := Some ''sig-1'',
                 grp_Compute := Some (new_Compute\<lparr>cmp_LaunchSpecification :=
                   Some (new_LaunchSpecification\<lparr>ls_LoadBalancersConfig :=
                     Some (loadBalancersConfig (Some ''api-elb'') ''CLASSIC'')\<rparr>)\<rparr>)\<rparr>] \<rparr>)"
proof -
  let ?c = "example_cloud\<lparr>List := Inr [example_group],
       FindELBByNameTag := \<lambda>name. Inr (Some \<lparr> elb_LoadBalancerName = Some ''api-elb'' \<rparr>),
       FindELBV2ByNameTag := \<lambda>name. Inr (Some \<lparr> nlb_LoadBalancerName = Some ''api-nlb'' \<rparr>)\<rparr>"
  let ?e = "example_task\<lparr>LoadBalancer := Some \<lparr> clb_Name = Some ''api'' \<rparr>\<rparr>"
  have n: "Name ?e = Some ''nodes''" and l: "LoadBalancer ?e = Some \<lparr> clb_Name = Some ''api'' \<rparr>"
    by (simp_all add: example_task_def)
  have f: "find ?c ''nodes'' = Inr example_group"
    by (simp add: find_def example_cloud_def example_group_def StringValue_def)
  have i: "grp_ID example_group = Some ''sig-1''"
    by (simp add: example_group_def)
  have b: "FindELBByNameTag ?c (StringValue (clb_Name \<lparr> clb_Name = Some ''api'' \<rparr>))
             = Inr (Some \<lparr> elb_LoadBalancerName = Some ''api-elb'' \<rparr>)"
      "FindELBV2ByNameTag ?c (StringValue (clb_Name \<lparr> clb_Name = Some ''api'' \<rparr>))
             = Inr (Some \<lparr> nlb_LoadBalancerName = Some ''api-nlb'' \<rparr>)"
    and w: "\<And>g. NewElastigroup ?c g = None" "\<And>g. Update ?c g = None"
    by (simp_all add: example_cloud_def)
  from C7_update_takes_the_classic_load_balancer [OF n f i l b w, of no_ranges empty_Elastigroup]
  show ?thesis
    by auto
qed

subsection \<open>What update leaves of the changes\<close>

lemma steps_Cons_NoneE:
  assumes "steps (s # ss) u = (None, u2)"
  obtains u1 where "s u = (None, u1)" and "steps ss u1 = (None, u2)"
  using assms by (cases "s u") (auto simp: next_step_def split: option.splits)

lemma steps_Nil_None [simp]: "steps [] u = (None, u2) \<longleftrightarrow> u2 = u"
  by auto

lemma steps_frame:
  assumes "steps ss u = (err, u2)"
    and "\<And>s v err1 v1. s \<in> set ss \<Longrightarrow> s v = (err1, v1) \<Longrightarrow> Q v1 = Q v"
  shows "Q u2 = Q u"
  using assms
proof (induction ss arbitrary: u)
  case Nil
  then show ?case by simp
next
  case (Cons s ss)
  obtain err1 u1 where s: "s u = (err1, u1)"
    by (cases "s u")
  have q: "Q u1 = Q u"
    by (rule Cons.prems(2) [of s u err1 u1]) (simp_all add: s)
  show ?case
  proof (cases err1)
    case None
    with Cons.prems(1) s have "steps ss u1 = (err, u2)"
      by simp
    then have "Q u2 = Q u1"
    proof (rule Cons.IH)
      fix s1 v err2 v1
      assume "s1 \<in> set ss" and "s1 v = (err2, v1)"
      then show "Q v1 = Q v"
        using Cons.prems(2) [of s1 v err2 v1] by simp
    qed
    with q show ?thesis by simp
  next
    case (Some x)
    with Cons.prems(1) s have "u2 = u1"
      by simp
    with q show ?thesis by simp
  qed
qed

lemmas update_block_defs = update_Region_def update_SpotPercentage_def update_Orientation_def
  update_FallbackToOnDemand_def update_UtilizeReservedInstances_def
  update_DrainingTimeout_def update_Product_def update_OnDemandInstanceType_def
  update_SpotInstanceTypes_def update_Subnets_def update_SecurityGroups_def
  update_UserData_def update_AssociatePublicIP_def update_RootVolumeOpts_def
  update_ImageID_def update_Tags_def update_IAMInstanceProfile_def update_Monitoring_def
  update_SSHKey_def update_LoadBalancer_def update_Tenancy_def update_HealthCheckType_def
  update_MinSize_def update_MaxSize_def update_AutoScalerOpts_def

text \<open>Clearing a field that is nil changes nothing.\<close>

lemma clear_nil:
  "Region ch = None \<Longrightarrow> ch\<lparr>Region := None\<rparr> = ch"
  "SpotPercentage ch = None \<Longrightarrow> ch\<lparr>SpotPercentage := None\<rparr> = ch"
  "Orientation ch = None \<Longrightarrow> ch\<lparr>Orientation := None\<rparr> = ch"
  "FallbackToOnDemand ch = None \<Longrightarrow> ch\<lparr>FallbackToOnDemand := None\<rparr> = ch"
  "UtilizeReservedInstances ch = None \<Longrightarrow> ch\<lparr>UtilizeReservedInstances := None\<rparr> = ch"
  "DrainingTimeout ch = None \<Longrightarrow> ch\<lparr>DrainingTimeout := None\<rparr> = ch"
  "Product ch = None \<Longrightarrow> ch\<lparr>Product := None\<rparr> = ch"
  "OnDemandInstanceType ch = None \<Longrightarrow> ch\<lparr>OnDemandInstanceType := None\<rparr> = ch"
  "SpotInstanceTypes ch = None \<Longrightarrow> ch\<lparr>SpotInstanceTypes := None\<rparr> = ch"
  "Subnets ch = None \<Longrightarrow> ch\<lparr>Subnets := None\<rparr> = ch"
  "SecurityGroups ch = None \<Longrightarrow> ch\<lparr>SecurityGroups := None\<rparr> = ch"
  "UserData ch = None \<Longrightarrow> ch\<lparr>UserData := None\<rparr> = ch"
  "AssociatePublicIP ch = None \<Longrightarrow> ch\<lparr>AssociatePublicIP := None\<rparr> = ch"
  "RootVolumeOpts ch = None \<Longrightarrow> ch\<lparr>RootVolumeOpts := None\<rparr> = ch"
  "ImageID ch = None \<Longrightarrow> ch\<lparr>ImageID := None\<rparr> = ch"
  "Tags ch = None \<Longrightarrow> ch\<lparr>Tags := None\<rparr> = ch"
  "IAMInstanceProfile ch = None \<Longrightarrow> ch\<lparr>IAMInstanceProfile := None\<rparr> = ch"
  "Monitoring ch = None \<Longrightarrow> ch\<lparr>Monitoring := None\<rparr> = ch"
  "SSHKey ch = None \<Longrightarrow> ch\<lparr>SSHKey := None\<rparr> = ch"
  "LoadBalancer ch = None \<Longrightarrow> ch\<lparr>LoadBalancer := None\<rparr> = ch"
  "Tenancy ch = None \<Longrightarrow> ch\<lparr>Tenancy := None\<rparr> = ch"
  "HealthCheckType ch = None \<Longrightarrow> ch\<lparr>HealthCheckType := None\<rparr> = ch"
  "MinSize ch = None \<Longrightarrow> ch\<lparr>MinSize := None\<rparr> = ch"
  "MaxSize ch = None \<Longrightarrow> ch\<lparr>MaxSize := None\<rparr> = ch"
  "AutoScalerOpts ch = None \<Longrightarrow> ch\<lparr>AutoScalerOpts := None\<rparr> = ch"
  by (cases ch; simp)+

text \<open>Every block that returns nil leaves its field of the changes nil and the other
  fields as they were; the load balancer block leaves its field populated when it has
  found no load balancer.\<close>

lemma update_LoadBalancer_changes:
  assumes "update_LoadBalancer c e u = (None, u1)"
  shows "\<exists>lbv. u_changes u1 = (u_changes u)\<lparr>LoadBalancer := lbv\<rparr>
           \<and> (lbv = None \<or> lbv = LoadBalancer (u_changes u))"
proof -
  have "u_changes u1 = (u_changes u)\<lparr>LoadBalancer := LoadBalancer (u_changes u1)\<rparr>
      \<and> (LoadBalancer (u_changes u1) = None
           \<or> LoadBalancer (u_changes u1) = LoadBalancer (u_changes u))"
    using assms
    by (auto simp: update_LoadBalancer_def applied_def
        split: if_splits option.splits sum.splits)
  then show ?thesis
    by blast
qed

lemma update_block_changes:
  "pure_step (update_Region e) u = (None, u1) \<Longrightarrow> u_changes u1 = (u_changes u)\<lparr>Region := None\<rparr>"
  "pure_step (update_SpotPercentage e) u = (None, u1) \<Longrightarrow> u_changes u1 = (u_changes u)\<lparr>SpotPercentage := None\<rparr>"
  "pure_step (update_Orientation e) u = (None, u1) \<Longrightarrow> u_changes u1 = (u_changes u)\<lparr>Orientation := None\<rparr>"
  "pure_step (update_FallbackToOnDemand e) u = (None, u1) \<Longrightarrow> u_changes u1 = (u_changes u)\<lparr>FallbackToOnDemand := None\<rparr>"
  "pure_step (update_UtilizeReservedInstances e) u = (None, u1) \<Longrightarrow> u_changes u1 = (u_changes u)\<lparr>UtilizeReservedInstances := None\<rparr>"
  "update_DrainingTimeout e u = (None, u1) \<Longrightarrow> u_changes u1 = (u_changes u)\<lparr>DrainingTimeout := None\<rparr>"
  "pure_step (update_Product e) u = (None, u1) \<Longrightarrow> u_changes u1 = (u_changes u)\<lparr>Product := None\<rparr>"
  "pure_step (update_OnDemandInstanceType e) u = (None, u1) \<Longrightarrow> u_changes u1 = (u_changes u)\<lparr>OnDemandInstanceType := None\<rparr>"
  "pure_step (update_SpotInstanceTypes e) u = (None, u1) \<Longrightarrow> u_changes u1 = (u_changes u)\<lparr>SpotInstanceTypes := None\<rparr>"
  "pure_step (update_Subnets e) u = (None, u1) \<Longrightarrow> u_changes u1 = (u_changes u)\<lparr>Subnets := None\<rparr>"
  "update_SecurityGroups e u = (None, u1) \<Longrightarrow> u_changes u1 = (u_changes u)\<lparr>SecurityGroups := None\<rparr>"
  "update_UserData c e u = (None, u1) \<Longrightarrow> u_changes u1 = (u_changes u)\<lparr>UserData := None\<rparr>"
  "pure_step (update_AssociatePublicIP e) u = (None, u1) \<Longrightarrow> u_changes u1 = (u_changes u)\<lparr>AssociatePublicIP := None\<rparr>"
  "update_RootVolumeOpts c e u = (None, u1) \<Longrightarrow> u_changes u1 = (u_changes u)\<lparr>RootVolumeOpts := None\<rparr>"
  "update_ImageID c actual e u = (None, u1) \<Longrightarrow> u_changes u1 = (u_changes u)\<lparr>ImageID := None\<rparr>"
  "pure_step (update_Tags r e) u = (None, u1) \<Longrightarrow> u_changes u1 = (u_changes u)\<lparr>Tags := None\<rparr>"
  "update_IAMInstanceProfile e u = (None, u1) \<Longrightarrow> u_changes u1 = (u_changes u)\<lparr>IAMInstanceProfile := None\<rparr>"
  "pure_step (update_Monitoring e) u = (None, u1) \<Longrightarrow> u_changes u1 = (u_changes u)\<lparr>Monitoring := None\<rparr>"
  "update_SSHKey e u = (None, u1) \<Longrightarrow> u_changes u1 = (u_changes u)\<lparr>SSHKey := None\<rparr>"
  "pure_step (update_Tenancy e) u = (None, u1) \<Longrightarrow> u_changes u1 = (u_changes u)\<lparr>Tenancy := None\<rparr>"
  "pure_step (update_HealthCheckType e) u = (None, u1) \<Longrightarrow> u_changes u1 = (u_changes u)\<lparr>HealthCheckType := None\<rparr>"
  "update_MinSize actual e u = (None, u1) \<Longrightarrow> u_changes u1 = (u_changes u)\<lparr>MinSize := None\<rparr>"
  "update_MaxSize e u = (None, u1) \<Longrightarrow> u_changes u1 = (u_changes u)\<lparr>MaxSize := None\<rparr>"
  "update_AutoScalerOpts r a e u = (None, u1) \<Longrightarrow> u_changes u1 = (u_changes u)\<lparr>AutoScalerOpts := None\<rparr>"
  by (auto simp: update_block_defs pure_step_def clear_nil update_rootDevices_def
      update_ebsOptimized_def Let_def next_step_def
      split: if_splits option.splits sum.splits prod.splits)

text \<open>No block touches the identifier of the group, the warnings or the calls.\<close>

lemma update_block_frame:
  assumes "s \<in> set (update_blocks c r actual a e)" and "s u = (err, u1)"
  shows "grp_ID (u_group u1) = grp_ID (u_group u) \<and> u_warnings u1 = u_warnings u
       \<and> u_updates u1 = u_updates u"
  using assms unfolding update_blocks_def
  by (auto simp: update_block_defs pure_step_def applied_def with_Strategy_def
      with_Compute_def with_InstanceTypes_def with_LaunchSpecification_def with_Capacity_def
      update_rootDevices_def update_ebsOptimized_def Let_def next_step_def
      split: if_splits option.splits sum.splits prod.splits)
lemma update_render_changes:
  assumes "update_render c r actual a e changes = (None, u1)"
  shows "\<exists>lbv. u_changes u1 = empty_Elastigroup\<lparr>Name := Name changes,
           Lifecycle := Lifecycle changes, ID := ID changes, LoadBalancer := lbv\<rparr>
         \<and> (lbv = None \<or> lbv = LoadBalancer changes)"
  using assms unfolding update_render_def update_blocks_def
  apply (elim steps_Cons_NoneE)
  apply (drule update_block_changes update_LoadBalancer_changes)+
  apply (clarsimp simp: empty_Elastigroup_def)
  apply (cases changes)
  apply auto
  done

lemma update_render_frame:
  assumes "update_render c r actual a e changes = (err, u1)"
  shows "grp_ID (u_group u1) = grp_ID actual" and "u_warnings u1 = []" and "u_updates u1 = []"
proof -
  let ?Q = "\<lambda>u. (grp_ID (u_group u), u_warnings u, u_updates u)"
  have "?Q u1 = ?Q (update_start actual changes)"
    using assms unfolding update_render_def
  proof (rule steps_frame)
    fix s v err1 v1
    assume "s \<in> set (update_blocks c r actual a e)" and "s v = (err1, v1)"
    then show "?Q v1 = ?Q v"
      using update_block_frame [of s c r actual a e v err1 v1] by simp
  qed
  then show "grp_ID (u_group u1) = grp_ID actual" and "u_warnings u1 = []"
    and "u_updates u1 = []"
    by simp_all
qed

lemma update_send_accepted:
  assumes "grp_ID (u_group u) = Some gid" and "NewElastigroup c (u_group u) = None"
    and "Update c (u_group u) = None"
  shows "update_send c u =
           (None, u\<lparr>u_updates := (if u_changed u then u_updates u @ [u_group u]
                                    else u_updates u)\<rparr>)"
  using assms by (simp add: update_send_def)


subsection \<open>Orientation\<close>

lemma normalizeOrientation_applyDefaults:
  "normalizeOrientation (Orientation (applyDefaults e)) = normalizeOrientation (Orientation e)"
  by (cases "Orientation e")
     (auto simp: applyDefaults_def normalizeOrientation_def Let_def StringValue_def
        OrientationBalanced_def)

lemma create_group_orientation:
  assumes "create_group c r e = Inr g"
  shows "\<exists>s. grp_Strategy g = Some s
           \<and> st_AvailabilityVsCost s = Some (normalizeOrientation (Orientation e))"
  using assms
  by (auto simp: create_group_def and_then_def create_strategy_def new_Strategy_def Let_def
      split: sum.splits option.splits)

text \<open>The blocks of \<^verbatim>\<open>update\<close> after the orientation block keep the orientation
  of the group's strategy.\<close>

lemma update_later_blocks_keep_orientation:
  assumes "s \<in> set [pure_step (update_FallbackToOnDemand e),
      pure_step (update_UtilizeReservedInstances e),
      update_DrainingTimeout e,
      pure_step (update_Product e),
      pure_step (update_OnDemandInstanceType e),
      pure_step (update_SpotInstanceTypes e),
      pure_step (update_Subnets e),
      update_SecurityGroups e,
      update_UserData c e,
      pure_step (update_AssociatePublicIP e),
      update_RootVolumeOpts c e,
      update_ImageID c actual e,
      pure_step (update_Tags r e),
      update_IAMInstanceProfile e,
      pure_step (update_Monitoring e),
      update_SSHKey e,
      update_LoadBalancer c e,
      pure_step (update_Tenancy e),
      pure_step (update_HealthCheckType e),
      update_MinSize actual e,
      update_MaxSize e,
      update_AutoScalerOpts r a e]" and "s u = (err, u1)"
  shows "Option.bind (grp_Strategy (u_group u1)) st_AvailabilityVsCost
       = Option.bind (grp_Strategy (u_group u)) st_AvailabilityVsCost"
  using assms
  by (auto simp: update_block_defs pure_step_def applied_def with_Strategy_def
      with_Compute_def with_InstanceTypes_def with_LaunchSpecification_def with_Capacity_def
      update_rootDevices_def update_ebsOptimized_def Let_def next_step_def new_Strategy_def
      split: if_splits option.splits sum.splits prod.splits)

lemma update_render_orientation:
  assumes "update_render c r actual a e changes = (None, u1)"
    and "Orientation changes \<noteq> None"
  shows "Option.bind (grp_Strategy (u_group u1)) st_AvailabilityVsCost
       = Some (normalizeOrientation (Orientation e))"
proof -
  from assms(1) obtain v1 v2 v3 where
    b1: "pure_step (update_Region e) (update_start actual changes) = (None, v1)" and
    b2: "pure_step (update_SpotPercentage e) v1 = (None, v2)" and
    b3: "pure_step (update_Orientation e) v2 = (None, v3)" and
    rest: "steps [pure_step (update_FallbackToOnDemand e),
      pure_step (update_UtilizeReservedInstances e),
      update_DrainingTimeout e,
      pure_step (update_Product e),
      pure_step (update_OnDemandInstanceType e),
      pure_step (update_SpotInstanceTypes e),
      pure_step (update_Subnets e),
      update_SecurityGroups e,
      update_UserData c e,
      pure_step (update_AssociatePublicIP e),
      update_RootVolumeOpts c e,
      update_ImageID c actual e,
      pure_step (update_Tags r e),
      update_IAMInstanceProfile e,
      pure_step (update_Monitoring e),
      update_SSHKey e,
      update_LoadBalancer c e,
      pure_step (update_Tenancy e),
      pure_step (update_HealthCheckType e),
      update_MinSize actual e,
      update_MaxSize e,
      update_AutoScalerOpts r a e] v3 = (None, u1)"
    unfolding update_render_def update_blocks_def
    by - (erule steps_Cons_NoneE, erule steps_Cons_NoneE, erule steps_Cons_NoneE, blast)
  have "u_changes v2 = changes\<lparr>Region := None, SpotPercentage := None\<rparr>"
    using update_block_changes(1) [OF b1] update_block_changes(2) [OF b2] by simp
  then have "Orientation (u_changes v2) \<noteq> None"
    using assms(2) by simp
  with b3 have "Option.bind (grp_Strategy (u_group v3)) st_AvailabilityVsCost
       = Some (normalizeOrientation (Orientation e))"
    by (auto simp: pure_step_def update_Orientation_def with_Strategy_def)
  moreover have "Option.bind (grp_Strategy (u_group u1)) st_AvailabilityVsCost
       = Option.bind (grp_Strategy (u_group v3)) st_AvailabilityVsCost"
    using rest
  proof (rule steps_frame)
    fix s v err1 w
    assume "s \<in> set [pure_step (update_FallbackToOnDemand e),
      pure_step (update_UtilizeReservedInstances e),
      update_DrainingTimeout e,
      pure_step (update_Product e),
      pure_step (update_OnDemandInstanceType e),
      pure_step (update_SpotInstanceTypes e),
      pure_step (update_Subnets e),
      update_SecurityGroups e,
      update_UserData c e,
      pure_step (update_AssociatePublicIP e),
      update_RootVolumeOpts c e,
      update_ImageID c actual e,
      pure_step (update_Tags r e),
      update_IAMInstanceProfile e,
      pure_step (update_Monitoring e),
      update_SSHKey e,
      update_LoadBalancer c e,
      pure_step (update_Tenancy e),
      pure_step (update_HealthCheckType e),
      update_MinSize actual e,
      update_MaxSize e,
      update_AutoScalerOpts r a e]" and "s v = (err1, w)"
    then show "Option.bind (grp_Strategy (u_group w)) st_AvailabilityVsCost
       = Option.bind (grp_Strategy (u_group v)) st_AvailabilityVsCost"
      by (rule update_later_blocks_keep_orientation)
  qed
  ultimately show ?thesis
    by simp
qed

lemma update_end_keeps_group:
  assumes "update_warn u1 = (err1, u2)" and "update_send c u2 = (err2, u3)"
  shows "u_group u3 = u_group u1"
  using assms
  by (auto simp: update_warn_def update_send_def split: if_splits option.splits)

lemma update_orientation:
  assumes "update c r a e changes = (None, u)" and "Orientation changes \<noteq> None"
  shows "\<exists>s. grp_Strategy (u_group u) = Some s
           \<and> st_AvailabilityVsCost s = Some (normalizeOrientation (Orientation e))"
proof -
  from assms(1) obtain name actual where n: "Name e = Some name"
    and f: "find c name = Inr actual"
    and st: "next_step (update_render c r actual a e changes)
               (steps [update_warn, update_send c]) = (None, u)"
    by (auto simp: update_def split: option.splits sum.splits)
  obtain err1 u1 where r: "update_render c r actual a e changes = (err1, u1)"
    by (cases "update_render c r actual a e changes")
  with st have e1: "err1 = None" and "steps [update_warn, update_send c] u1 = (None, u)"
    by (cases err1; simp)+
  then obtain u2 where "update_warn u1 = (None, u2)" and "update_send c u2 = (None, u)"
    by (elim steps_Cons_NoneE) simp
  then have "u_group u = u_group u1"
    by (rule update_end_keeps_group)
  with update_render_orientation [OF r [unfolded e1] assms(2)] show ?thesis
    by (cases "grp_Strategy (u_group u1)") auto
qed
lemma steps_snoc_None:
  "steps (ss @ [l]) u = (None, u2) \<Longrightarrow> \<exists>u1. steps ss u = (None, u1) \<and> l u1 = (None, u2)"
proof (induction ss arbitrary: u)
  case Nil
  then show ?case
    by (cases "l u") (auto simp: next_step_def split: option.splits)
next
  case (Cons s ss)
  then show ?case
    by (cases "s u") (auto simp: next_step_def split: option.splits)
qed

lemma steps_snoc_NoneE:
  assumes "steps (ss @ [l]) u = (None, u2)"
  obtains u1 where "steps ss u = (None, u1)" and "l u1 = (None, u2)"
  using steps_snoc_None [OF assms] by blast

lemmas terraform_step_defs = terraform_image_def terraform_role_def
  terraform_securityGroups_def terraform_userData_def terraform_links_def
  terraform_subnets_def terraform_loadBalancer_def terraform_rootVolume_def
  terraform_autoScaler_def terraform_tags_def

text \<open>No step of \<^verbatim>\<open>RenderTerraform\<close> before the last touches the orientation of the
  resource.\<close>

lemma terraform_steps_keep_orientation:
  assumes "s \<in> set [terraform_image c e, terraform_role t r, terraform_securityGroups t e,
      terraform_userData t e, pure_step (terraform_links t e), terraform_subnets t e,
      pure_step (terraform_loadBalancer t e), terraform_rootVolume c e,
      pure_step (terraform_autoScaler r e), pure_step (terraform_tags r e)]"
    and "s v = (err, v1)"
  shows "tf_Orientation (t_tf v1) = tf_Orientation (t_tf v)"
  using assms
  by (auto simp: terraform_step_defs pure_step_def Let_def
      split: if_splits option.splits sum.splits prod.splits)

lemma RenderTerraform_orientation:
  assumes "RenderTerraform c t r a e changes = (None, calls)"
  shows "\<exists>pre name tf. calls = pre @ [Resource ''spotinst_elastigroup_aws'' name tf]
           \<and> tf_Orientation tf = Some (normalizeOrientation (Orientation e))"
proof -
  let ?e = "applyDefaults e"
  let ?ss = "[terraform_image c ?e, terraform_role t r, terraform_securityGroups t ?e,
      terraform_userData t ?e, pure_step (terraform_links t ?e), terraform_subnets t ?e,
      pure_step (terraform_loadBalancer t ?e), terraform_rootVolume c ?e,
      pure_step (terraform_autoScaler r ?e), pure_step (terraform_tags r ?e)]"
  from assms obtain s where s: "steps (?ss @ [terraform_render t ?e]) (terraform_start ?e) = (None, s)"
    and c: "calls = t_calls s"
    by (auto simp: RenderTerraform_def Let_def split: prod.splits)
  from s obtain s1 where s1: "steps ?ss (terraform_start ?e) = (None, s1)"
    and l: "terraform_render t ?e s1 = (None, s)"
    by (rule steps_snoc_NoneE)
  have "tf_Orientation (t_tf s1) = tf_Orientation (t_tf (terraform_start ?e))"
    using s1
  proof (rule steps_frame)
    fix st v err1 v1
    assume "st \<in> set ?ss" and "st v = (err1, v1)"
    then show "tf_Orientation (t_tf v1) = tf_Orientation (t_tf v)"
      by (rule terraform_steps_keep_orientation)
  qed
  then have o: "tf_Orientation (t_tf s1) = Some (normalizeOrientation (Orientation e))"
    by (simp add: terraform_start_def normalizeOrientation_applyDefaults)
  from l obtain name where "Name ?e = Some name"
    and "s = s1\<lparr>t_calls := t_calls s1 @ [Resource ''spotinst_elastigroup_aws'' name (t_tf s1)]\<rparr>"
    by (auto simp: terraform_render_def Let_def split: option.splits)
  with c o show ?thesis
    by auto
qed

text \<open>C10: \<^verbatim>\<open>normalizeOrientation\<close> returns a value for every input: the provider's
  name of cost, availability and equal-distribution, and balanced for nil, the empty
  string and every other string.  The group that \<^verbatim>\<open>create\<close> sends, the group that
  \<^verbatim>\<open>update\<close> sends when the orientation has changed, and the resource that
  \<^verbatim>\<open>RenderTerraform\<close> emits all carry this value of the task's orientation.\<close>

theorem C10_orientation_is_normalized_alike:
  "normalizeOrientation orientation =
     (if orientation = Some ''cost'' then ''costOriented''
      else if orientation = Some ''availability'' then ''availabilityOriented''
      else if orientation = Some ''equal-distribution'' then ''equalAzDistribution''
      else ''balanced'')
   \<and> (create fuel c r a e changes = Some ce \<longrightarrow> ce_group ce = Some g \<longrightarrow>
        (\<exists>s. grp_Strategy g = Some s
           \<and> st_AvailabilityVsCost s = Some (normalizeOrientation (Orientation e))))
   \<and> (update c r b e changes = (None, u) \<longrightarrow> Orientation changes \<noteq> None \<longrightarrow>
        (\<exists>s. grp_Strategy (u_group u) = Some s
           \<and> st_AvailabilityVsCost s = Some (normalizeOrientation (Orientation e))))
   \<and> (RenderTerraform c t r a e changes = (None, calls) \<longrightarrow>
        (\<exists>pre name tf. calls = pre @ [Resource ''spotinst_elastigroup_aws'' name tf]
           \<and> tf_Orientation tf = Some (normalizeOrientation (Orientation e))))"
proof (intro conjI impI)
  show "normalizeOrientation orientation =
     (if orientation = Some ''cost'' then ''costOriented''
      else if orientation = Some ''availability'' then ''availabilityOriented''
      else if orientation = Some ''equal-distribution'' then ''equalAzDistribution''
      else ''balanced'')"
    by (simp add: normalizeOrientation_def OrientationBalanced_def OrientationCost_def
        OrientationAvailability_def OrientationEqualZoneDistribution_def split: option.split)
next
  assume "create fuel c r a e changes = Some ce" and "ce_group ce = Some g"
  then have "create_group c r (applyDefaults e) = Inr g"
    by (auto simp: create_def Let_def split: option.splits sum.splits)
  from create_group_orientation [OF this]
  show "\<exists>s. grp_Strategy g = Some s
           \<and> st_AvailabilityVsCost s = Some (normalizeOrientation (Orientation e))"
    by (simp add: normalizeOrientation_applyDefaults)
next
  assume "update c r b e changes = (None, u)" and "Orientation changes \<noteq> None"
  then show "\<exists>s. grp_Strategy (u_group u) = Some s
           \<and> st_AvailabilityVsCost s = Some (normalizeOrientation (Orientation e))"
    by (rule update_orientation)
next
  assume "RenderTerraform c t r a e changes = (None, calls)"
  then show "\<exists>pre name tf. calls = pre @ [Resource ''spotinst_elastigroup_aws'' name tf]
           \<and> tf_Orientation tf = Some (normalizeOrientation (Orientation e))"
    by (rule RenderTerraform_orientation)
qed

lemmas terraform_defs = RenderTerraform_def terraform_start_def terraform_step_defs
  terraform_render_def terraform_integration_def pure_step_def buildRootDevice_def
  buildEphemeralDevices_def resolveImage_def applyDefaults_def buildTags_def

theorem C10_orientation_is_normalized_alike_witness:
  "normalizeOrientation (Some ''cheap'') = ''balanced''
   \<and> (\<exists>s. grp_Strategy (the (ce_group (the (create (Suc 0)
              (example_cloud\<lparr>List := Inr [example_group]\<rparr>) no_ranges
              None (example_task\<lparr>Orientation := Some ''cost''\<rparr>)
              (empty_Elastigroup\<lparr>Orientation := Some ''cost''\<rparr>))))) = Some s
          \<and> st_AvailabilityVsCost s = Some ''costOriented'')
   \<and> (\<exists>s. grp_Strategy (u_group (snd (update
              (example_cloud\<lparr>List := Inr [example_group]\<rparr>) no_ranges
              empty_Elastigroup (example_task\<lparr>Orientation := Some ''cost''\<rparr>)
              (empty_Elastigroup\<lparr>Orientation := Some ''cost''\<rparr>)))) = Some s
          \<and> st_AvailabilityVsCost s = Some ''costOriented'')
   \<and> (\<exists>pre name tf. snd (RenderTerraform
              (example_cloud\<lparr>List := Inr [example_group]\<rparr>) example_target no_ranges
              None (example_task\<lparr>Orientation := Some ''cost''\<rparr>)
              (empty_Elastigroup\<lparr>Orientation := Some ''cost''\<rparr>))
            = pre @ [Resource ''spotinst_elastigroup_aws'' name tf]
          \<and> tf_Orientation tf = Some ''costOriented'')"
proof -
  let ?c = "example_cloud\<lparr>List := Inr [example_group]\<rparr>"
  let ?e = "example_task\<lparr>Orientation := Some ''cost''\<rparr>"
  let ?ch = "empty_Elastigroup\<lparr>Orientation := Some ''cost''\<rparr>"
  obtain ce g where ce: "create (Suc 0) ?c no_ranges None ?e ?ch = Some ce"
    and g: "ce_group ce = Some g"
    by (simp add: create_def create_defs example_defs)
  have f: "find ?c ''nodes'' = Inr example_group"
    by (rule find_example_group)
  have n: "Name ?e = Some ''nodes''"
    by (simp add: example_task_def)
  have r: "update_render ?c no_ranges example_group empty_Elastigroup ?e ?ch =
      (None, applied (with_Strategy (\<lambda>s. s\<lparr>st_AvailabilityVsCost :=
                        Some (normalizeOrientation (Some ''cost''))\<rparr>))
               (\<lambda>ch. ch\<lparr>Orientation := None\<rparr>) (update_start example_group ?ch))"
    by (simp add: update_render_def update_blocks_def pure_step_def update_skip
        update_Orientation_def)
  let ?u1 = "applied (with_Strategy (\<lambda>s. s\<lparr>st_AvailabilityVsCost :=
                        Some (normalizeOrientation (Some ''cost''))\<rparr>))
               (\<lambda>ch. ch\<lparr>Orientation := None\<rparr>) (update_start example_group ?ch)"
  have w1: "update_warn ?u1 = (None, ?u1)"
    by (simp add: update_warn_def)
  have i: "grp_ID (u_group ?u1) = Some ''sig-1''"
    by (simp add: with_Strategy_def example_group_def)
  have w: "NewElastigroup ?c (u_group ?u1) = None" "Update ?c (u_group ?u1) = None"
    by (simp_all add: example_cloud_def)
  note s1 = update_send_accepted [OF i w]
  obtain u where u: "update ?c no_ranges empty_Elastigroup ?e ?ch = (None, u)"
    by (simp add: update_def n f r w1 s1)
  obtain calls where t: "RenderTerraform ?c example_target no_ranges None ?e ?ch = (None, calls)"
    by (simp add: terraform_defs example_defs example_target_def)
  have o: "Orientation ?ch \<noteq> None" "Orientation ?e = Some ''cost''"
    by simp_all
  have no: "normalizeOrientation (Some ''cost'') = ''costOriented''"
    by (simp add: normalizeOrientation_def OrientationCost_def)
  from C10_orientation_is_normalized_alike [of "Some ''cheap''" "Suc 0" ?c no_ranges None ?e ?ch
      ce g empty_Elastigroup u example_target calls]
  show ?thesis
    by (simp only: ce g u t o no option.sel snd_conv) simp
qed

subsection \<open>A second pass\<close>

text \<open>A property that every step keeps holds at the end of the steps.\<close>

lemma steps_invariant:
  assumes "steps ss u = (err, u2)" and "P u"
    and "\<And>s v err1 v1. s \<in> set ss \<Longrightarrow> s v = (err1, v1) \<Longrightarrow> P v \<Longrightarrow> P v1"
  shows "P u2"
  using assms
proof (induction ss arbitrary: u)
  case Nil
  then show ?case by simp
next
  case (Cons s ss)
  obtain err1 u1 where s: "s u = (err1, u1)"
    by (cases "s u")
  have p: "P u1"
    by (rule Cons.prems(3) [of s u err1 u1]) (simp_all add: s Cons.prems(2))
  show ?case
  proof (cases err1)
    case None
    with Cons.prems(1) s have "steps ss u1 = (err, u2)"
      by simp
    then show ?thesis
    proof (rule Cons.IH [OF _ p])
      fix s1 v err2 v1
      assume "s1 \<in> set ss" and "s1 v = (err2, v1)" and "P v"
      then show "P v1"
        using Cons.prems(3) [of s1 v err2 v1] by simp
    qed
  next
    case (Some x)
    with Cons.prems(1) s have "u2 = u1"
      by simp
    with p show ?thesis by simp
  qed
qed

text \<open>A populated orientation of the changes sets the flag of \<^verbatim>\<open>update\<close>, and no
  block unsets it.\<close>

lemma update_block_keeps_changed:
  assumes "s \<in> set (update_blocks c r actual a e)" and "s u = (err, u1)"
    and "u_changed u \<or> Orientation (u_changes u) \<noteq> None"
  shows "u_changed u1 \<or> Orientation (u_changes u1) \<noteq> None"
  using assms unfolding update_blocks_def
  by (auto simp: update_block_defs pure_step_def applied_def
      update_rootDevices_def update_ebsOptimized_def Let_def next_step_def
      split: if_splits option.splits sum.splits prod.splits)

lemma update_render_changed:
  assumes "update_render c r actual a e changes = (None, u1)"
    and "Orientation changes \<noteq> None"
  shows "u_changed u1"
proof -
  let ?P = "\<lambda>u. u_changed u \<or> Orientation (u_changes u) \<noteq> None"
  have "?P u1"
    using assms(1) unfolding update_render_def
  proof (rule steps_invariant)
    show "?P (update_start actual changes)"
      using assms(2) by simp
  next
    fix s v err1 v1
    assume "s \<in> set (update_blocks c r actual a e)" and "s v = (err1, v1)" and "?P v"
    then show "?P v1"
      by (rule update_block_keeps_changed)
  qed
  moreover from update_render_changes [OF assms(1)] have "Orientation (u_changes u1) = None"
    by auto
  ultimately show ?thesis
    by simp
qed

text \<open>When \<^verbatim>\<open>update\<close> returns nil on changes with a populated orientation, it has sent
  the group to the provider.\<close>

lemma update_sends_orientation:
  assumes "update c r a e changes = (None, u)" and "Orientation changes \<noteq> None"
  shows "u_updates u = [u_group u]"
proof -
  from assms(1) obtain name actual where n: "Name e = Some name"
    and f: "find c name = Inr actual"
    and st: "next_step (update_render c r actual a e changes)
               (steps [update_warn, update_send c]) = (None, u)"
    by (auto simp: update_def split: option.splits sum.splits)
  obtain err1 u1 where r: "update_render c r actual a e changes = (err1, u1)"
    by (cases "update_render c r actual a e changes")
  with st have e1: "err1 = None" and "steps [update_warn, update_send c] u1 = (None, u)"
    by (cases err1; simp)+
  then obtain u2 where w: "update_warn u1 = (None, u2)" and s: "update_send c u2 = (None, u)"
    by (elim steps_Cons_NoneE) simp
  have "u_changed u1" and "u_updates u1 = []"
    using update_render_changed [OF r [unfolded e1] assms(2)] update_render_frame(3) [OF r]
    by simp_all
  with w have "u_changed u2" and "u_updates u2 = []"
    by (auto simp: update_warn_def split: if_splits option.splits)
  with s show ?thesis
    by (auto simp: update_send_def split: if_splits option.splits)
qed

text \<open>\<^verbatim>\<open>Find\<close> hands on the orientation of the live group as the provider has it.\<close>

lemma Find_loadBalancer_keeps_orientation:
  assumes "Find_loadBalancer c e lc a1 = Inr a2"
  shows "Orientation a2 = Orientation a1"
  using assms
  by (auto simp: Find_loadBalancer_def Find_loadBalancer_resolve_def Let_def
      split: option.splits list.splits if_splits sum.splits)

lemma Find_launchSpecification_keeps_orientation:
  assumes "Find_launchSpecification c e g a1 = Inr a2"
  shows "Orientation a2 = Orientation a1"
proof -
  from assms obtain lc b1 b2 b3 where
    i: "Find_image c e lc a1 = Inr b1" and
    u: "Find_userData c lc (Find_rootVolume c lc (Find_securityGroups lc (Find_tags lc b1)))
          = Inr b2" and
    l: "Find_loadBalancer c e lc (Find_networkInterfaces lc b2) = Inr b3" and
    a2: "a2 = Find_rest lc b3"
    by (auto simp: Find_launchSpecification_def and_then_def split: option.splits sum.splits)
  from i have "Orientation b1 = Orientation a1"
    by (auto simp: Find_image_def Let_def and_then_def split: if_splits sum.splits)
  moreover from u have "Orientation b2 = Orientation b1"
    by (auto simp: Find_userData_def Find_rootVolume_def Find_securityGroups_def Find_tags_def
        Let_def split: option.splits sum.splits if_splits)
  moreover from Find_loadBalancer_keeps_orientation [OF l]
  have "Orientation b3 = Orientation b2"
    by (simp add: Find_networkInterfaces_def)
  moreover have "Orientation (Find_rest lc b3) = Orientation b3"
    by (simp add: Find_rest_def Let_def split: option.splits)
  ultimately show ?thesis
    using a2 by simp
qed

lemma Find_orientation:
  assumes "Find c e = Inr actual" and "Name e = Some name" and "find c name = Inr live"
  shows "Orientation actual = Option.bind (grp_Strategy live) st_AvailabilityVsCost"
proof -
  from assms obtain a1 a2 a3 a4 where
    c1: "Find_capacity live (empty_Elastigroup\<lparr>ID := grp_ID live, Name := grp_Name live,
            Region := grp_Region live\<rparr>) = Inr a1" and
    c2: "Find_strategy live a1 = Inr a2" and
    c3: "Find_compute c e live a2 = Inr a3" and
    c4: "Find_launchSpecification c e live a3 = Inr a4" and
    ac: "actual = (Find_autoScaler live a4)\<lparr>Lifecycle := Lifecycle e\<rparr>"
    by (auto simp: Find_def and_then_def split: sum.splits)
  from c2 have "Orientation a2 = Option.bind (grp_Strategy live) st_AvailabilityVsCost"
    by (auto simp: Find_strategy_def Let_def split: option.splits if_splits)
  moreover from c3 have "Orientation a3 = Orientation a2"
    by (auto simp: Find_compute_def Let_def and_then_def split: option.splits sum.splits if_splits)
  moreover from Find_launchSpecification_keeps_orientation [OF c4]
  have "Orientation a4 = Orientation a3" .
  moreover have "Orientation (Find_autoScaler live a4) = Orientation a4"
    by (simp add: Find_autoScaler_def Let_def split: option.splits)
  ultimately show ?thesis
    using ac by simp
qed

text \<open>C5, at a desired orientation that \<^verbatim>\<open>normalizeOrientation\<close> translates (cost,
  availability, equal-distribution): \<^verbatim>\<open>create\<close> has sent the translated value,
  \<^verbatim>\<open>Find\<close> of the next pass reads it back as it is, so the actual orientation differs
  from the desired one although nothing has changed.  The Delta of the second pass is
  not empty, its orientation is populated, and whenever \<^verbatim>\<open>update\<close> returns nil on it,
  it has sent an Update to the provider, with the orientation the group already has.\<close>

theorem C5_second_pass_after_create_sends_an_update:
  assumes "create fuel c r None e changes = Some ce" and "ce_error ce = None"
    and "ce_group ce = Some g"
    and "Name e = Some name" and "Orientation e = Some ori"
    and "normalizeOrientation (Some ori) \<noteq> ori"
    and "find c2 name = Inr live" and "grp_Strategy live = grp_Strategy g"
    and "Find c2 e = Inr actual"
  shows "Orientation actual = Some (normalizeOrientation (Some ori))
       \<and> Orientation (Delta actual e) = Some ori
       \<and> Delta actual e \<noteq> empty_Elastigroup
       \<and> (\<forall>u. update c2 r2 actual e (Delta actual e) = (None, u) \<longrightarrow>
            u_updates u = [u_group u]
            \<and> (\<exists>s. grp_Strategy (u_group u) = Some s
                  \<and> st_AvailabilityVsCost s = Some (normalizeOrientation (Some ori))))"
proof -
  from assms(1,3) have "create_group c r (applyDefaults e) = Inr g"
    by (auto simp: create_def Let_def split: option.splits sum.splits)
  from create_group_orientation [OF this] obtain s where
    "grp_Strategy g = Some s"
    and "st_AvailabilityVsCost s = Some (normalizeOrientation (Orientation e))"
    by (auto simp: normalizeOrientation_applyDefaults)
  with assms(5,8) have "Option.bind (grp_Strategy live) st_AvailabilityVsCost
      = Some (normalizeOrientation (Some ori))"
    by simp
  with Find_orientation [OF assms(9,4,7)]
  have a: "Orientation actual = Some (normalizeOrientation (Some ori))"
    by simp
  with assms(5,6) have d: "Orientation (Delta actual e) = Some ori"
    by (simp add: Delta_def differing_def)
  then have ne: "Delta actual e \<noteq> empty_Elastigroup"
    by auto
  have "u_updates u = [u_group u]
      \<and> (\<exists>s. grp_Strategy (u_group u) = Some s
            \<and> st_AvailabilityVsCost s = Some (normalizeOrientation (Some ori)))"
    if u: "update c2 r2 actual e (Delta actual e) = (None, u)" for u
    using update_sends_orientation [OF u] update_orientation [OF u] d assms(5) by simp
  with a d ne show ?thesis
    by blast
qed

lemmas Find_defs = Find_def find_def Find_capacity_def Find_strategy_def Find_compute_def
  Find_launchSpecification_def Find_image_def Find_tags_def Find_securityGroups_def
  Find_rootVolume_def Find_rootVolume_device_def Find_userData_def
  Find_networkInterfaces_def Find_loadBalancer_def Find_rest_def Find_autoScaler_def
  subnetSlicesEqualIgnoreOrder_def appended_def NewStringResource_def

lemmas Delta_defs = Delta_def differing_def differing_set_def Delta_RootVolumeOpts_def
  Delta_AutoScalerOpts_def

theorem C5_second_pass_after_create_sends_an_update_witness:
  "\<exists>ce actual u.
      create (Suc 0) example_cloud no_ranges None cost_task empty_Elastigroup = Some ce
    \<and> ce_error ce = None
    \<and> Find (second_cloud cost_task) cost_task = Inr actual
    \<and> Orientation actual = Some ''costOriented''
    \<and> Delta actual cost_task = empty_Elastigroup\<lparr>Orientation := Some ''cost''\<rparr>
    \<and> update (second_cloud cost_task) no_ranges actual cost_task (Delta actual cost_task)
        = (None, u)
    \<and> u_updates u = [u_group u]
    \<and> u_group u = new_Group\<lparr>grp_ID := Some ''sig-1'',
          grp_Strategy := Some (new_Strategy\<lparr>st_AvailabilityVsCost := Some ''costOriented''\<rparr>)\<rparr>"
proof -
  let ?c2 = "second_cloud cost_task"
  let ?ch = "empty_Elastigroup\<lparr>Orientation := Some ''cost''\<rparr>"
  obtain ce g where ce: "create (Suc 0) example_cloud no_ranges None cost_task empty_Elastigroup
      = Some ce" and er: "ce_error ce = None" and g: "ce_group ce = Some g"
    by (simp add: create_def create_defs example_defs cost_task_def)
  from ce g have cg: "create_group example_cloud no_ranges (applyDefaults cost_task) = Inr g"
    by (auto simp: create_def Let_def split: option.splits sum.splits)
  have live: "created_group cost_task = g\<lparr>grp_ID := Some ''sig-1''\<rparr>"
    by (simp add: created_group_def cg)
  have gn: "grp_Name g = Some ''nodes''"
    using cg by (auto simp: create_defs example_defs cost_task_def)
  have n: "Name cost_task = Some ''nodes''" and o: "Orientation cost_task = Some ''cost''"
    by (simp_all add: cost_task_def)
  have no: "normalizeOrientation (Some ''cost'') = ''costOriented''"
    by (simp add: normalizeOrientation_def OrientationCost_def)
  have f: "find ?c2 ''nodes'' = Inr (created_group cost_task)"
    by (simp add: find_def second_cloud_def example_cloud_def live gn StringValue_def)
  have st: "grp_Strategy (created_group cost_task) = grp_Strategy g"
    by (simp add: live)
  obtain actual where fa: "Find ?c2 cost_task = Inr actual"
    and da: "Delta actual cost_task = ?ch"
    by (simp add: second_cloud_def created_group_def cost_task_def create_defs example_defs
        Find_defs Delta_defs normalizeOrientation_def OrientationCost_def)
  let ?u1 = "applied (with_Strategy (\<lambda>s. s\<lparr>st_AvailabilityVsCost :=
                        Some (normalizeOrientation (Some ''cost''))\<rparr>))
               (\<lambda>ch. ch\<lparr>Orientation := None\<rparr>) (update_start (created_group cost_task) ?ch)"
  have r: "update_render ?c2 no_ranges (created_group cost_task) actual cost_task ?ch
      = (None, ?u1)"
    by (simp add: update_render_def update_blocks_def pure_step_def update_skip
        update_Orientation_def o)
  have w1: "update_warn ?u1 = (None, ?u1)"
    by (simp add: update_warn_def)
  have i: "grp_ID (u_group ?u1) = Some ''sig-1''"
    by (simp add: with_Strategy_def live)
  have w: "NewElastigroup ?c2 (u_group ?u1) = None" "Update ?c2 (u_group ?u1) = None"
    by (simp_all add: second_cloud_def example_cloud_def)
  note s1 = update_send_accepted [OF i w]
  have u: "update ?c2 no_ranges actual cost_task (Delta actual cost_task)
      = (None, ?u1\<lparr>u_updates := [u_group ?u1]\<rparr>)"
    by (simp add: update_def n f da r w1 s1)
  have ug: "u_group ?u1 = new_Group\<lparr>grp_ID := Some ''sig-1'',
          grp_Strategy := Some (new_Strategy\<lparr>st_AvailabilityVsCost := Some ''costOriented''\<rparr>)\<rparr>"
    by (simp add: with_Strategy_def live no new_Group_def)
  from C5_second_pass_after_create_sends_an_update [OF ce er g n o _ f st fa, of no_ranges]
    fa da u ug ce er
  show ?thesis
    by (simp add: no)
qed

text \<open>So it is with a root volume of type gp2 for which the task asks a number of
  IOPS: \<^verbatim>\<open>create\<close> has left them out, \<^verbatim>\<open>Find\<close> reads none, and the root volume of
  the actual state differs from the desired one.\<close>

lemma second_pass_root_volume_differs:
  "\<exists>actual. Find (second_cloud example_task) example_task = Inr actual
     \<and> RootVolumeOpts actual = Some (new_RootVolumeOpts\<lparr>rv_Type := Some ''gp2'',
         rv_Size := Some 64\<rparr>)
     \<and> RootVolumeOpts actual \<noteq> RootVolumeOpts example_task"
  by (simp add: second_cloud_def created_group_def create_defs example_defs Find_defs)

subsection \<open>The order of tags and labels\<close>

text \<open>Two sequences in which a loop may visit one map hold the same entries.\<close>

lemma range_of_same:
  assumes "range_of m kvs1" and "range_of m kvs2"
  shows "mset kvs1 = mset kvs2" and "set kvs1 = set kvs2"
proof -
  have "mset kvs1 = mset kvs2 \<and> set kvs1 = set kvs2"
  proof (cases m)
    case None
    with assms show ?thesis
      by (simp add: range_of_def)
  next
    case (Some f)
    with assms have d: "distinct (map fst kvs1)" "distinct (map fst kvs2)"
      and "map_of kvs1 = map_of kvs2"
      by (simp_all add: range_of_def)
    then have s: "set kvs1 = set kvs2"
      by (simp add: map_of_inject_set)
    from d have "distinct kvs1" "distinct kvs2"
      by (simp_all add: distinct_map)
    with s show ?thesis
      by (simp add: set_eq_iff_mset_eq_distinct)
  qed
  then show "mset kvs1 = mset kvs2" and "set kvs1 = set kvs2"
    by simp_all
qed

text \<open>A role loop that ends without an error has seen at most one role that is not
  empty, and returns it.\<close>

lemma role_loop_Inr:
  assumes "role_loop pre r0 keys = Inr r"
  shows "r \<in> insert r0 ((\<lambda>k. TrimPrefix k pre) ` {k \<in> set keys. HasPrefix k pre})
       \<and> (\<forall>x \<in> insert r0 ((\<lambda>k. TrimPrefix k pre) ` {k \<in> set keys. HasPrefix k pre}).
             x = [] \<or> x = r)"
  using assms
proof (induction keys arbitrary: r0)
  case Nil
  then show ?case by simp
next
  case (Cons key keys)
  show ?case
  proof (cases "HasPrefix key pre")
    case False
    with Cons.prems have "role_loop pre r0 keys = Inr r"
      by simp
    from Cons.IH [OF this] False show ?thesis
      by auto
  next
    case True
    with Cons.prems have ok: "r0 = [] \<or> r0 = TrimPrefix key pre"
      and "role_loop pre (TrimPrefix key pre) keys = Inr r"
      by (auto simp: Let_def split: if_splits)
    from Cons.IH [OF this(2)] ok True show ?thesis
      by auto
  qed
qed

lemma role_loop_same:
  assumes "role_loop pre [] keys1 = Inr role1" and "role_loop pre [] keys2 = Inr role2"
    and "set keys1 = set keys2"
  shows "role1 = role2"
proof -
  define S where "S = insert [] ((\<lambda>k. TrimPrefix k pre) ` {k \<in> set keys1. HasPrefix k pre})"
  have a: "role1 \<in> S" "\<forall>x \<in> S. x = [] \<or> x = role1"
    using role_loop_Inr [OF assms(1)] by (simp_all add: S_def)
  have b: "role2 \<in> S" "\<forall>x \<in> S. x = [] \<or> x = role2"
    using role_loop_Inr [OF assms(2)] by (simp_all add: S_def assms(3))
  from a(1) b(2) have "role1 = [] \<or> role1 = role2"
    by blast
  moreover from b(1) a(2) have "role2 = [] \<or> role2 = role1"
    by blast
  ultimately show ?thesis
    by blast
qed

lemma steps_append_None:
  "steps (xs @ ys) u = (None, u2) \<Longrightarrow> \<exists>u1. steps xs u = (None, u1) \<and> steps ys u1 = (None, u2)"
proof (induction xs arbitrary: u)
  case Nil
  then show ?case by simp
next
  case (Cons s xs)
  then show ?case
    by (cases "s u") (auto simp: next_step_def split: option.splits)
qed

lemma applyDefaults_keeps_maps:
  "Tags (applyDefaults e) = Tags e" "AutoScalerOpts (applyDefaults e) = AutoScalerOpts e"
  by (simp_all add: applyDefaults_def Let_def)

text \<open>A run of \<^verbatim>\<open>RenderTerraform\<close> that returns nil, taken apart: the steps that do
  not loop over a map, the role, and the resource with its labels and tags.\<close>

lemma RenderTerraform_None:
  assumes "RenderTerraform c t r a e changes = (None, calls)"
  shows "\<exists>s0 role s2 name.
      terraform_image c (applyDefaults e) (terraform_start (applyDefaults e)) = (None, s0)
    \<and> role_loop (CloudTagInstanceGroupRolePrefix t) [] (map fst (rng_role r)) = Inr role
    \<and> steps [terraform_securityGroups t (applyDefaults e), terraform_userData t (applyDefaults e),
         pure_step (terraform_links t (applyDefaults e)), terraform_subnets t (applyDefaults e),
         pure_step (terraform_loadBalancer t (applyDefaults e)),
         terraform_rootVolume c (applyDefaults e)] (s0\<lparr>t_role := role\<rparr>) = (None, s2)
    \<and> Name (applyDefaults e) = Some name
    \<and> calls = t_calls s2 @ [Resource ''spotinst_elastigroup_aws'' name
         (t_tf (terraform_tags r (applyDefaults e) (terraform_autoScaler r (applyDefaults e) s2)))]"
proof -
  let ?e = "applyDefaults e"
  let ?mid = "[terraform_securityGroups t ?e, terraform_userData t ?e,
         pure_step (terraform_links t ?e), terraform_subnets t ?e,
         pure_step (terraform_loadBalancer t ?e), terraform_rootVolume c ?e]"
  let ?end = "[pure_step (terraform_autoScaler r ?e), pure_step (terraform_tags r ?e),
         terraform_render t ?e]"
  from assms obtain s where s: "steps (terraform_image c ?e # terraform_role t r # ?mid @ ?end)
        (terraform_start ?e) = (None, s)"
    and c: "calls = t_calls s"
    by (auto simp: RenderTerraform_def Let_def split: prod.splits)
  from s obtain s0 s1 where i: "terraform_image c ?e (terraform_start ?e) = (None, s0)"
    and ro: "terraform_role t r s0 = (None, s1)"
    and rest: "steps (?mid @ ?end) s1 = (None, s)"
    by - (erule steps_Cons_NoneE, erule steps_Cons_NoneE, blast)
  from ro obtain role where
    rl: "role_loop (CloudTagInstanceGroupRolePrefix t) [] (map fst (rng_role r)) = Inr role"
    and s1: "s1 = s0\<lparr>t_role := role\<rparr>"
    by (auto simp: terraform_role_def split: sum.splits)
  from steps_append_None [OF rest] obtain s2 where m: "steps ?mid s1 = (None, s2)"
    and e: "steps ?end s2 = (None, s)"
    by blast
  from e obtain name where n: "Name ?e = Some name"
    and "s = (terraform_tags r ?e (terraform_autoScaler r ?e s2))\<lparr>t_calls :=
           t_calls (terraform_tags r ?e (terraform_autoScaler r ?e s2)) @
           [Resource ''spotinst_elastigroup_aws'' name
              (t_tf (terraform_tags r ?e (terraform_autoScaler r ?e s2)))]\<rparr>"
    by (auto simp: pure_step_def terraform_render_def Let_def split: option.splits)
  then have "t_calls s = t_calls s2 @ [Resource ''spotinst_elastigroup_aws'' name
         (t_tf (terraform_tags r ?e (terraform_autoScaler r ?e s2)))]"
    by (simp add: terraform_tags_def terraform_autoScaler_def split: option.splits)
  with i rl m n c s1 show ?thesis
    by blast
qed

lemma appended_mset:
  "mset xs = mset ys \<Longrightarrow> map_option mset (appended xs) = map_option mset (appended ys)"
  by (auto simp: appended_def)

lemma terraform_tags_up_to_order:
  assumes "mset (rng_tags r1) = mset (rng_tags r2)"
  shows "(t_tf (terraform_tags r1 e s1))\<lparr>tf_Tags := None\<rparr> = (t_tf s1)\<lparr>tf_Tags := None\<rparr>"
    and "tf_Tags (t_tf s1) = tf_Tags (t_tf s2) \<Longrightarrow>
         map_option mset (tf_Tags (t_tf (terraform_tags r1 e s1)))
           = map_option mset (tf_Tags (t_tf (terraform_tags r2 e s2)))"
proof -
  show "(t_tf (terraform_tags r1 e s1))\<lparr>tf_Tags := None\<rparr> = (t_tf s1)\<lparr>tf_Tags := None\<rparr>"
    by (simp add: terraform_tags_def)
  have "mset (map (\<lambda>tag. \<lparr> kv_Key = tag_Key tag, kv_Value = tag_Value tag \<rparr>) (buildTags (rng_tags r1)))
      = mset (map (\<lambda>tag. \<lparr> kv_Key = tag_Key tag, kv_Value = tag_Value tag \<rparr>) (buildTags (rng_tags r2)))"
    by (simp only: buildTags_def mset_map assms)
  then show "tf_Tags (t_tf s1) = tf_Tags (t_tf s2) \<Longrightarrow>
         map_option mset (tf_Tags (t_tf (terraform_tags r1 e s1)))
           = map_option mset (tf_Tags (t_tf (terraform_tags r2 e s2)))"
    by (auto simp: terraform_tags_def intro!: appended_mset)
qed

lemma terraform_integration_up_to_order:
  assumes "mset (rng_labels r1) = mset (rng_labels r2)"
  shows "(terraform_integration r1 opts)\<lparr>ti_Labels := None\<rparr>
           = (terraform_integration r2 opts)\<lparr>ti_Labels := None\<rparr>"
    and "map_option mset (ti_Labels (terraform_integration r1 opts))
           = map_option mset (ti_Labels (terraform_integration r2 opts))"
proof -
  show "(terraform_integration r1 opts)\<lparr>ti_Labels := None\<rparr>
           = (terraform_integration r2 opts)\<lparr>ti_Labels := None\<rparr>"
    by (simp add: terraform_integration_def Let_def split: option.splits)
  have "mset (map (\<lambda>(k, v). \<lparr> kv_Key = Some k, kv_Value = Some v \<rparr>) (rng_labels r1))
      = mset (map (\<lambda>(k, v). \<lparr> kv_Key = Some k, kv_Value = Some v \<rparr>) (rng_labels r2))"
    by (simp only: mset_map assms)
  then show "map_option mset (ti_Labels (terraform_integration r1 opts))
           = map_option mset (ti_Labels (terraform_integration r2 opts))"
    by (simp add: terraform_integration_def Let_def split: option.splits)
qed

lemma two_tags_twisted:
  "[''b'' \<mapsto> ''2'', ''a'' \<mapsto> ''1''] = [''a'' \<mapsto> ''1'', ''b'' \<mapsto> (''2'' :: string)]"
  by (rule fun_upd_twist) simp

text \<open>C9, as stated: two runs of the Terraform rendering of one desired specification
  produce the same document.  They need not: a task with two tags, rendered once with
  the loop of \<^verbatim>\<open>buildTags\<close> visiting the tags in one order and once in the other (both
  are orders in which \<^verbatim>\<open>range\<close> may visit the map), gives two different resources.\<close>

theorem C9_tag_order_changes_the_document:
  "ranges_of (example_task\<lparr>Tags := Some [''a'' \<mapsto> ''1'', ''b'' \<mapsto> ''2'']\<rparr>)
     \<lparr> rng_role = [(''a'', ''1''), (''b'', ''2'')], rng_labels = [],
       rng_tags = [(''a'', ''1''), (''b'', ''2'')] \<rparr>
   \<and> ranges_of (example_task\<lparr>Tags := Some [''a'' \<mapsto> ''1'', ''b'' \<mapsto> ''2'']\<rparr>)
     \<lparr> rng_role = [(''a'', ''1''), (''b'', ''2'')], rng_labels = [],
       rng_tags = [(''b'', ''2''), (''a'', ''1'')] \<rparr>
   \<and> RenderTerraform example_cloud example_target
       \<lparr> rng_role = [(''a'', ''1''), (''b'', ''2'')], rng_labels = [],
         rng_tags = [(''a'', ''1''), (''b'', ''2'')] \<rparr> None
       (example_task\<lparr>Tags := Some [''a'' \<mapsto> ''1'', ''b'' \<mapsto> ''2'']\<rparr>) empty_Elastigroup
     \<noteq> RenderTerraform example_cloud example_target
       \<lparr> rng_role = [(''a'', ''1''), (''b'', ''2'')], rng_labels = [],
         rng_tags = [(''b'', ''2''), (''a'', ''1'')] \<rparr> None
       (example_task\<lparr>Tags := Some [''a'' \<mapsto> ''1'', ''b'' \<mapsto> ''2'']\<rparr>) empty_Elastigroup"
proof (intro conjI)
  show "ranges_of (example_task\<lparr>Tags := Some [''a'' \<mapsto> ''1'', ''b'' \<mapsto> ''2'']\<rparr>)
     \<lparr> rng_role = [(''a'', ''1''), (''b'', ''2'')], rng_labels = [],
       rng_tags = [(''a'', ''1''), (''b'', ''2'')] \<rparr>"
    by (simp add: ranges_of_def range_of_def Labels_of_def example_task_def)
       (rule two_tags_twisted)
  show "ranges_of (example_task\<lparr>Tags := Some [''a'' \<mapsto> ''1'', ''b'' \<mapsto> ''2'']\<rparr>)
     \<lparr> rng_role = [(''a'', ''1''), (''b'', ''2'')], rng_labels = [],
       rng_tags = [(''b'', ''2''), (''a'', ''1'')] \<rparr>"
    by (simp add: ranges_of_def range_of_def Labels_of_def example_task_def)
       (rule two_tags_twisted)
  show "RenderTerraform example_cloud example_target
       \<lparr> rng_role = [(''a'', ''1''), (''b'', ''2'')], rng_labels = [],
         rng_tags = [(''a'', ''1''), (''b'', ''2'')] \<rparr> None
       (example_task\<lparr>Tags := Some [''a'' \<mapsto> ''1'', ''b'' \<mapsto> ''2'']\<rparr>) empty_Elastigroup
     \<noteq> RenderTerraform example_cloud example_target
       \<lparr> rng_role = [(''a'', ''1''), (''b'', ''2'')], rng_labels = [],
         rng_tags = [(''b'', ''2''), (''a'', ''1'')] \<rparr> None
       (example_task\<lparr>Tags := Some [''a'' \<mapsto> ''1'', ''b'' \<mapsto> ''2'']\<rparr>) empty_Elastigroup"
    by (simp add: terraform_defs example_defs example_target_def appended_def)
qed

text \<open>Whether the rendering fails can depend on the order as well: of the two tag
  keys that are the role prefix and the role prefix followed by a role, the second
  after the first gives the role, and the first after the second is an error.\<close>

lemma role_loop_depends_on_order:
  "role_loop ''k8s.io/role/'' [] [''k8s.io/role/'', ''k8s.io/role/node''] = Inr ''node''"
  "role_loop ''k8s.io/role/'' [] [''k8s.io/role/node'', ''k8s.io/role/'']
     = Inl (MultipleRoleTags ''node'' [])"
  by (simp_all add: TrimPrefix_def)

text \<open>C9, amended: two runs of the Terraform rendering of one desired specification
  that both return nil make the same calls to the target up to the resource at the
  end, and the two resources are the same up to the order of the tags and the order of
  the auto scaler's labels: they agree in every other field, and the tags of the one
  are the tags of the other in some order, and so are the labels.\<close>

theorem C9_RenderTerraform_is_determined_up_to_order:
  assumes "ranges_of e r1" and "ranges_of e r2"
    and "RenderTerraform c t r1 a e changes = (None, calls1)"
    and "RenderTerraform c t r2 a e changes = (None, calls2)"
  shows "\<exists>pre name tf1 tf2.
      calls1 = pre @ [Resource ''spotinst_elastigroup_aws'' name tf1]
    \<and> calls2 = pre @ [Resource ''spotinst_elastigroup_aws'' name tf2]
    \<and> tf1\<lparr>tf_Tags := None, tf_Integration := None\<rparr>
        = tf2\<lparr>tf_Tags := None, tf_Integration := None\<rparr>
    \<and> map_option mset (tf_Tags tf1) = map_option mset (tf_Tags tf2)
    \<and> map_option (\<lambda>i. i\<lparr>ti_Labels := None\<rparr>) (tf_Integration tf1)
        = map_option (\<lambda>i. i\<lparr>ti_Labels := None\<rparr>) (tf_Integration tf2)
    \<and> map_option (\<lambda>i. map_option mset (ti_Labels i)) (tf_Integration tf1)
        = map_option (\<lambda>i. map_option mset (ti_Labels i)) (tf_Integration tf2)"
proof -
  let ?e = "applyDefaults e"
  let ?mid = "[terraform_securityGroups t ?e, terraform_userData t ?e,
         pure_step (terraform_links t ?e), terraform_subnets t ?e,
         pure_step (terraform_loadBalancer t ?e), terraform_rootVolume c ?e]"
  from RenderTerraform_None [OF assms(3)] obtain s0 role s2 name where
    i: "terraform_image c ?e (terraform_start ?e) = (None, s0)"
    and rl: "role_loop (CloudTagInstanceGroupRolePrefix t) [] (map fst (rng_role r1)) = Inr role"
    and m: "steps ?mid (s0\<lparr>t_role := role\<rparr>) = (None, s2)"
    and n: "Name ?e = Some name"
    and c1: "calls1 = t_calls s2 @ [Resource ''spotinst_elastigroup_aws'' name
         (t_tf (terraform_tags r1 ?e (terraform_autoScaler r1 ?e s2)))]"
    by blast
  from RenderTerraform_None [OF assms(4)] obtain s0' role' s2' name' where
    i': "terraform_image c ?e (terraform_start ?e) = (None, s0')"
    and rl': "role_loop (CloudTagInstanceGroupRolePrefix t) [] (map fst (rng_role r2)) = Inr role'"
    and m': "steps ?mid (s0'\<lparr>t_role := role'\<rparr>) = (None, s2')"
    and n': "Name ?e = Some name'"
    and c2: "calls2 = t_calls s2' @ [Resource ''spotinst_elastigroup_aws'' name'
         (t_tf (terraform_tags r2 ?e (terraform_autoScaler r2 ?e s2')))]"
    by blast
  from assms(1,2) have tags: "mset (rng_tags r1) = mset (rng_tags r2)"
    and labels: "mset (rng_labels r1) = mset (rng_labels r2)"
    and "set (rng_role r1) = set (rng_role r2)"
    by (auto simp: ranges_of_def dest: range_of_same)
  then have "set (map fst (rng_role r1)) = set (map fst (rng_role r2))"
    by simp
  with rl rl' have "role' = role"
    by (metis role_loop_same)
  moreover from i i' have "s0' = s0"
    by simp
  ultimately have "s2' = s2"
    using m m' by simp
  moreover from n n' have "name' = name"
    by simp
  ultimately have c2': "calls2 = t_calls s2 @ [Resource ''spotinst_elastigroup_aws'' name
         (t_tf (terraform_tags r2 ?e (terraform_autoScaler r2 ?e s2)))]"
    using c2 by simp
  let ?tf1 = "t_tf (terraform_tags r1 ?e (terraform_autoScaler r1 ?e s2))"
  let ?tf2 = "t_tf (terraform_tags r2 ?e (terraform_autoScaler r2 ?e s2))"
  have t: "tf_Tags (t_tf (terraform_autoScaler r1 ?e s2))
         = tf_Tags (t_tf (terraform_autoScaler r2 ?e s2))"
    by (simp add: terraform_autoScaler_def split: option.splits)
  have g: "tf_Integration ?tf1 = tf_Integration (t_tf (terraform_autoScaler r1 ?e s2))"
      "tf_Integration ?tf2 = tf_Integration (t_tf (terraform_autoScaler r2 ?e s2))"
    by (simp_all add: terraform_tags_def)
  have "?tf1\<lparr>tf_Tags := None, tf_Integration := None\<rparr>
      = (t_tf (terraform_autoScaler r1 ?e s2))\<lparr>tf_Tags := None, tf_Integration := None\<rparr>"
    by (simp add: terraform_tags_def)
  moreover have "?tf2\<lparr>tf_Tags := None, tf_Integration := None\<rparr>
      = (t_tf (terraform_autoScaler r2 ?e s2))\<lparr>tf_Tags := None, tf_Integration := None\<rparr>"
    by (simp add: terraform_tags_def)
  moreover have "(t_tf (terraform_autoScaler r1 ?e s2))\<lparr>tf_Tags := None, tf_Integration := None\<rparr>
      = (t_tf (terraform_autoScaler r2 ?e s2))\<lparr>tf_Tags := None, tf_Integration := None\<rparr>"
    by (simp add: terraform_autoScaler_def split: option.splits)
  ultimately have 1: "?tf1\<lparr>tf_Tags := None, tf_Integration := None\<rparr>
      = ?tf2\<lparr>tf_Tags := None, tf_Integration := None\<rparr>"
    by simp
  have 2: "map_option mset (tf_Tags ?tf1) = map_option mset (tf_Tags ?tf2)"
    using tags t by (rule terraform_tags_up_to_order(2))
  have 3: "map_option (\<lambda>i. i\<lparr>ti_Labels := None\<rparr>) (tf_Integration ?tf1)
        = map_option (\<lambda>i. i\<lparr>ti_Labels := None\<rparr>) (tf_Integration ?tf2)"
    unfolding g
    by (simp add: terraform_autoScaler_def
        terraform_integration_up_to_order(1) [OF labels] split: option.splits)
  have 4: "map_option (\<lambda>i. map_option mset (ti_Labels i)) (tf_Integration ?tf1)
        = map_option (\<lambda>i. map_option mset (ti_Labels i)) (tf_Integration ?tf2)"
    unfolding g
    by (simp add: terraform_autoScaler_def
        terraform_integration_up_to_order(2) [OF labels] split: option.splits)
  from c1 c2' 1 2 3 4 show ?thesis
    by blast
qed

theorem C9_RenderTerraform_is_determined_up_to_order_witness:
  "\<exists>pre name tf1 tf2.
      snd (RenderTerraform example_cloud example_target
       \<lparr> rng_role = [(''a'', ''1''), (''b'', ''2'')], rng_labels = [],
         rng_tags = [(''a'', ''1''), (''b'', ''2'')] \<rparr> None
       (example_task\<lparr>Tags := Some [''a'' \<mapsto> ''1'', ''b'' \<mapsto> ''2'']\<rparr>) empty_Elastigroup)
        = pre @ [Resource ''spotinst_elastigroup_aws'' name tf1]
    \<and> snd (RenderTerraform example_cloud example_target
       \<lparr> rng_role = [(''a'', ''1''), (''b'', ''2'')], rng_labels = [],
         rng_tags = [(''b'', ''2''), (''a'', ''1'')] \<rparr> None
       (example_task\<lparr>Tags := Some [''a'' \<mapsto> ''1'', ''b'' \<mapsto> ''2'']\<rparr>) empty_Elastigroup)
        = pre @ [Resource ''spotinst_elastigroup_aws'' name tf2]
    \<and> tf1\<lparr>tf_Tags := None, tf_Integration := None\<rparr>
        = tf2\<lparr>tf_Tags := None, tf_Integration := None\<rparr>
    \<and> map_option mset (tf_Tags tf1) = map_option mset (tf_Tags tf2)
    \<and> map_option (\<lambda>i. i\<lparr>ti_Labels := None\<rparr>) (tf_Integration tf1)
        = map_option (\<lambda>i. i\<lparr>ti_Labels := None\<rparr>) (tf_Integration tf2)
    \<and> map_option (\<lambda>i. map_option mset (ti_Labels i)) (tf_Integration tf1)
        = map_option (\<lambda>i. map_option mset (ti_Labels i)) (tf_Integration tf2)"
proof -
  let ?e = "example_task\<lparr>Tags := Some [''a'' \<mapsto> ''1'', ''b'' \<mapsto> ''2'']\<rparr>"
  let ?r1 = "\<lparr> rng_role = [(''a'', ''1''), (''b'', ''2'')], rng_labels = [],
         rng_tags = [(''a'', ''1''), (''b'', ''2'')] \<rparr>"
  let ?r2 = "\<lparr> rng_role = [(''a'', ''1''), (''b'', ''2'')], rng_labels = [],
         rng_tags = [(''b'', ''2''), (''a'', ''1'')] \<rparr>"
  have v1: "ranges_of ?e ?r1"
    by (simp add: ranges_of_def range_of_def Labels_of_def example_task_def)
       (rule two_tags_twisted)
  have v2: "ranges_of ?e ?r2"
    by (simp add: ranges_of_def range_of_def Labels_of_def example_task_def)
       (rule two_tags_twisted)
  have "fst (RenderTerraform example_cloud example_target ?r1 None ?e empty_Elastigroup) = None"
    by (simp add: terraform_defs example_defs example_target_def appended_def)
  then have t1: "RenderTerraform example_cloud example_target ?r1 None ?e empty_Elastigroup
      = (None, snd (RenderTerraform example_cloud example_target ?r1 None ?e empty_Elastigroup))"
    by (metis prod.collapse)
  have "fst (RenderTerraform example_cloud example_target ?r2 None ?e empty_Elastigroup) = None"
    by (simp add: terraform_defs example_defs example_target_def appended_def)
  then have t2: "RenderTerraform example_cloud example_target ?r2 None ?e empty_Elastigroup
      = (None, snd (RenderTerraform example_cloud example_target ?r2 None ?e empty_Elastigroup))"
    by (metis prod.collapse)
  show ?thesis
    by (rule C9_RenderTerraform_is_determined_up_to_order [OF v1 v2 t1 t2])
qed

end
